theory Spec2Isabelle
  imports Complex_Main
begin

section \<open>The daily economy update: data model\<close>

text \<open>
  The engine stores every quantity as a single-precision \<^verbatim>\<open>float\<close>. The development
  reads them as real numbers: rounding, infinities and NaN are not represented, and a
  division is only meaningful where its divisor is not zero. Entity tables are dense arrays
  indexed by integer handles; they are modelled as functions from the index, together with
  the number of valid entries.
\<close>

type_synonym commodity_id = nat
type_synonym nation_id = nat
type_synonym pop_type_id = nat
type_synonym province_id = nat
type_synonym state_instance_id = nat
type_synonym factory_id = nat
type_synonym factory_type_id = nat

text \<open>A \<^verbatim>\<open>sys::date\<close> is a day count; the value 0 is the invalid date, which tests false.\<close>

type_synonym date = int

datatype economy_reason =
  reason_pop | reason_factory | reason_rgo | reason_artisan
  | reason_construction | reason_nation | reason_stockpile | reason_overseas_penalty

datatype income_type =
  income_none | income_administration | income_military | income_education
  | income_reforms | income_other

text \<open>The entries of \<^verbatim>\<open>sys::national_mod_offsets\<close> and \<^verbatim>\<open>sys::provincial_mod_offsets\<close> that the economy reads.\<close>

datatype national_mod =
  nm_goods_demand | nm_loan_interest | nm_max_loan_modifier | nm_pension_level
  | nm_unemployment_benefit | nm_factory_maintenance | nm_factory_input
  | nm_factory_throughput | nm_factory_output | nm_mine_rgo_size | nm_farm_rgo_size
  | nm_rgo_throughput | nm_mine_rgo_eff | nm_farm_rgo_eff | nm_rgo_output

datatype provincial_mod =
  pm_mine_rgo_size | pm_farm_rgo_size | pm_local_rgo_throughput | pm_mine_rgo_eff
  | pm_farm_rgo_eff | pm_local_rgo_output | pm_local_factory_input
  | pm_local_factory_throughput | pm_local_factory_output

datatype national_modifier = in_bankrupcy | bad_debter

datatype fixed_event = on_debtor_default_second | on_debtor_default_small | on_debtor_default

record commodity =
  money_rgo :: bool
  is_mine :: bool
  is_available_from_start :: bool
  overseas_penalty_good :: bool
  key_factory :: "factory_type_id option"
  cost :: real
  rgo_amount :: real
  current_price :: real
  total_production :: real
  total_consumption :: real
  total_real_demand :: real
  global_market_pool :: real
  demand_by_category :: "economy_reason \<Rightarrow> real"

record pop_type =
  life_needs :: "commodity_id \<Rightarrow> real"
  everyday_needs :: "commodity_id \<Rightarrow> real"
  luxury_needs :: "commodity_id \<Rightarrow> real"
  life_needs_income_type :: income_type
  everyday_needs_income_type :: income_type
  luxury_needs_income_type :: income_type
  has_unemployment :: bool
  is_paid_rgo_worker :: bool

record nation =
  real_demand :: "commodity_id \<Rightarrow> real"
  intermediate_demand :: "commodity_id \<Rightarrow> real"
  demand_satisfaction :: "commodity_id \<Rightarrow> real"
  direct_demand_satisfaction :: "commodity_id \<Rightarrow> real"
  domestic_market_pool :: "commodity_id \<Rightarrow> real"
  stockpiles :: "commodity_id \<Rightarrow> real"
  stockpile_targets :: "commodity_id \<Rightarrow> real"
  drawing_on_stockpiles :: "commodity_id \<Rightarrow> bool"
  effective_prices :: "commodity_id \<Rightarrow> real"
  nation_imports :: "commodity_id \<Rightarrow> real"
  army_demand :: "commodity_id \<Rightarrow> real"
  navy_demand :: "commodity_id \<Rightarrow> real"
  construction_demand :: "commodity_id \<Rightarrow> real"
  private_construction_demand :: "commodity_id \<Rightarrow> real"
  nation_rgo_size :: "commodity_id \<Rightarrow> real"
  rgo_goods_output :: "commodity_id \<Rightarrow> real"
  factory_goods_throughput :: "commodity_id \<Rightarrow> real"
  factory_goods_output :: "commodity_id \<Rightarrow> real"
  gdp :: real
  in_sphere_of :: "nation_id option"
  is_player_controlled :: bool
  is_debt_spending :: bool
  bankrupt_until :: date
  modifier_values :: "national_mod \<Rightarrow> real"
  timed_modifiers :: "(national_modifier \<times> date) list"
  total_rich_income :: real
  total_middle_income :: real
  total_poor_income :: real
  spending_level :: real
  private_investment :: real
  private_investment_effective_fraction :: real
  maximum_military_costs :: real
  land_spending :: int
  naval_spending :: int
  construction_spending :: int
  overseas_spending :: int
  administrative_spending :: int
  social_spending :: int
  education_spending :: int
  military_spending :: int
  domestic_investment_spending :: int
  tariffs :: int
  administrative_efficiency :: real
  tariff_efficiency :: real
  owned_province_count :: nat
  central_province_count :: nat
  central_ports :: nat
  central_blockaded :: nat
  demographics :: "pop_type_id \<Rightarrow> real"
  employment_demographics :: "pop_type_id \<Rightarrow> real"
  life_needs_costs :: "pop_type_id \<Rightarrow> real"
  everyday_needs_costs :: "pop_type_id \<Rightarrow> real"
  luxury_needs_costs :: "pop_type_id \<Rightarrow> real"
  active_building :: "factory_type_id \<Rightarrow> bool"
  effective_naval_spending :: real
  effective_land_spending :: real
  effective_construction_spending :: real
  overseas_penalty :: real

record pop =
  poptype :: pop_type_id
  raw_employment :: real

record province =
  nation_from_province_ownership :: nation_id
  rgo :: commodity_id
  province_rgo_size :: real
  rgo_max_size_per_good :: "commodity_id \<Rightarrow> real"
  rgo_employment_per_good :: "commodity_id \<Rightarrow> real"
  rgo_target_employment_per_good :: "commodity_id \<Rightarrow> real"
  subsistence_employment :: real
  rgo_employment :: real
  landowners_share :: real
  capitalists_share :: real
  province_modifier_values :: "provincial_mod \<Rightarrow> real"
  province_demographics :: "pop_type_id \<Rightarrow> real"
  province_total_population :: real
  pop_location :: "pop list"

record state_instance =
  state_total_population :: real
  state_capitalists :: real

text \<open>
  A \<^verbatim>\<open>commodity_set\<close> is a fixed array of slots; the first slot without a commodity ends
  the recipe.
\<close>

type_synonym commodity_set = "(commodity_id option \<times> real) list"

record factory_type =
  type_output :: commodity_id
  type_output_amount :: real
  type_inputs :: commodity_set
  type_efficiency_inputs :: commodity_set

record factory =
  building_type :: factory_type_id
  level :: nat
  production_scale :: real
  primary_employment :: real
  secondary_employment :: real
  subsidized :: bool
  unprofitable :: bool
  triggered_modifiers :: real
  actual_production :: real
  full_profit :: real

text \<open>
  The constants the economy reads from \<^verbatim>\<open>state.defines\<close>, from
  \<^verbatim>\<open>state.economy_definitions\<close> and from the header (\<^verbatim>\<open>production_scale_delta\<close>); their
  values are not part of this source file, so they are fields of the state.
\<close>

record sys_defines =
  base_goods_demand :: real
  alice_lf_needs_scale :: real
  alice_ev_needs_scale :: real
  alice_lx_needs_scale :: real
  alice_sat_delay_factor :: real
  alice_needs_scaling_factor :: real
  alice_domestic_investment_multiplier :: real
  province_overseas_penalty :: real
  loan_base_interest :: real
  small_debt_limit :: real
  bankrupcy_duration :: real
  bankruptcy_external_loan_years :: real
  alice_factory_per_level_employment :: real
  alice_inputs_base_factor :: real
  alice_rgo_per_size_employment :: real
  alice_base_rgo_employment_bonus :: real
  alice_base_rgo_efficiency_bonus :: real
  alice_rgo_boost :: real
  craftsmen_fraction :: real
  production_scale_delta :: real

record world =
  commodity_size :: nat
  commodity :: "commodity_id \<Rightarrow> commodity"
  nation_size :: nat
  nation :: "nation_id \<Rightarrow> nation"
  pop_type_size :: nat
  pop_type :: "pop_type_id \<Rightarrow> pop_type"
  first_sea_province :: nat
  province :: "province_id \<Rightarrow> province"
  state_instance :: "state_instance_id \<Rightarrow> state_instance"
  factory_type :: "factory_type_id \<Rightarrow> factory_type"
  factory :: "factory_id \<Rightarrow> factory"
  laborers :: pop_type_id
  capitalists :: pop_type_id
  aristocrat :: pop_type_id
  slaves :: pop_type_id
  rgo_workers :: "pop_type_id list"
  great_nations :: "nation_id option list"
  current_date :: date
  fired_events :: "(fixed_event \<times> nation_id \<times> nation_id) list"
  world_defines :: sys_defines

text \<open>The treasury of a nation is its stockpile of the commodity \<^verbatim>\<open>economy::money\<close>, the first commodity; the loops over goods start at index 1.\<close>

definition money :: commodity_id where
  "money = 0"

text \<open>\<^verbatim>\<open>std::clamp(v, lo, hi)\<close>: \<^verbatim>\<open>(v < lo) ? lo : (hi < v) ? hi : v\<close>.\<close>

definition clampf :: "real \<Rightarrow> real \<Rightarrow> real \<Rightarrow> real" where
  "clampf v lo hi = (if v < lo then lo else if hi < v then hi else v)"

section \<open>Price adjustment (\<^verbatim>\<open>daily_update\<close>, "adjust prices based on global production and consumption")\<close>

text \<open>
  The money commodity: its price follows the cost of the laborers' needs basket, summed over
  the commodities \<open>1 \<le> i < total_commodities\<close> that are available from the start.
\<close>

definition laborer_basket_term :: "world \<Rightarrow> commodity_id \<Rightarrow> real" where
  "laborer_basket_term w i =
    (if is_available_from_start (commodity w i) then
       (let price = current_price (commodity w i);
            t = pop_type w (laborers w);
            base_demand = base_goods_demand (world_defines w);
            base_life = life_needs t i;
            base_everyday = 0.5 * everyday_needs t i;
            base_luxury = 0.1 * luxury_needs t i
        in base_life * base_demand * alice_lf_needs_scale (world_defines w) * price
         + base_everyday * base_demand * alice_ev_needs_scale (world_defines w) * price
         + base_luxury * base_demand * alice_lx_needs_scale (world_defines w) * price)
     else 0)"

definition update_money_price :: "commodity_id \<Rightarrow> world \<Rightarrow> world" where
  "update_money_price c w =
    (if \<not> money_rgo (commodity w c) then w
     else
       (let luxury_costs_laborer = (\<Sum>i\<leftarrow>[1..<commodity_size w]. laborer_basket_term w i)
        in w\<lparr>commodity := (commodity w)
              (c := (commodity w c)\<lparr>current_price := clampf (luxury_costs_laborer * 0.3) 0.001 100000\<rparr>)\<rparr>))"

text \<open>
  Every other commodity: the price moves with the balance of world demand and supply.
  \<open>price_step\<close> is the arithmetic of the loop body, from \<^verbatim>\<open>market_balance\<close> to the
  clamped new price; \<^verbatim>\<open>abs\<close> and \<^verbatim>\<open>math::sqrt\<close> are read as the absolute value and
  the square root of a real number.
\<close>

definition price_step :: "real \<Rightarrow> real \<Rightarrow> real \<Rightarrow> real" where
  "price_step supply demand price =
    (let market_balance = demand - supply;
         max_slope = sqrt \<bar>market_balance\<bar> + 20;
         oversupply_factor = clampf ((supply + 0.001) / (demand + 0.001) - 1) 0 max_slope;
         overdemand_factor = clampf ((demand + 0.001) / (supply + 0.001) - 1) 0 max_slope;
         speed_modifer = overdemand_factor - oversupply_factor;
         price_speed = 0.05 * speed_modifer;
         price_speed' = (if price < 1 then price_speed * price else price_speed * sqrt price)
     in clampf (price + price_speed') 0.001 100000)"

definition world_demand :: "world \<Rightarrow> commodity_id \<Rightarrow> real" where
  "world_demand w k = (\<Sum>n\<leftarrow>[0..<nation_size w]. real_demand (nation w n) k)"

definition world_supply :: "world \<Rightarrow> commodity_id \<Rightarrow> real" where
  "world_supply w k = total_production (commodity w k) + global_market_pool (commodity w k) / 12"

definition update_commodity_price :: "commodity_id \<Rightarrow> world \<Rightarrow> world" where
  "update_commodity_price k w =
    (if money_rgo (commodity w k) then w
     else
       (let ns = [0..<nation_size w];
            total_r_demand = world_demand w k;
            consumption = (\<Sum>n\<leftarrow>ns. real_demand (nation w n) k * demand_satisfaction (nation w n) k);
            production = (\<Sum>n\<leftarrow>ns. domestic_market_pool (nation w n) k);
            supply = world_supply w k;
            demand = total_r_demand
        in w\<lparr>commodity := (commodity w)
              (k := (commodity w k)
                 \<lparr>total_consumption := consumption,
                  total_real_demand := total_r_demand,
                  total_production := production,
                  current_price := price_step supply demand (current_price (commodity w k))\<rparr>)\<rparr>))"

text \<open>The bounds of a price.\<close>

definition price_ok :: "real \<Rightarrow> bool" where
  "price_ok p \<longleftrightarrow> 0.001 \<le> p \<and> p \<le> 100000"

definition update_prices :: "world \<Rightarrow> world" where
  "update_prices w =
    (let w1 = fold update_money_price [0..<commodity_size w] w
     in fold update_commodity_price [0..<commodity_size w1] w1)"

section \<open>Registering demand\<close>

definition register_demand :: "nation_id \<Rightarrow> commodity_id \<Rightarrow> real \<Rightarrow> economy_reason \<Rightarrow> world \<Rightarrow> world" where
  "register_demand n commodity_type amount reason w =
    w\<lparr>nation := (nation w)
        (n := (nation w n)\<lparr>real_demand := (real_demand (nation w n))
                 (commodity_type := real_demand (nation w n) commodity_type + amount)\<rparr>),
      commodity := (commodity w)
        (commodity_type := (commodity w commodity_type)
           \<lparr>demand_by_category := (demand_by_category (commodity w commodity_type))
                 (reason := demand_by_category (commodity w commodity_type) reason + amount)\<rparr>)\<rparr>"

definition register_intermediate_demand :: "nation_id \<Rightarrow> commodity_id \<Rightarrow> real \<Rightarrow> economy_reason \<Rightarrow> world \<Rightarrow> world" where
  "register_intermediate_demand n commodity_type amount reason w =
    (let w1 = register_demand n commodity_type amount reason w;
         price = current_price (commodity w1 commodity_type);
         sat = demand_satisfaction (nation w1 n) commodity_type
     in w1\<lparr>nation := (nation w1)
          (n := (nation w1 n)
             \<lparr>intermediate_demand := (intermediate_demand (nation w1 n))
                 (commodity_type := intermediate_demand (nation w1 n) commodity_type + amount),
              gdp := gdp (nation w1 n) - amount * price * sat\<rparr>)\<rparr>)"

section \<open>Loans\<close>

definition date_valid :: "date \<Rightarrow> bool" where
  "date_valid d \<longleftrightarrow> d \<noteq> 0"

definition can_take_loans :: "world \<Rightarrow> nation_id \<Rightarrow> bool" where
  "can_take_loans w n =
    (if \<not> is_player_controlled (nation w n) \<or> \<not> is_debt_spending (nation w n) then False
     else let last_br = bankrupt_until (nation w n)
          in if date_valid last_br \<and> current_date w < last_br then False else True)"

definition interest_payment :: "world \<Rightarrow> nation_id \<Rightarrow> real" where
  "interest_payment w n =
    (let debt = stockpiles (nation w n) money
     in if debt \<ge> 0 then 0
        else - debt * max 0.01 ((modifier_values (nation w n) nm_loan_interest + 1)
                                * loan_base_interest (world_defines w)) / 30)"

definition max_loan :: "world \<Rightarrow> nation_id \<Rightarrow> real" where
  "max_loan w n =
    (let modifier = modifier_values (nation w n) nm_max_loan_modifier + 1;
         total_tax_base = total_rich_income (nation w n) + total_middle_income (nation w n)
                          + total_poor_income (nation w n)
     in max 0 (total_tax_base * modifier))"

section \<open>Tariffs and effective prices\<close>

definition effective_tariff_rate :: "world \<Rightarrow> nation_id \<Rightarrow> real" where
  "effective_tariff_rate w n =
    tariff_efficiency (nation w n) * real_of_int (tariffs (nation w n)) / 100"

definition global_market_price_multiplier :: "world \<Rightarrow> nation_id \<Rightarrow> real" where
  "global_market_price_multiplier w n =
    (let ports = central_ports (nation w n)
     in if ports > 0
        then effective_tariff_rate w n
             + real (central_blockaded (nation w n)) / real ports
             + 1
        else effective_tariff_rate w n + 1)"

text \<open>The supply a nation counts as domestic: its own pool, its sphere leader's pool and, when it draws on them, its stockpiles.\<close>

definition domestic_supply_of :: "world \<Rightarrow> nation_id \<Rightarrow> commodity_id \<Rightarrow> real" where
  "domestic_supply_of w n c =
    domestic_market_pool (nation w n) c
    + (case in_sphere_of (nation w n) of
         Some sl \<Rightarrow> domestic_market_pool (nation w sl) c
       | None \<Rightarrow> 0)
    + (if drawing_on_stockpiles (nation w n) c then stockpiles (nation w n) c else 0)"

definition effective_price_of :: "world \<Rightarrow> nation_id \<Rightarrow> commodity_id \<Rightarrow> real" where
  "effective_price_of w n c =
    (let global_price_multiplier = global_market_price_multiplier w n;
         domestic_supply = domestic_supply_of w n c;
         global_supply = global_market_pool (commodity w c);
         last_demand = real_demand (nation w n) c;
         base_price = current_price (commodity w c)
     in if global_price_multiplier \<ge> 1 then
          (if last_demand \<le> domestic_supply then base_price
           else if last_demand \<le> domestic_supply + global_supply then
             (let domestic_satisfiable_fraction = domestic_supply / last_demand
              in base_price * domestic_satisfiable_fraction
                 + base_price * (1 - domestic_satisfiable_fraction) * global_price_multiplier)
           else if domestic_supply + global_supply > 0 then
             (let domestic_satisfiable_fraction = domestic_supply / (domestic_supply + global_supply)
              in base_price * domestic_satisfiable_fraction
                 + base_price * (1 - domestic_satisfiable_fraction) * global_price_multiplier)
           else base_price * global_price_multiplier)
        else
          (if last_demand \<le> global_supply then base_price
           else if last_demand \<le> domestic_supply + global_supply then
             (let global_satisfiable_fraction = global_supply / last_demand
              in base_price * global_satisfiable_fraction * global_price_multiplier
                 + base_price * (1 - global_satisfiable_fraction))
           else if domestic_supply + global_supply > 0 then
             (let global_satisfiable_fraction = global_supply / (domestic_supply + global_supply)
              in base_price * global_satisfiable_fraction * global_price_multiplier
                 + base_price * (1 - global_satisfiable_fraction))
           else base_price))"

definition set_effective_price :: "nation_id \<Rightarrow> commodity_id \<Rightarrow> world \<Rightarrow> world" where
  "set_effective_price n c w =
    w\<lparr>nation := (nation w)
        (n := (nation w n)\<lparr>effective_prices := (effective_prices (nation w n))
                 (c := effective_price_of w n c)\<rparr>)\<rparr>"

definition populate_effective_prices :: "nation_id \<Rightarrow> world \<Rightarrow> world" where
  "populate_effective_prices n w = fold (set_effective_price n) [0..<commodity_size w] w"

section \<open>National spending\<close>

definition commodity_unlocked :: "world \<Rightarrow> nation_id \<Rightarrow> commodity_id \<Rightarrow> bool" where
  "commodity_unlocked w n c =
    (is_available_from_start (commodity w c)
     \<or> (case key_factory (commodity w c) of
           Some kf \<Rightarrow> active_building (nation w n) kf
         | None \<Rightarrow> False))"

definition overseas_factor_of :: "world \<Rightarrow> nation_id \<Rightarrow> real" where
  "overseas_factor_of w n =
    province_overseas_penalty (world_defines w)
    * real_of_int (int (owned_province_count (nation w n)) - int (central_province_count (nation w n)))"

definition stockpile_shortfall :: "world \<Rightarrow> nation_id \<Rightarrow> commodity_id \<Rightarrow> real" where
  "stockpile_shortfall w n cid = stockpile_targets (nation w n) cid - stockpiles (nation w n) cid"

text \<open>The parts of \<^verbatim>\<open>full_spending_cost\<close>, in the order in which the function adds them to \<^verbatim>\<open>total\<close>.\<close>

definition army_cost :: "world \<Rightarrow> nation_id \<Rightarrow> real" where
  "army_cost w n =
    (let l_spending = real_of_int (land_spending (nation w n)) / 100
     in \<Sum>cid\<leftarrow>[1..<commodity_size w].
          army_demand (nation w n) cid * l_spending * effective_prices (nation w n) cid)"

definition navy_cost :: "world \<Rightarrow> nation_id \<Rightarrow> real" where
  "navy_cost w n =
    (let n_spending = real_of_int (naval_spending (nation w n)) / 100
     in \<Sum>cid\<leftarrow>[1..<commodity_size w].
          navy_demand (nation w n) cid * n_spending * effective_prices (nation w n) cid)"

definition construction_cost :: "world \<Rightarrow> nation_id \<Rightarrow> real" where
  "construction_cost w n =
    (let c_spending = real_of_int (construction_spending (nation w n)) / 100
     in \<Sum>cid\<leftarrow>[1..<commodity_size w].
          construction_demand (nation w n) cid * c_spending * effective_prices (nation w n) cid)"

definition stockpile_cost :: "world \<Rightarrow> nation_id \<Rightarrow> real" where
  "stockpile_cost w n =
    (\<Sum>cid\<leftarrow>[1..<commodity_size w].
       (let difference = stockpile_shortfall w n cid
        in if difference > 0 \<and> drawing_on_stockpiles (nation w n) cid = False
           then difference * effective_prices (nation w n) cid else 0))"

definition overseas_cost :: "world \<Rightarrow> nation_id \<Rightarrow> real" where
  "overseas_cost w n =
    (let o_spending = real_of_int (overseas_spending (nation w n)) / 100;
         overseas_factor = overseas_factor_of w n
     in if overseas_factor > 0
        then \<Sum>cid\<leftarrow>[1..<commodity_size w].
               (if overseas_penalty_good (commodity w cid) \<and> commodity_unlocked w n cid
                then overseas_factor * effective_prices (nation w n) cid * o_spending else 0)
        else 0)"

definition domestic_investment_cost :: "world \<Rightarrow> nation_id \<Rightarrow> real" where
  "domestic_investment_cost w n =
    (let di_spending = real_of_int (domestic_investment_spending (nation w n))
                       * real_of_int (domestic_investment_spending (nation w n)) / 100 / 100
     in alice_domestic_investment_multiplier (world_defines w) * di_spending
        * (demographics (nation w n) (capitalists w) * luxury_needs_costs (nation w n) (capitalists w)
           + demographics (nation w n) (aristocrat w) * luxury_needs_costs (nation w n) (aristocrat w))
        / alice_needs_scaling_factor (world_defines w))"

definition pop_type_payments :: "world \<Rightarrow> nation_id \<Rightarrow> pop_type_id \<Rightarrow> real" where
  "pop_type_payments w n pt =
    (let a_spending = real_of_int (administrative_spending (nation w n)) / 100
                      * real_of_int (administrative_spending (nation w n)) / 100;
         s_spending = administrative_efficiency (nation w n)
                      * real_of_int (social_spending (nation w n)) / 100;
         e_spending = real_of_int (education_spending (nation w n))
                      * real_of_int (education_spending (nation w n)) / 100 / 100;
         m_spending = real_of_int (military_spending (nation w n))
                      * real_of_int (military_spending (nation w n)) / 100 / 100;
         p_level = modifier_values (nation w n) nm_pension_level;
         unemp_level = modifier_values (nation w n) nm_unemployment_benefit;
         adj_pop_of_type = demographics (nation w n) pt / alice_needs_scaling_factor (world_defines w)
     in if adj_pop_of_type \<le> 0 then 0
        else
          (let ln_type = life_needs_income_type (pop_type w pt);
               ln_costs = life_needs_costs (nation w n) pt;
               en_type = everyday_needs_income_type (pop_type w pt);
               en_costs = everyday_needs_costs (nation w n) pt;
               lx_type = luxury_needs_income_type (pop_type w pt);
               lx_costs = luxury_needs_costs (nation w n) pt
           in (if ln_type = income_administration then a_spending * adj_pop_of_type * ln_costs
               else if ln_type = income_education then e_spending * adj_pop_of_type * ln_costs
               else if ln_type = income_military then m_spending * adj_pop_of_type * ln_costs
               else s_spending * adj_pop_of_type * p_level * ln_costs
                    + (if has_unemployment (pop_type w pt)
                       then (let emp = employment_demographics (nation w n) pt
                                       / alice_needs_scaling_factor (world_defines w)
                             in s_spending * (adj_pop_of_type - emp) * unemp_level * ln_costs)
                       else 0))
            + (if en_type = income_administration then a_spending * adj_pop_of_type * en_costs
               else if en_type = income_education then e_spending * adj_pop_of_type * en_costs
               else if en_type = income_military then m_spending * adj_pop_of_type * en_costs
               else 0)
            + (if lx_type = income_administration then a_spending * adj_pop_of_type * lx_costs
               else if lx_type = income_education then e_spending * adj_pop_of_type * lx_costs
               else if lx_type = income_military then m_spending * adj_pop_of_type * lx_costs
               else 0)))"

definition full_spending_cost :: "world \<Rightarrow> nation_id \<Rightarrow> real" where
  "full_spending_cost w n =
    army_cost w n + navy_cost w n + construction_cost w n + stockpile_cost w n
    + overseas_cost w n + domestic_investment_cost w n
    + (\<Sum>pt\<leftarrow>[0..<pop_type_size w]. pop_type_payments w n pt)"

definition full_private_investment_cost :: "world \<Rightarrow> nation_id \<Rightarrow> real" where
  "full_private_investment_cost w n =
    (\<Sum>cid\<leftarrow>[1..<commodity_size w].
       private_construction_demand (nation w n) cid * effective_prices (nation w n) cid)"

text \<open>Setters of the entity tables, named as in the generated data container.\<close>

definition nation_set_stockpiles :: "nation_id \<Rightarrow> commodity_id \<Rightarrow> real \<Rightarrow> world \<Rightarrow> world" where
  "nation_set_stockpiles n c v w =
    w\<lparr>nation := (nation w)(n := (nation w n)\<lparr>stockpiles := (stockpiles (nation w n))(c := v)\<rparr>)\<rparr>"

definition nation_set_domestic_market_pool :: "nation_id \<Rightarrow> commodity_id \<Rightarrow> real \<Rightarrow> world \<Rightarrow> world" where
  "nation_set_domestic_market_pool n c v w =
    w\<lparr>nation := (nation w)(n := (nation w n)\<lparr>domestic_market_pool := (domestic_market_pool (nation w n))(c := v)\<rparr>)\<rparr>"

definition nation_set_demand_satisfaction :: "nation_id \<Rightarrow> commodity_id \<Rightarrow> real \<Rightarrow> world \<Rightarrow> world" where
  "nation_set_demand_satisfaction n c v w =
    w\<lparr>nation := (nation w)(n := (nation w n)\<lparr>demand_satisfaction := (demand_satisfaction (nation w n))(c := v)\<rparr>)\<rparr>"

definition nation_set_direct_demand_satisfaction :: "nation_id \<Rightarrow> commodity_id \<Rightarrow> real \<Rightarrow> world \<Rightarrow> world" where
  "nation_set_direct_demand_satisfaction n c v w =
    w\<lparr>nation := (nation w)(n := (nation w n)\<lparr>direct_demand_satisfaction := (direct_demand_satisfaction (nation w n))(c := v)\<rparr>)\<rparr>"

definition nation_set_imports :: "nation_id \<Rightarrow> commodity_id \<Rightarrow> real \<Rightarrow> world \<Rightarrow> world" where
  "nation_set_imports n c v w =
    w\<lparr>nation := (nation w)(n := (nation w n)\<lparr>nation_imports := (nation_imports (nation w n))(c := v)\<rparr>)\<rparr>"

definition commodity_set_global_market_pool :: "commodity_id \<Rightarrow> real \<Rightarrow> world \<Rightarrow> world" where
  "commodity_set_global_market_pool c v w =
    w\<lparr>commodity := (commodity w)(c := (commodity w c)\<lparr>global_market_pool := v\<rparr>)\<rparr>"

text \<open>\<^verbatim>\<open>update_national_consumption\<close>: the scaled purchases of the state become real demand.\<close>

definition register_each :: "nation_id \<Rightarrow> economy_reason \<Rightarrow> (commodity_id \<Rightarrow> real option) \<Rightarrow> world \<Rightarrow> world" where
  "register_each n reason amount w =
    fold (\<lambda>cid w'. case amount cid of
                     Some a \<Rightarrow> register_demand n cid a reason w'
                   | None \<Rightarrow> w')
         [1..<commodity_size w] w"

definition update_national_consumption :: "nation_id \<Rightarrow> real \<Rightarrow> real \<Rightarrow> world \<Rightarrow> world" where
  "update_national_consumption n spending_scale private_investment_scale w =
    (let l_spending = real_of_int (land_spending (nation w n)) / 100;
         n_spending = real_of_int (naval_spending (nation w n)) / 100;
         c_spending = real_of_int (construction_spending (nation w n)) / 100;
         o_spending = real_of_int (overseas_spending (nation w n)) / 100;
         w1 = register_each n reason_nation
                (\<lambda>cid. Some (army_demand (nation w n) cid * l_spending * spending_scale)) w;
         w2 = register_each n reason_nation
                (\<lambda>cid. Some (navy_demand (nation w n) cid * n_spending * spending_scale)) w1;
         w3 = register_each n reason_construction
                (\<lambda>cid. Some (construction_demand (nation w n) cid * c_spending * spending_scale)) w2;
         w4 = register_each n reason_construction
                (\<lambda>cid. Some (private_construction_demand (nation w n) cid * private_investment_scale)) w3;
         w5 = register_each n reason_stockpile
                (\<lambda>cid. let difference = stockpile_shortfall w n cid
                        in if difference > 0 \<and> drawing_on_stockpiles (nation w n) cid = False
                           then Some (difference * spending_scale) else None) w4;
         overseas_factor = overseas_factor_of w n
     in if overseas_factor > 0
        then register_each n reason_overseas_penalty
               (\<lambda>cid. if overseas_penalty_good (commodity w cid) \<and> commodity_unlocked w n cid
                       then Some (overseas_factor * spending_scale * o_spending) else None) w5
        else w5)"

text \<open>
  The block "update national spending" of \<^verbatim>\<open>daily_update\<close>: the total is limited to the
  budget, the treasury pays, and the scale is stored as the nation's spending level.
\<close>

definition spending_scale_of :: "real \<Rightarrow> real \<Rightarrow> real" where
  "spending_scale_of total_cost budget =
    (if total_cost < 0.001 \<or> total_cost \<le> budget then 1 else budget / total_cost)"

definition nation_set_maximum_military_costs :: "nation_id \<Rightarrow> real \<Rightarrow> world \<Rightarrow> world" where
  "nation_set_maximum_military_costs n v w =
    w\<lparr>nation := (nation w)(n := (nation w n)\<lparr>maximum_military_costs := v\<rparr>)\<rparr>"

definition nation_set_spending_level :: "nation_id \<Rightarrow> real \<Rightarrow> world \<Rightarrow> world" where
  "nation_set_spending_level n v w =
    w\<lparr>nation := (nation w)(n := (nation w n)\<lparr>spending_level := v\<rparr>)\<rparr>"

text \<open>A player-controlled nation pays the interest on its debt first.\<close>

definition pay_interest :: "nation_id \<Rightarrow> world \<Rightarrow> world" where
  "pay_interest n w =
    (if is_player_controlled (nation w n)
     then nation_set_stockpiles n money (stockpiles (nation w n) money - interest_payment w n) w
     else w)"

text \<open>"step 2: limit to actual budget": the budget and the spending scale.\<close>

definition national_budget :: "world \<Rightarrow> nation_id \<Rightarrow> real \<Rightarrow> real \<times> real" where
  "national_budget w n total_cost =
    (if is_player_controlled (nation w n) then
       (if can_take_loans w n then (total_cost, 1)
        else (let budget = max 0 (stockpiles (nation w n) money)
              in (budget, spending_scale_of total_cost budget)))
     else (let budget = max 0 (stockpiles (nation w n) money)
           in (budget, spending_scale_of total_cost budget)))"

definition private_investment_scale :: "world \<Rightarrow> nation_id \<Rightarrow> real" where
  "private_investment_scale w n =
    (let pi_total = full_private_investment_cost w n;
         pi_budget = private_investment (nation w n)
     in if pi_total \<le> pi_budget then 1 else pi_budget / pi_total)"

definition settle_private_investment :: "nation_id \<Rightarrow> world \<Rightarrow> world" where
  "settle_private_investment n w =
    (let pi_total = full_private_investment_cost w n;
         pi_budget = private_investment (nation w n)
     in w\<lparr>nation := (nation w)
          (n := (nation w n)\<lparr>private_investment_effective_fraction := private_investment_scale w n,
                              private_investment := max 0 (pi_budget - pi_total)\<rparr>)\<rparr>)"

definition update_national_spending :: "nation_id \<Rightarrow> world \<Rightarrow> world" where
  "update_national_spending n w =
    (let total_cost = full_spending_cost w n;
         w0 = nation_set_maximum_military_costs n (army_cost w n + navy_cost w n) w;
         w1 = pay_interest n w0;
         budget = fst (national_budget w1 n total_cost);
         spending_scale = snd (national_budget w1 n total_cost);
         w2 = nation_set_stockpiles n money
                (stockpiles (nation w1 n) money - min budget (total_cost * spending_scale)) w1;
         w3 = nation_set_spending_level n spending_scale w2;
         pi_scale = private_investment_scale w3 n;
         w4 = settle_private_investment n w3
     in update_national_consumption n spending_scale pi_scale w4)"

section \<open>Market clearing\<close>

text \<open>
  The body of the loop "perform actual consumption / purchasing subject to availability"
  for one nation and one commodity, in its two halves. The first half reads the four pools
  and stores the two satisfaction ratios; the second draws the demand from the pools. The
  first half writes no pool, no demand and no flag, so the second reads the same values,
  here from the state the first has left.
\<close>

definition update_satisfaction :: "nation_id \<Rightarrow> commodity_id \<Rightarrow> world \<Rightarrow> world" where
  "update_satisfaction n c w =
    (let sl = in_sphere_of (nation w n);
         dom_pool = domestic_market_pool (nation w n) c;
         sl_pool = (case sl of Some s \<Rightarrow> domestic_market_pool (nation w s) c | None \<Rightarrow> 0);
         sp_pool = (if drawing_on_stockpiles (nation w n) c then stockpiles (nation w n) c else 0);
         wm_pool = global_market_pool (commodity w c);
         total_supply = dom_pool + sl_pool + sp_pool + wm_pool;
         rd = real_demand (nation w n) c;
         old_sat = demand_satisfaction (nation w n) c;
         new_sat = (if rd > 0.0001 then total_supply / rd else total_supply);
         adj_sat = old_sat * alice_sat_delay_factor (world_defines w)
                   + new_sat * (1 - alice_sat_delay_factor (world_defines w));
         w1 = nation_set_demand_satisfaction n c (min 1 adj_sat) w
     in nation_set_direct_demand_satisfaction n c (min 1 new_sat) w1)"

text \<open>"prefer domestic": own pool, sphere leader's pool, stockpile, global pool.\<close>

definition consume_domestic_first :: "nation_id \<Rightarrow> commodity_id \<Rightarrow> world \<Rightarrow> world" where
  "consume_domestic_first n c w =
    (let sl = in_sphere_of (nation w n);
         dom_pool = domestic_market_pool (nation w n) c;
         sl_pool = (case sl of Some s \<Rightarrow> domestic_market_pool (nation w s) c | None \<Rightarrow> 0);
         sp_pool = (if drawing_on_stockpiles (nation w n) c then stockpiles (nation w n) c else 0);
         wm_pool = global_market_pool (commodity w c);
         rd = real_demand (nation w n) c;
         w3 = nation_set_domestic_market_pool n c (max 0 (dom_pool - rd)) w;
         rd1 = max (rd - dom_pool) 0;
         w4 = (case sl of Some s \<Rightarrow> nation_set_domestic_market_pool s c (max 0 (sl_pool - rd1)) w3
                        | None \<Rightarrow> w3);
         rd2 = (case sl of Some s \<Rightarrow> max (rd1 - sl_pool) 0 | None \<Rightarrow> rd1);
         w5 = (if drawing_on_stockpiles (nation w n) c
               then nation_set_stockpiles n c (max 0 (sp_pool - rd2)) w4 else w4);
         rd3 = (if drawing_on_stockpiles (nation w n) c then max (rd2 - sp_pool) 0 else rd2);
         w6 = commodity_set_global_market_pool c (max 0 (wm_pool - rd3)) w5
     in nation_set_imports n c (min wm_pool rd3) w6)"

text \<open>Otherwise: global pool, own pool, sphere leader's pool, stockpile.\<close>

definition consume_global_first :: "nation_id \<Rightarrow> commodity_id \<Rightarrow> world \<Rightarrow> world" where
  "consume_global_first n c w =
    (let sl = in_sphere_of (nation w n);
         dom_pool = domestic_market_pool (nation w n) c;
         sl_pool = (case sl of Some s \<Rightarrow> domestic_market_pool (nation w s) c | None \<Rightarrow> 0);
         sp_pool = (if drawing_on_stockpiles (nation w n) c then stockpiles (nation w n) c else 0);
         wm_pool = global_market_pool (commodity w c);
         rd = real_demand (nation w n) c;
         w3 = nation_set_imports n c (min wm_pool rd) w;
         w4 = commodity_set_global_market_pool c (max 0 (wm_pool - rd)) w3;
         rd1 = max (rd - wm_pool) 0;
         w5 = nation_set_domestic_market_pool n c (max 0 (dom_pool - rd1)) w4;
         rd2 = max (rd1 - dom_pool) 0;
         w6 = (case sl of Some s \<Rightarrow> nation_set_domestic_market_pool s c (max 0 (sl_pool - rd2)) w5
                        | None \<Rightarrow> w5);
         rd3 = (case sl of Some s \<Rightarrow> max (rd2 - sl_pool) 0 | None \<Rightarrow> rd2)
     in if drawing_on_stockpiles (nation w n) c
        then nation_set_stockpiles n c (max 0 (sp_pool - rd3)) w6 else w6)"

definition clear_market_commodity :: "nation_id \<Rightarrow> real \<Rightarrow> commodity_id \<Rightarrow> world \<Rightarrow> world" where
  "clear_market_commodity n global_price_multiplier c w =
    (let w2 = update_satisfaction n c w
     in if global_price_multiplier \<ge> 1
        then consume_domestic_first n c w2
        else consume_global_first n c w2)"

definition clear_market :: "nation_id \<Rightarrow> world \<Rightarrow> world" where
  "clear_market n w =
    fold (clear_market_commodity n (global_market_price_multiplier w n)) [1..<commodity_size w] w"

section \<open>Refunds for purchases that found no supply\<close>

text \<open>
  The block "determine effective spending levels" of \<^verbatim>\<open>daily_update\<close>, run for a nation
  after the markets have cleared. \<^verbatim>\<open>refund\<close> is accumulated over the navy, the army, the
  stockpile fill and the overseas penalty, and then added to the treasury.
\<close>

definition naval_refund :: "world \<Rightarrow> nation_id \<Rightarrow> real" where
  "naval_refund w n =
    (let nations_commodity_spending = spending_level (nation w n);
         naval_level = real_of_int (naval_spending (nation w n)) / 100
     in \<Sum>c\<leftarrow>[1..<commodity_size w].
          (let sat = demand_satisfaction (nation w n) c;
               val = navy_demand (nation w n) c
           in val * (1 - sat) * nations_commodity_spending * naval_level
              * current_price (commodity w c)))"

definition land_refund :: "world \<Rightarrow> nation_id \<Rightarrow> real" where
  "land_refund w n =
    (let nations_commodity_spending = spending_level (nation w n);
         land_level = real_of_int (land_spending (nation w n)) / 100
     in \<Sum>c\<leftarrow>[1..<commodity_size w].
          (let sat = demand_satisfaction (nation w n) c;
               val = army_demand (nation w n) c
           in val * (1 - sat) * nations_commodity_spending * land_level
              * current_price (commodity w c)))"

definition stockpile_refund :: "world \<Rightarrow> nation_id \<Rightarrow> real" where
  "stockpile_refund w n =
    (let nations_commodity_spending = spending_level (nation w n)
     in \<Sum>c\<leftarrow>[1..<commodity_size w].
          (let difference = stockpile_shortfall w n c
           in if difference > 0 \<and> drawing_on_stockpiles (nation w n) c = False
              then (let sat = direct_demand_satisfaction (nation w n) c
                    in difference * (1 - sat) * nations_commodity_spending
                       * current_price (commodity w c))
              else 0))"

definition overseas_refund :: "world \<Rightarrow> nation_id \<Rightarrow> real" where
  "overseas_refund w n =
    (let nations_commodity_spending = spending_level (nation w n);
         overseas_factor = overseas_factor_of w n
     in if overseas_factor > 0
        then \<Sum>c\<leftarrow>[1..<commodity_size w].
               (if overseas_penalty_good (commodity w c) \<and> commodity_unlocked w n c
                then (let sat = demand_satisfaction (nation w n) c;
                          price = current_price (commodity w c)
                      in overseas_factor * (1 - sat) * nations_commodity_spending * price)
                else 0)
        else 0)"

definition satisfied_share :: "world \<Rightarrow> nation_id \<Rightarrow> (commodity_id \<Rightarrow> real) \<Rightarrow> real" where
  "satisfied_share w n val =
    (let total_val = (\<Sum>c\<leftarrow>[1..<commodity_size w]. val c);
         max_sp = (\<Sum>c\<leftarrow>[1..<commodity_size w]. val c * demand_satisfaction (nation w n) c)
     in if total_val > 0 then max_sp / total_val else max_sp)"

definition fill_stockpile :: "nation_id \<Rightarrow> commodity_id \<Rightarrow> world \<Rightarrow> world" where
  "fill_stockpile n c w =
    (let difference = stockpile_shortfall w n c
     in if difference > 0 \<and> drawing_on_stockpiles (nation w n) c = False
        then nation_set_stockpiles n c
               (stockpiles (nation w n) c
                + difference * spending_level (nation w n) * direct_demand_satisfaction (nation w n) c) w
        else w)"

definition overseas_budget_satisfaction_of :: "world \<Rightarrow> nation_id \<Rightarrow> real" where
  "overseas_budget_satisfaction_of w n =
    fold (\<lambda>c acc. if overseas_penalty_good (commodity w c) \<and> commodity_unlocked w n c
                   then min (demand_satisfaction (nation w n) c) acc else acc)
         [1..<commodity_size w] 1"

definition determine_effective_spending :: "nation_id \<Rightarrow> world \<Rightarrow> world" where
  "determine_effective_spending n w =
    (let nations_commodity_spending = spending_level (nation w n);
         refund = naval_refund w n + land_refund w n + stockpile_refund w n + overseas_refund w n;
         w1 = w\<lparr>nation := (nation w)
                 (n := (nation w n)
                    \<lparr>effective_naval_spending :=
                       nations_commodity_spending * satisfied_share w n (navy_demand (nation w n))
                       * (real_of_int (naval_spending (nation w n)) / 100),
                     effective_land_spending :=
                       nations_commodity_spending * satisfied_share w n (army_demand (nation w n))
                       * (real_of_int (land_spending (nation w n)) / 100),
                     effective_construction_spending :=
                       nations_commodity_spending * satisfied_share w n (construction_demand (nation w n))
                       * (real_of_int (construction_spending (nation w n)) / 100)\<rparr>)\<rparr>;
         w2 = fold (fill_stockpile n) [1..<commodity_size w1] w1;
         overseas_budget = real_of_int (overseas_spending (nation w2 n)) / 100;
         w3 = w2\<lparr>nation := (nation w2)
                 (n := (nation w2 n)
                    \<lparr>overseas_penalty :=
                       (if overseas_factor_of w2 n > 0
                        then overseas_budget * overseas_budget_satisfaction_of w2 n
                        else 1)\<rparr>)\<rparr>
     in nation_set_stockpiles n money (stockpiles (nation w3 n) money + refund) w3)"

text \<open>
  The first loop of \<^verbatim>\<open>advance_construction\<close>: construction demand is cut down to what was
  bought, and the part that found no supply is refunded.
\<close>

definition construction_refund :: "world \<Rightarrow> nation_id \<Rightarrow> real" where
  "construction_refund w n =
    (let c_spending = spending_level (nation w n)
                      * real_of_int (construction_spending (nation w n)) / 100
     in \<Sum>c\<leftarrow>[1..<commodity_size w].
          (let d_sat = demand_satisfaction (nation w n) c;
               nat_demand = construction_demand (nation w n) c
           in nat_demand * c_spending * (1 - d_sat) * current_price (commodity w c)))"

definition scale_construction_demand :: "nation_id \<Rightarrow> commodity_id \<Rightarrow> world \<Rightarrow> world" where
  "scale_construction_demand n c w =
    (let c_spending = spending_level (nation w n)
                      * real_of_int (construction_spending (nation w n)) / 100;
         p_spending = private_investment_effective_fraction (nation w n);
         d_sat = demand_satisfaction (nation w n) c
     in w\<lparr>nation := (nation w)
          (n := (nation w n)
             \<lparr>construction_demand := (construction_demand (nation w n))
                 (c := construction_demand (nation w n) c * (c_spending * d_sat)),
              private_construction_demand := (private_construction_demand (nation w n))
                 (c := private_construction_demand (nation w n) c * (p_spending * d_sat))\<rparr>)\<rparr>)"

definition advance_construction_refund :: "nation_id \<Rightarrow> world \<Rightarrow> world" where
  "advance_construction_refund n w =
    (let refund_amount = construction_refund w n;
         w1 = fold (scale_construction_demand n) [1..<commodity_size w] w
     in nation_set_stockpiles n money (stockpiles (nation w1 n) money + refund_amount) w1)"

section \<open>Bankruptcy\<close>

text \<open>\<^verbatim>\<open>int32_t(x)\<close> of a float drops the fraction (values outside the 32-bit range are not modelled).\<close>

definition to_int32 :: "real \<Rightarrow> int" where
  "to_int32 x = (if 0 \<le> x then \<lfloor>x\<rfloor> else \<lceil>x\<rceil>)"

definition fire_fixed_events :: "fixed_event \<Rightarrow> nation_id \<Rightarrow> world \<Rightarrow> world" where
  "fire_fixed_events ev n w =
    w\<lparr>fired_events := fired_events w
         @ concat (map (\<lambda>gn. case gn of
                                Some g \<Rightarrow> (if g \<noteq> n then [(ev, g, n)] else [])
                              | None \<Rightarrow> [])
                       (great_nations w))\<rparr>"

definition add_modifier_to_nation :: "nation_id \<Rightarrow> national_modifier \<Rightarrow> date \<Rightarrow> world \<Rightarrow> world" where
  "add_modifier_to_nation n m expires w =
    w\<lparr>nation := (nation w)
        (n := (nation w n)\<lparr>timed_modifiers := timed_modifiers (nation w n) @ [(m, expires)]\<rparr>)\<rparr>"

definition go_bankrupt :: "nation_id \<Rightarrow> world \<Rightarrow> world" where
  "go_bankrupt n w =
    (let debt = stockpiles (nation w n) money;
         existing_br = bankrupt_until (nation w n);
         w1 = (if date_valid existing_br \<and> current_date w < existing_br
               then fire_fixed_events on_debtor_default_second n w
               else if debt \<ge> - small_debt_limit (world_defines w)
               then fire_fixed_events on_debtor_default_small n w
               else fire_fixed_events on_debtor_default n w);
         w2 = add_modifier_to_nation n in_bankrupcy
                (current_date w1 + to_int32 (bankrupcy_duration (world_defines w1) * 365)) w1;
         w3 = add_modifier_to_nation n bad_debter
                (current_date w2 + to_int32 (bankruptcy_external_loan_years (world_defines w2) * 365)) w2;
         w4 = nation_set_stockpiles n money 0 w3
     in w4\<lparr>nation := (nation w4)
          (n := (nation w4 n)
             \<lparr>is_debt_spending := False,
              bankrupt_until := current_date w4 + to_int32 (bankrupcy_duration (world_defines w4) * 365)\<rparr>)\<rparr>)"

text \<open>The loop "BANKRUPTCY" of \<^verbatim>\<open>daily_update\<close>, and its body for one nation.\<close>

definition bankruptcy_check :: "nation_id \<Rightarrow> world \<Rightarrow> world" where
  "bankruptcy_check n w =
    (let m = stockpiles (nation w n) money
     in if m < 0 then (if m < - max_loan w n then go_bankrupt n w else w) else w)"

definition bankruptcy_pass :: "world \<Rightarrow> world" where
  "bankruptcy_pass w = fold bankruptcy_check [0..<nation_size w] w"

section \<open>RGO employment\<close>

definition subsistence_size :: "world \<Rightarrow> province_id \<Rightarrow> real" where
  "subsistence_size w p =
    (let rgo_ownership = landowners_share (province w p) + capitalists_share (province w p)
     in province_rgo_size (province w p) * (1 - rgo_ownership) * 2)"

definition rgo_effective_size :: "world \<Rightarrow> nation_id \<Rightarrow> province_id \<Rightarrow> commodity_id \<Rightarrow> real" where
  "rgo_effective_size w n p c =
    (let mine = is_mine (commodity w c);
         base = (if rgo (province w p) = c
                 then alice_base_rgo_employment_bonus (world_defines w)
                      / alice_rgo_per_size_employment (world_defines w)
                 else 0);
         rgo_ownership = landowners_share (province w p) + capitalists_share (province w p);
         sz = rgo_max_size_per_good (province w p) c * rgo_ownership + base;
         pmod = province_modifier_values (province w p)
                  (if mine then pm_mine_rgo_size else pm_farm_rgo_size);
         nmod = modifier_values (nation w n) (if mine then nm_mine_rgo_size else nm_farm_rgo_size);
         specific_pmod = nation_rgo_size (nation w n) c;
         bonus = pmod + nmod + specific_pmod + 1
     in max (sz * bonus) 0)"

definition subsistence_max_pseudoemployment :: "world \<Rightarrow> nation_id \<Rightarrow> province_id \<Rightarrow> real" where
  "subsistence_max_pseudoemployment w n p =
    alice_rgo_per_size_employment (world_defines w) * subsistence_size w p * 1.1"

definition rgo_max_employment :: "world \<Rightarrow> nation_id \<Rightarrow> province_id \<Rightarrow> commodity_id \<Rightarrow> real" where
  "rgo_max_employment w n p c =
    alice_rgo_per_size_employment (world_defines w) * rgo_effective_size w n p c"

definition rgo_efficiency :: "world \<Rightarrow> nation_id \<Rightarrow> province_id \<Rightarrow> commodity_id \<Rightarrow> real" where
  "rgo_efficiency w n p c =
    (let mine = is_mine (commodity w c);
         main_rgo = (if rgo (province w p) = c
                     then alice_base_rgo_efficiency_bonus (world_defines w) else 1);
         base_amount = rgo_amount (commodity w c);
         throughput = 1
           + province_modifier_values (province w p) pm_local_rgo_throughput
           + modifier_values (nation w n) nm_rgo_throughput
           + province_modifier_values (province w p) (if mine then pm_mine_rgo_eff else pm_farm_rgo_eff)
           + modifier_values (nation w n) (if mine then nm_mine_rgo_eff else nm_farm_rgo_eff);
         saturation = rgo_employment_per_good (province w p) c / (rgo_max_employment w n p c + 1)
     in base_amount * main_rgo * (1 + 1 * (1 - saturation)) * max 0.5 throughput
        * alice_rgo_boost (world_defines w)
        * max 0.5 (1 + province_modifier_values (province w p) pm_local_rgo_output
                   + modifier_values (nation w n) nm_rgo_output
                   + rgo_goods_output (nation w n) c))"

definition rgo_expected_worker_norm_profit :: "world \<Rightarrow> province_id \<Rightarrow> nation_id \<Rightarrow> commodity_id \<Rightarrow> real" where
  "rgo_expected_worker_norm_profit w p n c =
    (let efficiency = rgo_efficiency w n p c;
         price = current_price (commodity w c);
         consumed_ratio = (if money_rgo (commodity w c) then 1
                           else min 1 ((total_consumption (commodity w c) + 0.0001)
                                       / (total_production (commodity w c) + 0.0001)))
     in consumed_ratio * efficiency * price / alice_rgo_per_size_employment (world_defines w))"

definition province_set_rgo_employment_per_good :: "province_id \<Rightarrow> commodity_id \<Rightarrow> real \<Rightarrow> world \<Rightarrow> world" where
  "province_set_rgo_employment_per_good p c v w =
    w\<lparr>province := (province w)
        (p := (province w p)\<lparr>rgo_employment_per_good := (rgo_employment_per_good (province w p))(c := v)\<rparr>)\<rparr>"

text \<open>
  The first pass over the goods: a good the province can employ workers on is entered in
  \<^verbatim>\<open>ordered_list\<close> with its profit, any other good loses its employment.
\<close>

fun collect_rgo_goods ::
  "nation_id \<Rightarrow> province_id \<Rightarrow> commodity_id list \<Rightarrow> world \<times> (real \<times> commodity_id) list
     \<Rightarrow> world \<times> (real \<times> commodity_id) list" where
  "collect_rgo_goods owner p [] (w, ordered_list) = (w, ordered_list)"
| "collect_rgo_goods owner p (c # cs) (w, ordered_list) =
    (if rgo_max_employment w owner p c > 0
     then collect_rgo_goods owner p cs
            (w, ordered_list @ [(rgo_expected_worker_norm_profit w p owner c, c)])
     else collect_rgo_goods owner p cs
            (province_set_rgo_employment_per_good p c 0 w, ordered_list))"

text \<open>
  \<^verbatim>\<open>std::sort\<close> with the comparison \<^verbatim>\<open>a.profit > b.profit\<close>: the goods in descending
  order of profit. The order of goods with equal profit is not fixed by \<^verbatim>\<open>std::sort\<close>;
  the insertion sort below keeps them in their order of entry.
\<close>

fun insert_by_profit :: "real \<times> commodity_id \<Rightarrow> (real \<times> commodity_id) list \<Rightarrow> (real \<times> commodity_id) list" where
  "insert_by_profit a [] = [a]"
| "insert_by_profit a (b # bs) =
    (if fst b \<le> fst a then a # b # bs else b # insert_by_profit a bs)"

definition sort_by_profit :: "(real \<times> commodity_id) list \<Rightarrow> (real \<times> commodity_id) list" where
  "sort_by_profit xs = foldr insert_by_profit xs []"

record rgo_distribution =
  dist_world :: world
  total_workforce :: real
  max_employment_total :: real
  total_employed :: real

text \<open>The second loop: workers are handed out good by good, at a speed of 0.20.\<close>

fun distribute_rgo_workers ::
  "nation_id \<Rightarrow> province_id \<Rightarrow> commodity_id list \<Rightarrow> rgo_distribution \<Rightarrow> rgo_distribution" where
  "distribute_rgo_workers owner p [] d = d"
| "distribute_rgo_workers owner p (c # cs) d =
    (let w = dist_world d;
         speed = 0.20;
         max_employment = rgo_max_employment w owner p c;
         target_workforce = min (rgo_target_employment_per_good (province w p) c) (total_workforce d);
         current_workforce = rgo_employment_per_good (province w p) c;
         new_employment = min (current_workforce * (1 - speed) + target_workforce * speed)
                              (total_workforce d);
         clamped_employment = clampf new_employment 0 max_employment
     in distribute_rgo_workers owner p cs
          \<lparr>dist_world = province_set_rgo_employment_per_good p c clamped_employment w,
           total_workforce = total_workforce d - new_employment,
           max_employment_total = max_employment_total d + max_employment,
           total_employed = total_employed d + clamped_employment\<rparr>)"

definition rgo_labor_pool :: "world \<Rightarrow> province_id \<Rightarrow> real" where
  "rgo_labor_pool w p =
    (let worker_pool = (\<Sum>wt\<leftarrow>rgo_workers w. province_demographics (province w p) wt);
         slave_pool = province_demographics (province w p) (slaves w)
     in worker_pool + slave_pool)"

definition set_pop_employment :: "world \<Rightarrow> real \<Rightarrow> real \<Rightarrow> pop \<Rightarrow> pop" where
  "set_pop_employment w slave_fraction free_fraction pp =
    (if poptype pp = slaves w then pp\<lparr>raw_employment := slave_fraction\<rparr>
     else if is_paid_rgo_worker (pop_type w (poptype pp)) then pp\<lparr>raw_employment := free_fraction\<rparr>
     else pp)"

text \<open>The body of \<^verbatim>\<open>update_rgo_employment\<close> for one land province.\<close>

definition update_rgo_employment_province :: "province_id \<Rightarrow> world \<Rightarrow> world" where
  "update_rgo_employment_province p w =
    (let owner = nation_from_province_ownership (province w p);
         current_employment =
           (\<Sum>c\<leftarrow>[0..<commodity_size w]. rgo_employment_per_good (province w p) c)
           + subsistence_employment (province w p);
         worker_pool = (\<Sum>wt\<leftarrow>rgo_workers w. province_demographics (province w p) wt);
         slave_pool = province_demographics (province w p) (slaves w);
         labor_pool = rgo_labor_pool w p;
         collected = collect_rgo_goods owner p [0..<commodity_size w] (w, []);
         ordered_list = sort_by_profit (snd collected);
         d = distribute_rgo_workers owner p (map snd ordered_list)
               \<lparr>dist_world = fst collected, total_workforce = labor_pool,
                max_employment_total = 0, total_employed = 0\<rparr>;
         subsistence = min (subsistence_max_pseudoemployment (dist_world d) owner p) (total_workforce d);
         employed = total_employed d + subsistence;
         employment_ratio = (if max_employment_total d > 1
                             then employed / (max_employment_total d + 1) else 1);
         slave_fraction = (if slave_pool > current_employment
                           then current_employment / slave_pool else 1);
         free_fraction = max 0 (if worker_pool > current_employment - slave_pool
                                then (current_employment - slave_pool) / max worker_pool 0.01
                                else 1);
         w1 = dist_world d
     in w1\<lparr>province := (province w1)
          (p := (province w1 p)
             \<lparr>subsistence_employment := subsistence,
              rgo_employment := employment_ratio,
              pop_location := map (set_pop_employment w1 slave_fraction free_fraction)
                                  (pop_location (province w1 p))\<rparr>)\<rparr>)"

text \<open>\<^verbatim>\<open>update_rgo_employment\<close>: every land province, the provinces below the first sea province.\<close>

definition update_rgo_employment :: "world \<Rightarrow> world" where
  "update_rgo_employment w = fold update_rgo_employment_province [0..<first_sea_province w] w"

section \<open>Factories\<close>

definition factory_max_employment :: "world \<Rightarrow> factory_id \<Rightarrow> real" where
  "factory_max_employment w f =
    alice_factory_per_level_employment (world_defines w) * real (level (factory w f))"

text \<open>The loops over a recipe stop at the first empty slot.\<close>

fun factory_min_input_available_loop :: "(commodity_id \<Rightarrow> real) \<Rightarrow> commodity_set \<Rightarrow> real \<Rightarrow> real" where
  "factory_min_input_available_loop sat [] acc = acc"
| "factory_min_input_available_loop sat ((None, amount) # rest) acc = acc"
| "factory_min_input_available_loop sat ((Some c, amount) # rest) acc =
    factory_min_input_available_loop sat rest (min acc (sat c))"

fun factory_input_total_cost_loop :: "(commodity_id \<Rightarrow> real) \<Rightarrow> commodity_set \<Rightarrow> real \<Rightarrow> real" where
  "factory_input_total_cost_loop prices [] acc = acc"
| "factory_input_total_cost_loop prices ((None, amount) # rest) acc = acc"
| "factory_input_total_cost_loop prices ((Some c, amount) # rest) acc =
    factory_input_total_cost_loop prices rest (acc + amount * prices c)"

definition factory_min_input_available :: "world \<Rightarrow> nation_id \<Rightarrow> factory_type_id \<Rightarrow> real" where
  "factory_min_input_available w n fac_type =
    factory_min_input_available_loop (demand_satisfaction (nation w n))
      (type_inputs (factory_type w fac_type)) 1"

definition factory_input_total_cost :: "world \<Rightarrow> nation_id \<Rightarrow> factory_type_id \<Rightarrow> real" where
  "factory_input_total_cost w n fac_type =
    factory_input_total_cost_loop (effective_prices (nation w n))
      (type_inputs (factory_type w fac_type)) 0"

definition factory_min_e_input_available :: "world \<Rightarrow> nation_id \<Rightarrow> factory_type_id \<Rightarrow> real" where
  "factory_min_e_input_available w n fac_type =
    factory_min_input_available_loop (demand_satisfaction (nation w n))
      (type_efficiency_inputs (factory_type w fac_type)) 1"

definition factory_e_input_total_cost :: "world \<Rightarrow> nation_id \<Rightarrow> factory_type_id \<Rightarrow> real" where
  "factory_e_input_total_cost w n fac_type =
    factory_input_total_cost_loop (effective_prices (nation w n))
      (type_efficiency_inputs (factory_type w fac_type)) 0"

definition factory_input_multiplier ::
  "world \<Rightarrow> factory_id \<Rightarrow> nation_id \<Rightarrow> province_id \<Rightarrow> state_instance_id \<Rightarrow> real" where
  "factory_input_multiplier w fac n p s =
    (let total_workers = factory_max_employment w fac;
         small_bound = alice_factory_per_level_employment (world_defines w) * 5;
         small_size_effect = (if total_workers < small_bound
                              then 0.5 + total_workers / small_bound * 0.5 else 1);
         total_state_pop = max 0.01 (state_total_population (state_instance w s));
         capitalist_pop = state_capitalists (state_instance w s);
         owner_fraction = (if total_state_pop > 0
                           then min 0.05 (capitalist_pop / total_state_pop) else 0)
     in small_size_effect * triggered_modifiers (factory w fac)
        * max 0.1 (alice_inputs_base_factor (world_defines w)
                   + province_modifier_values (province w p) pm_local_factory_input
                   + modifier_values (nation w n) nm_factory_input
                   + owner_fraction * - 2.5))"

definition factory_throughput_multiplier ::
  "world \<Rightarrow> factory_type_id \<Rightarrow> nation_id \<Rightarrow> province_id \<Rightarrow> state_instance_id \<Rightarrow> real" where
  "factory_throughput_multiplier w fac_type n p s =
    factory_goods_throughput (nation w n) (type_output (factory_type w fac_type))
    + province_modifier_values (province w p) pm_local_factory_throughput
    + modifier_values (nation w n) nm_factory_throughput
    + 1"

definition factory_output_multiplier :: "world \<Rightarrow> factory_id \<Rightarrow> nation_id \<Rightarrow> province_id \<Rightarrow> real" where
  "factory_output_multiplier w fac n p =
    (let fac_type = building_type (factory w fac)
     in factory_goods_output (nation w n) (type_output (factory_type w fac_type))
        + province_modifier_values (province w p) pm_local_factory_output
        + modifier_values (nation w n) nm_factory_output
        + secondary_employment (factory w fac) * (1 - craftsmen_fraction (world_defines w)) * 1.5
        + 1)"

definition factory_max_production_scale :: "world \<Rightarrow> factory_id \<Rightarrow> real \<Rightarrow> bool \<Rightarrow> real" where
  "factory_max_production_scale w fac mobilization_impact occupied =
    primary_employment (factory w fac) * real (level (factory w fac))
    * (if occupied then 0.1 else 1) * max 0 mobilization_impact"

definition factory_set_production_scale :: "factory_id \<Rightarrow> real \<Rightarrow> world \<Rightarrow> world" where
  "factory_set_production_scale f v w =
    w\<lparr>factory := (factory w)(f := (factory w f)\<lparr>production_scale := v\<rparr>)\<rparr>"

text \<open>\<^verbatim>\<open>update_factory_scale\<close> stores the new production scale and returns the effective one.\<close>

definition update_factory_scale :: "world \<Rightarrow> factory_id \<Rightarrow> real \<Rightarrow> real \<Rightarrow> real \<Rightarrow> real \<times> world" where
  "update_factory_scale w fac max_production_scale raw_profit desired_raw_profit =
    (let total_workers = factory_max_employment w fac;
         several_workers_scale = 10 / total_workers;
         fac_type = factory_type w (building_type (factory w fac));
         relative_production_amount =
           type_output_amount fac_type
           / (total_production (commodity w (type_output fac_type))
              + total_real_demand (commodity w (type_output fac_type))
              + 10);
         relative_modifier = (1 / (relative_production_amount + 0.01)) / 1000
     in if subsidized (factory w fac) then
          (let new_production_scale =
                 min 1 (production_scale (factory w fac)
                        + several_workers_scale * real (level (factory w fac)) * 10)
           in (min (new_production_scale * real (level (factory w fac))) max_production_scale,
               factory_set_production_scale fac new_production_scale w))
        else
          (let over_profit_ratio = raw_profit / (desired_raw_profit + 0.0001) - 1;
               under_profit_ratio = desired_raw_profit / (raw_profit + 0.0001) - 1;
               speed_modifier = over_profit_ratio - under_profit_ratio;
               speed = production_scale_delta (world_defines w) * speed_modifier
                       + several_workers_scale
                         * (if raw_profit - desired_raw_profit > 0 then 1 else - 1);
               speed' = clampf speed (- relative_modifier) relative_modifier;
               new_production_scale = clampf (production_scale (factory w fac) + speed') 0 1
           in (min (new_production_scale * real (level (factory w fac))) max_production_scale,
               factory_set_production_scale fac new_production_scale w)))"

definition factory_desired_raw_profit :: "world \<Rightarrow> factory_id \<Rightarrow> real \<Rightarrow> real" where
  "factory_desired_raw_profit w fac spendings =
    spendings * (1.2 + secondary_employment (factory w fac) * real (level (factory w fac)) / 150)"

fun register_inputs :: "nation_id \<Rightarrow> (real \<Rightarrow> real) \<Rightarrow> commodity_set \<Rightarrow> world \<Rightarrow> world" where
  "register_inputs n scaled [] w = w"
| "register_inputs n scaled ((None, amount) # rest) w = w"
| "register_inputs n scaled ((Some c, amount) # rest) w =
    register_inputs n scaled rest (register_intermediate_demand n c (scaled amount) reason_factory w)"

text \<open>The per-level figures of \<^verbatim>\<open>update_single_factory_consumption\<close>: what one level of the factory, filled with workers, produces, earns and spends.\<close>

definition factory_level_production ::
  "world \<Rightarrow> factory_id \<Rightarrow> nation_id \<Rightarrow> province_id \<Rightarrow> state_instance_id \<Rightarrow> real" where
  "factory_level_production w f n p s =
    (let fac_type = building_type (factory w f);
         min_input_available = factory_min_input_available w n fac_type;
         min_e_input_available = factory_min_e_input_available w n fac_type;
         throughput_multiplier = factory_throughput_multiplier w fac_type n p s;
         output_multiplier = factory_output_multiplier w f n p
     in type_output_amount (factory_type w fac_type)
        * (0.75 + 0.25 * min_e_input_available)
        * throughput_multiplier * output_multiplier * min_input_available)"

definition factory_level_profit ::
  "world \<Rightarrow> factory_id \<Rightarrow> nation_id \<Rightarrow> province_id \<Rightarrow> state_instance_id \<Rightarrow> real" where
  "factory_level_profit w f n p s =
    factory_level_production w f n p s
    * current_price (commodity w (type_output (factory_type w (building_type (factory w f)))))"

definition factory_level_spendings ::
  "world \<Rightarrow> factory_id \<Rightarrow> nation_id \<Rightarrow> province_id \<Rightarrow> state_instance_id \<Rightarrow> real \<Rightarrow> real" where
  "factory_level_spendings w f n p s expected_min_wage =
    (let fac_type = building_type (factory w f);
         input_total = factory_input_total_cost w n fac_type;
         min_input_available = factory_min_input_available w n fac_type;
         e_input_total = factory_e_input_total_cost w n fac_type;
         min_e_input_available = factory_min_e_input_available w n fac_type;
         input_multiplier = factory_input_multiplier w f n p s;
         mfactor = modifier_values (nation w n) nm_factory_maintenance + 1;
         throughput_multiplier = factory_throughput_multiplier w fac_type n p s
     in expected_min_wage
          * (alice_factory_per_level_employment (world_defines w)
             / alice_needs_scaling_factor (world_defines w))
        + input_multiplier * throughput_multiplier * input_total * min_input_available
        + input_multiplier * mfactor * e_input_total * min_e_input_available * min_input_available)"

definition factory_set_unprofitable :: "factory_id \<Rightarrow> bool \<Rightarrow> world \<Rightarrow> world" where
  "factory_set_unprofitable f v w =
    w\<lparr>factory := (factory w)(f := (factory w f)\<lparr>unprofitable := v\<rparr>)\<rparr>"

definition factory_set_subsidized :: "factory_id \<Rightarrow> bool \<Rightarrow> world \<Rightarrow> world" where
  "factory_set_subsidized f v w =
    w\<lparr>factory := (factory w)(f := (factory w f)\<lparr>subsidized := v\<rparr>)\<rparr>"

definition factory_set_actual_production :: "factory_id \<Rightarrow> real \<Rightarrow> world \<Rightarrow> world" where
  "factory_set_actual_production f v w =
    w\<lparr>factory := (factory w)(f := (factory w f)\<lparr>actual_production := v\<rparr>)\<rparr>"

definition factory_set_full_profit :: "factory_id \<Rightarrow> real \<Rightarrow> world \<Rightarrow> world" where
  "factory_set_full_profit f v w =
    w\<lparr>factory := (factory w)(f := (factory w f)\<lparr>full_profit := v\<rparr>)\<rparr>"

definition update_single_factory_consumption ::
  "factory_id \<Rightarrow> nation_id \<Rightarrow> province_id \<Rightarrow> state_instance_id \<Rightarrow> real \<Rightarrow> real \<Rightarrow> bool
     \<Rightarrow> world \<Rightarrow> world" where
  "update_single_factory_consumption f n p s mobilization_impact expected_min_wage occupied w =
    (let fac_type = building_type (factory w f);
         max_production_scale = factory_max_production_scale w f mobilization_impact occupied;
         min_input_available = factory_min_input_available w n fac_type;
         min_e_input_available = factory_min_e_input_available w n fac_type;
         input_multiplier = factory_input_multiplier w f n p s;
         mfactor = modifier_values (nation w n) nm_factory_maintenance + 1;
         throughput_multiplier = factory_throughput_multiplier w fac_type n p s;
         level_production = factory_level_production w f n p s;
         profit = factory_level_profit w f n p s;
         spendings = factory_level_spendings w f n p s expected_min_wage;
         desired_profit = factory_desired_raw_profit w f spendings;
         max_pure_profit = profit - spendings;
         w1 = factory_set_unprofitable f (\<not> (max_pure_profit > 0)) w;
         scaled = update_factory_scale w1 f max_production_scale profit desired_profit;
         effective_production_scale = fst scaled;
         w2 = snd scaled;
         input_scale = input_multiplier * throughput_multiplier * effective_production_scale
                       * (0.1 + min_input_available * 0.9);
         w3 = register_inputs n (\<lambda>amount. input_scale * amount)
                (type_inputs (factory_type w fac_type)) w2;
         w4 = register_inputs n
                (\<lambda>amount. mfactor * input_scale * amount * (0.1 + min_e_input_available * 0.9))
                (type_efficiency_inputs (factory_type w fac_type)) w3;
         produced = level_production * effective_production_scale;
         pure_profit = max_pure_profit * effective_production_scale
     in factory_set_full_profit f pure_profit (factory_set_actual_production f produced w4))"

section \<open>Pools, supply and the state of a market\<close>


text \<open>
  The pools on the domestic side that a nation draws on for a commodity, in the order own
  pool, sphere leader's pool, stockpile; a nation outside any sphere has no second pool, and
  one that does not draw on its stockpiles has no third.
\<close>

definition domestic_side_pools :: "world \<Rightarrow> nation_id \<Rightarrow> commodity_id \<Rightarrow> real list" where
  "domestic_side_pools w n c =
    [domestic_market_pool (nation w n) c]
    @ (case in_sphere_of (nation w n) of
         Some s \<Rightarrow> [domestic_market_pool (nation w s) c]
       | None \<Rightarrow> [])
    @ (if drawing_on_stockpiles (nation w n) c then [stockpiles (nation w n) c] else [])"

text \<open>The supply a nation can reach for a commodity, and its ratio to the demand, as the satisfaction ratio reads it.\<close>

definition market_supply :: "world \<Rightarrow> nation_id \<Rightarrow> commodity_id \<Rightarrow> real" where
  "market_supply w n c = sum_list (domestic_side_pools w n c) + global_market_pool (commodity w c)"

definition supply_ratio :: "world \<Rightarrow> nation_id \<Rightarrow> commodity_id \<Rightarrow> real" where
  "supply_ratio w n c =
     (if real_demand (nation w n) c > 0.0001
      then market_supply w n c / real_demand (nation w n) c else market_supply w n c)"

text \<open>
  The state in which a nation's market is cleared: no pool of goods is negative, the
  satisfaction carried over from the day before is not negative, and the delay factor is a
  proportion. (The stockpile of money, the treasury, may be negative; it is not a pool of
  goods.)
\<close>

definition clearing_inv :: "nation_id \<Rightarrow> world \<Rightarrow> bool" where
  "clearing_inv n w \<longleftrightarrow>
     (\<forall>k c. 0 \<le> domestic_market_pool (nation w k) c)
     \<and> (\<forall>c. 1 \<le> c \<longrightarrow> 0 \<le> stockpiles (nation w n) c)
     \<and> (\<forall>c. 0 \<le> global_market_pool (commodity w c))
     \<and> (\<forall>c. 0 \<le> demand_satisfaction (nation w n) c)
     \<and> 0 \<le> alice_sat_delay_factor (world_defines w)
     \<and> alice_sat_delay_factor (world_defines w) \<le> 1"

definition satisfaction_ok :: "world \<Rightarrow> nation_id \<Rightarrow> commodity_id \<Rightarrow> bool" where
  "satisfaction_ok w n c \<longleftrightarrow>
     0 \<le> demand_satisfaction (nation w n) c \<and> demand_satisfaction (nation w n) c \<le> 1
     \<and> 0 \<le> direct_demand_satisfaction (nation w n) c
     \<and> direct_demand_satisfaction (nation w n) c \<le> 1"

section \<open>Example states\<close>

text \<open>Empty entities, from which the concrete states of the examples below are built.\<close>

definition blank_commodity :: commodity where
  "blank_commodity =
    \<lparr>money_rgo = False, is_mine = False, is_available_from_start = True,
     overseas_penalty_good = False, key_factory = None, cost = 1, rgo_amount = 0,
     current_price = 1, total_production = 0, total_consumption = 0, total_real_demand = 0,
     global_market_pool = 0, demand_by_category = (\<lambda>_. 0)\<rparr>"

definition blank_pop_type :: pop_type where
  "blank_pop_type =
    \<lparr>life_needs = (\<lambda>_. 0), everyday_needs = (\<lambda>_. 0), luxury_needs = (\<lambda>_. 0),
     life_needs_income_type = income_none, everyday_needs_income_type = income_none,
     luxury_needs_income_type = income_none, has_unemployment = False,
     is_paid_rgo_worker = False\<rparr>"

definition blank_nation :: nation where
  "blank_nation =
    \<lparr>real_demand = (\<lambda>_. 0), intermediate_demand = (\<lambda>_. 0), demand_satisfaction = (\<lambda>_. 1),
     direct_demand_satisfaction = (\<lambda>_. 1), domestic_market_pool = (\<lambda>_. 0),
     stockpiles = (\<lambda>_. 0), stockpile_targets = (\<lambda>_. 0), drawing_on_stockpiles = (\<lambda>_. False),
     effective_prices = (\<lambda>_. 1), nation_imports = (\<lambda>_. 0), army_demand = (\<lambda>_. 0),
     navy_demand = (\<lambda>_. 0), construction_demand = (\<lambda>_. 0),
     private_construction_demand = (\<lambda>_. 0), nation_rgo_size = (\<lambda>_. 0),
     rgo_goods_output = (\<lambda>_. 0), factory_goods_throughput = (\<lambda>_. 0),
     factory_goods_output = (\<lambda>_. 0), gdp = 0, in_sphere_of = None,
     is_player_controlled = False, is_debt_spending = False, bankrupt_until = 0,
     modifier_values = (\<lambda>_. 0), timed_modifiers = [], total_rich_income = 0,
     total_middle_income = 0, total_poor_income = 0, spending_level = 1,
     private_investment = 0, private_investment_effective_fraction = 1,
     maximum_military_costs = 0, land_spending = 0, naval_spending = 0,
     construction_spending = 0, overseas_spending = 0, administrative_spending = 0,
     social_spending = 0, education_spending = 0, military_spending = 0,
     domestic_investment_spending = 0, tariffs = 0, administrative_efficiency = 1,
     tariff_efficiency = 1, owned_province_count = 1, central_province_count = 1,
     central_ports = 0, central_blockaded = 0, demographics = (\<lambda>_. 0),
     employment_demographics = (\<lambda>_. 0), life_needs_costs = (\<lambda>_. 0),
     everyday_needs_costs = (\<lambda>_. 0), luxury_needs_costs = (\<lambda>_. 0),
     active_building = (\<lambda>_. False), effective_naval_spending = 0,
     effective_land_spending = 0, effective_construction_spending = 0, overseas_penalty = 1\<rparr>"

definition blank_province :: province where
  "blank_province =
    \<lparr>nation_from_province_ownership = 0, rgo = 1, province_rgo_size = 0,
     rgo_max_size_per_good = (\<lambda>_. 0), rgo_employment_per_good = (\<lambda>_. 0),
     rgo_target_employment_per_good = (\<lambda>_. 0), subsistence_employment = 0,
     rgo_employment = 0, landowners_share = 0, capitalists_share = 0,
     province_modifier_values = (\<lambda>_. 0), province_demographics = (\<lambda>_. 0),
     province_total_population = 0, pop_location = []\<rparr>"

definition blank_factory_type :: factory_type where
  "blank_factory_type =
    \<lparr>type_output = 1, type_output_amount = 0, type_inputs = [], type_efficiency_inputs = []\<rparr>"

definition blank_factory :: factory where
  "blank_factory =
    \<lparr>building_type = 0, level = 1, production_scale = 0, primary_employment = 0,
     secondary_employment = 0, subsidized = False, unprofitable = False,
     triggered_modifiers = 1, actual_production = 0, full_profit = 0\<rparr>"

definition blank_defines :: sys_defines where
  "blank_defines =
    \<lparr>base_goods_demand = 1, alice_lf_needs_scale = 1, alice_ev_needs_scale = 1,
     alice_lx_needs_scale = 1, alice_sat_delay_factor = 1 / 2, alice_needs_scaling_factor = 1,
     alice_domestic_investment_multiplier = 1, province_overseas_penalty = 0,
     loan_base_interest = 1 / 50, small_debt_limit = 10, bankrupcy_duration = 3,
     bankruptcy_external_loan_years = 5, alice_factory_per_level_employment = 10000,
     alice_inputs_base_factor = 1, alice_rgo_per_size_employment = 100,
     alice_base_rgo_employment_bonus = 0, alice_base_rgo_efficiency_bonus = 1,
     alice_rgo_boost = 1, craftsmen_fraction = 4 / 5, production_scale_delta = 1 / 10\<rparr>"

text \<open>A world of three commodities (money and two goods), two nations and one pop type.\<close>

definition blank_world :: world where
  "blank_world =
    \<lparr>commodity_size = 3,
     commodity = (\<lambda>_. blank_commodity)(0 := blank_commodity\<lparr>money_rgo := True\<rparr>),
     nation_size = 2, nation = (\<lambda>_. blank_nation),
     pop_type_size = 1, pop_type = (\<lambda>_. blank_pop_type),
     first_sea_province = 1, province = (\<lambda>_. blank_province),
     state_instance = (\<lambda>_. \<lparr>state_total_population = 0, state_capitalists = 0\<rparr>),
     factory_type = (\<lambda>_. blank_factory_type), factory = (\<lambda>_. blank_factory),
     laborers = 0, capitalists = 0, aristocrat = 0, slaves = 0, rgo_workers = [0],
     great_nations = [], current_date = 100, fired_events = [],
     world_defines = blank_defines\<rparr>"

section \<open>The rules as the specification words them\<close>

text \<open>
  The price rule in the specification's words: the factors are taken from the plain ratios
  \<open>supply / demand\<close> and \<open>demand / supply\<close>.
\<close>

definition spec_price_step :: "real \<Rightarrow> real \<Rightarrow> real \<Rightarrow> real" where
  "spec_price_step supply demand price =
    (let max_slope = sqrt \<bar>demand - supply\<bar> + 20;
         oversupply = clampf (supply / demand - 1) 0 max_slope;
         overdemand = clampf (demand / supply - 1) 0 max_slope;
         speed = 0.05 * (overdemand - oversupply)
     in clampf (price + (if price < 1 then speed * price else speed * sqrt price)) 0.001 100000)"

text \<open>A world in which the good 2 has a supply of 2 and a demand of 1, at a price of \<open>1/2\<close>.\<close>

definition price_example :: world where
  "price_example =
    blank_world
      \<lparr>commodity := (commodity blank_world)
         (2 := blank_commodity\<lparr>current_price := 1 / 2, total_production := 2\<rparr>),
       nation := (nation blank_world)
         (0 := blank_nation\<lparr>real_demand := (\<lambda>_. 0)(2 := 1)\<rparr>)\<rparr>"

text \<open>
  The spending scale in the specification's words: 1 if the cost is affordable from the
  treasury or borrowing is permitted, otherwise treasury / cost.
\<close>

definition spec_spending_scale :: "real \<Rightarrow> real \<Rightarrow> bool \<Rightarrow> real" where
  "spec_spending_scale treasury total_cost borrowing =
    (if total_cost \<le> treasury \<or> borrowing then 1 else treasury / total_cost)"

text \<open>
  Nation 0 spends on its army only: 50 units of good 1 at an effective price of 1, with land
  spending at 100 percent, so that its full spending cost is 50. It is not player controlled
  and cannot borrow.
\<close>

definition spending_example :: "real \<Rightarrow> world" where
  "spending_example treasury =
    blank_world
      \<lparr>nation := (nation blank_world)
         (0 := blank_nation\<lparr>army_demand := (\<lambda>_. 0)(1 := 50), land_spending := 100,
                            stockpiles := (\<lambda>_. 0)(money := treasury)\<rparr>)\<rparr>"

text \<open>
  Two nations with a tax base of 10 and no loan modifier, so that each may owe up to 10:
  nation 0 owes 20, nation 1 owes 5. The date is day 100 and a bankruptcy lasts 3 years.
\<close>

definition bankruptcy_example :: world where
  "bankruptcy_example =
    blank_world
      \<lparr>nation := (nation blank_world)
         (0 := blank_nation\<lparr>total_poor_income := 10, stockpiles := (\<lambda>_. 0)(money := - 20)\<rparr>,
          1 := blank_nation\<lparr>total_poor_income := 10, stockpiles := (\<lambda>_. 0)(money := - 5)\<rparr>)\<rparr>"

text \<open>
  The effective price in the specification's words: the preferred pool is the domestic
  supply when the multiplier is at least 1 and the global pool otherwise; demand within the
  preferred pool pays the base price, and beyond it the base price and the price times the
  multiplier are blended by the fraction of demand the preferred pool cannot meet.
\<close>

definition spec_effective_price :: "real \<Rightarrow> real \<Rightarrow> real \<Rightarrow> real \<Rightarrow> real \<Rightarrow> real" where
  "spec_effective_price multiplier domestic global_pool last_demand base_price =
    (let preferred = (if multiplier \<ge> 1 then domestic else global_pool)
     in if last_demand \<le> preferred then base_price
        else (let unmet = (last_demand - preferred) / last_demand
              in base_price * (1 - unmet) + base_price * multiplier * unmet))"

text \<open>
  Nation 0 subsidises imports (tariffs of \<open>-50\<close> percent, a multiplier of \<open>1/2\<close>) and
  demands 10 of good 1, of which the global pool holds \<open>5/2\<close> and its own pool 10.
  Nation 1 taxes imports (a multiplier of \<open>3/2\<close>) and demands 4 of good 2, of which its
  own pool and the global pool hold 1 each.
\<close>

definition tariff_example :: world where
  "tariff_example =
    blank_world
      \<lparr>commodity := (commodity blank_world)
         (1 := blank_commodity\<lparr>global_market_pool := 5 / 2\<rparr>,
          2 := blank_commodity\<lparr>global_market_pool := 1\<rparr>),
       nation := (nation blank_world)
         (0 := blank_nation\<lparr>tariffs := - 50, real_demand := (\<lambda>_. 0)(1 := 10),
                            domestic_market_pool := (\<lambda>_. 0)(1 := 10)\<rparr>,
          1 := blank_nation\<lparr>tariffs := 50, real_demand := (\<lambda>_. 0)(2 := 4),
                            domestic_market_pool := (\<lambda>_. 0)(2 := 1)\<rparr>)\<rparr>"

text \<open>
  Nation 0 is in the sphere of nation 1 and draws on its stockpiles; it subsidises imports
  (a multiplier of \<open>1/2\<close>). Of good 1 it demands 5; the global pool holds 2, its own pool,
  its leader's pool and its stockpile hold 10 each.
\<close>

definition clearing_example :: world where
  "clearing_example =
    blank_world
      \<lparr>commodity := (commodity blank_world)
         (1 := blank_commodity\<lparr>global_market_pool := 2\<rparr>),
       nation := (nation blank_world)
         (0 := blank_nation\<lparr>tariffs := - 50, in_sphere_of := Some 1,
                            real_demand := (\<lambda>_. 0)(1 := 5),
                            domestic_market_pool := (\<lambda>_. 0)(1 := 10),
                            drawing_on_stockpiles := (\<lambda>_. False)(1 := True),
                            stockpiles := (\<lambda>_. 0)(1 := 10)\<rparr>,
          1 := blank_nation\<lparr>domestic_market_pool := (\<lambda>_. 0)(1 := 10)\<rparr>)\<rparr>"


text \<open>
  A factory of level 1 without primary workers and without subsidy, whose type turns out 10
  units of good 1 per level from no inputs; with a price of 1 and no wages to pay, a level
  of it would earn 10.
\<close>

definition factory_example :: world where
  "factory_example =
    blank_world
      \<lparr>factory_type := (factory_type blank_world)
         (0 := blank_factory_type\<lparr>type_output_amount := 10\<rparr>)\<rparr>"

text \<open>
  Province 0 has 1000 RGO workers and no slaves. Half of its land is owned, so that good 1,
  with a maximal size of 10, can employ 500; it employs 100 and aims at 400. The
  subsistence sector can take 220.
\<close>

definition rgo_example :: world where
  "rgo_example =
    blank_world
      \<lparr>slaves := 1,
       province := (province blank_world)
         (0 := blank_province
            \<lparr>province_rgo_size := 2, landowners_share := 1 / 2,
             rgo_max_size_per_good := (\<lambda>_. 0)(1 := 10),
             rgo_employment_per_good := (\<lambda>_. 0)(1 := 100),
             rgo_target_employment_per_good := (\<lambda>_. 0)(1 := 400),
             province_demographics := (\<lambda>_. 0)(0 := 1000),
             province_total_population := 1000\<rparr>)\<rparr>"

text \<open>
  Nation 0 owns three provinces, one of them central, at an overseas penalty of 1 per
  province: an overseas factor of 2. Good 1 is the one overseas good; it costs 1, no pool
  holds any of it, and the nation's satisfaction for it was 0 the day before. The nation has
  set its overseas budget to \<open>budget\<close> percent, and its treasury holds 100.
\<close>

definition overseas_example :: "int \<Rightarrow> world" where
  "overseas_example budget =
    blank_world
      \<lparr>commodity := (commodity blank_world)
         (1 := blank_commodity\<lparr>overseas_penalty_good := True\<rparr>),
       nation := (nation blank_world)
         (0 := blank_nation\<lparr>owned_province_count := 3, overseas_spending := budget,
                            demand_satisfaction := (\<lambda>_. 1)(1 := 0),
                            stockpiles := (\<lambda>_. 0)(money := 100)\<rparr>),
       world_defines := blank_defines\<lparr>province_overseas_penalty := 1\<rparr>\<rparr>"

section \<open>Properties\<close>

subsection \<open>Prices stay within their bounds\<close>

lemma clampf_range: "lo \<le> hi \<Longrightarrow> lo \<le> clampf v lo hi \<and> clampf v lo hi \<le> hi"
  by (simp add: clampf_def)

lemma price_step_ok: "price_ok (price_step s d p)"
  unfolding price_step_def price_ok_def Let_def using clampf_range[of "0.001" 100000] by simp

lemma update_money_price_other:
  "j \<noteq> c \<Longrightarrow> commodity (update_money_price c w) j = commodity w j"
  by (simp add: update_money_price_def Let_def)

lemma update_money_price_size [simp]:
  "commodity_size (update_money_price c w) = commodity_size w"
  by (simp add: update_money_price_def Let_def)

lemma update_money_price_flag [simp]:
  "money_rgo (commodity (update_money_price c w) j) = money_rgo (commodity w j)"
  by (simp add: update_money_price_def Let_def)

lemma update_money_price_self:
  "money_rgo (commodity w c) \<Longrightarrow> price_ok (current_price (commodity (update_money_price c w) c))"
  using clampf_range[of "0.001" 100000] by (simp add: update_money_price_def Let_def price_ok_def)

lemma update_commodity_price_other:
  "j \<noteq> k \<Longrightarrow> commodity (update_commodity_price k w) j = commodity w j"
  by (simp add: update_commodity_price_def Let_def)

lemma update_commodity_price_size [simp]:
  "commodity_size (update_commodity_price k w) = commodity_size w"
  by (simp add: update_commodity_price_def Let_def)

lemma update_commodity_price_flag [simp]:
  "money_rgo (commodity (update_commodity_price k w) j) = money_rgo (commodity w j)"
  by (simp add: update_commodity_price_def Let_def)

lemma update_commodity_price_self:
  "\<not> money_rgo (commodity w k) \<Longrightarrow> price_ok (current_price (commodity (update_commodity_price k w) k))"
  by (simp add: update_commodity_price_def Let_def price_step_ok)

lemma update_commodity_price_money:
  "money_rgo (commodity w k) \<Longrightarrow> update_commodity_price k w = w"
  by (simp add: update_commodity_price_def)

lemma fold_money_size [simp]: "commodity_size (fold update_money_price xs w) = commodity_size w"
  by (induction xs arbitrary: w) simp_all

lemma fold_money_flag [simp]:
  "money_rgo (commodity (fold update_money_price xs w) j) = money_rgo (commodity w j)"
  by (induction xs arbitrary: w) simp_all

lemma fold_commodity_flag [simp]:
  "money_rgo (commodity (fold update_commodity_price xs w) j) = money_rgo (commodity w j)"
  by (induction xs arbitrary: w) simp_all

lemma money_step_keeps:
  "money_rgo (commodity w j) \<Longrightarrow> price_ok (current_price (commodity w j))
    \<Longrightarrow> price_ok (current_price (commodity (update_money_price c w) j))"
  by (cases "j = c") (simp_all add: update_money_price_self update_money_price_other)

lemma fold_money_keeps:
  "money_rgo (commodity w j) \<Longrightarrow> price_ok (current_price (commodity w j))
    \<Longrightarrow> price_ok (current_price (commodity (fold update_money_price xs w) j))"
  by (induction xs arbitrary: w) (simp_all add: money_step_keeps)

lemma fold_money_sets:
  "money_rgo (commodity w j) \<Longrightarrow> j \<in> set xs
    \<Longrightarrow> price_ok (current_price (commodity (fold update_money_price xs w) j))"
proof (induction xs arbitrary: w)
  case Nil
  then show ?case by simp
next
  case (Cons x xs)
  show ?case
  proof (cases "j = x")
    case True
    then show ?thesis using Cons.prems(1)
      by (simp add: fold_money_keeps update_money_price_self)
  next
    case False
    then show ?thesis using Cons by simp
  qed
qed

lemma commodity_step_keeps:
  assumes ok: "price_ok (current_price (commodity w j))"
  shows "price_ok (current_price (commodity (update_commodity_price k w) j))"
proof (cases "j = k")
  case same: True
  show ?thesis
  proof (cases "money_rgo (commodity w k)")
    case True
    then show ?thesis using ok by (simp add: update_commodity_price_money)
  next
    case False
    then show ?thesis using same by (simp add: update_commodity_price_self)
  qed
next
  case False
  then show ?thesis using ok by (simp add: update_commodity_price_other)
qed

lemma fold_commodity_keeps:
  "price_ok (current_price (commodity w j))
    \<Longrightarrow> price_ok (current_price (commodity (fold update_commodity_price xs w) j))"
  by (induction xs arbitrary: w) (simp_all add: commodity_step_keeps)

lemma fold_commodity_sets:
  "\<not> money_rgo (commodity w j) \<Longrightarrow> j \<in> set xs
    \<Longrightarrow> price_ok (current_price (commodity (fold update_commodity_price xs w) j))"
proof (induction xs arbitrary: w)
  case Nil
  then show ?case by simp
next
  case (Cons x xs)
  show ?case
  proof (cases "j = x")
    case True
    then show ?thesis using Cons.prems(1)
      by (simp add: fold_commodity_keeps update_commodity_price_self)
  next
    case False
    then show ?thesis using Cons by simp
  qed
qed

text \<open>
  Claim C2. After the price update every commodity's current price lies in
  \<open>[0.001, 100000]\<close>: the money commodity, whose price is set from the laborers' needs
  basket, and every other commodity, whose price moves with supply and demand.
\<close>

theorem price_update_bounds:
  "k < commodity_size w \<Longrightarrow>
     0.001 \<le> current_price (commodity (update_prices w) k)
     \<and> current_price (commodity (update_prices w) k) \<le> 100000"
proof -
  assume k: "k < commodity_size w"
  let ?w1 = "fold update_money_price [0..<commodity_size w] w"
  have "price_ok (current_price (commodity (fold update_commodity_price [0..<commodity_size ?w1] ?w1) k))"
  proof (cases "money_rgo (commodity w k)")
    case True
    then have "price_ok (current_price (commodity ?w1 k))"
      using k by (simp add: fold_money_sets)
    then show ?thesis by (rule fold_commodity_keeps)
  next
    case False
    then show ?thesis using k by (simp add: fold_commodity_sets)
  qed
  then show ?thesis by (simp add: update_prices_def Let_def price_ok_def)
qed


subsection \<open>The price rule\<close>

lemma update_money_price_nation [simp]: "nation (update_money_price c w) = nation w"
  by (simp add: update_money_price_def Let_def)

lemma update_money_price_nation_size [simp]: "nation_size (update_money_price c w) = nation_size w"
  by (simp add: update_money_price_def Let_def)

lemma update_money_price_nonmoney:
  "\<not> money_rgo (commodity w k) \<Longrightarrow> commodity (update_money_price c w) k = commodity w k"
  by (cases "k = c") (simp_all add: update_money_price_def Let_def)

lemma fold_money_nation [simp]: "nation (fold update_money_price xs w) = nation w"
  by (induction xs arbitrary: w) simp_all

lemma fold_money_nation_size [simp]: "nation_size (fold update_money_price xs w) = nation_size w"
  by (induction xs arbitrary: w) simp_all

lemma fold_money_nonmoney:
  "\<not> money_rgo (commodity w k) \<Longrightarrow> commodity (fold update_money_price xs w) k = commodity w k"
  by (induction xs arbitrary: w) (simp_all add: update_money_price_nonmoney)

lemma update_commodity_price_nation [simp]: "nation (update_commodity_price c w) = nation w"
  by (simp add: update_commodity_price_def Let_def)

lemma update_commodity_price_nation_size [simp]: "nation_size (update_commodity_price c w) = nation_size w"
  by (simp add: update_commodity_price_def Let_def)

lemma fold_commodity_other:
  "k \<notin> set xs \<Longrightarrow> commodity (fold update_commodity_price xs w) k = commodity w k"
  by (induction xs arbitrary: w) (simp_all add: update_commodity_price_other)

lemma world_demand_cong:
  "nation w' = nation w \<Longrightarrow> nation_size w' = nation_size w \<Longrightarrow> world_demand w' k = world_demand w k"
  by (simp add: world_demand_def)

lemma world_supply_cong:
  "commodity w' k = commodity w k \<Longrightarrow> world_supply w' k = world_supply w k"
  by (simp add: world_supply_def)

lemma update_commodity_price_at:
  "\<not> money_rgo (commodity w k) \<Longrightarrow>
     current_price (commodity (update_commodity_price k w) k)
     = price_step (world_supply w k) (world_demand w k) (current_price (commodity w k))"
  by (simp add: update_commodity_price_def Let_def)

lemma fold_commodity_at:
  "\<not> money_rgo (commodity w k) \<Longrightarrow> k \<in> set xs \<Longrightarrow> distinct xs \<Longrightarrow>
     current_price (commodity (fold update_commodity_price xs w) k)
     = price_step (world_supply w k) (world_demand w k) (current_price (commodity w k))"
proof (induction xs arbitrary: w)
  case Nil
  then show ?case by simp
next
  case (Cons x xs)
  show ?case
  proof (cases "x = k")
    case True
    then have "k \<notin> set xs" using Cons.prems(3) by simp
    then show ?thesis using True Cons.prems(1)
      by (simp add: fold_commodity_other update_commodity_price_at)
  next
    case False
    let ?w' = "update_commodity_price x w"
    have same: "commodity ?w' k = commodity w k"
      using False by (simp add: update_commodity_price_other)
    have "current_price (commodity (fold update_commodity_price xs ?w') k)
          = price_step (world_supply ?w' k) (world_demand ?w' k) (current_price (commodity ?w' k))"
      using Cons.prems False by (intro Cons.IH) (simp_all add: same)
    moreover have "world_demand ?w' k = world_demand w k"
      by (rule world_demand_cong) simp_all
    ultimately show ?thesis
      by (simp add: same world_supply_cong[OF same])
  qed
qed

lemma update_prices_at:
  assumes "k < commodity_size w" "\<not> money_rgo (commodity w k)"
  shows "current_price (commodity (update_prices w) k)
         = price_step (world_supply w k) (world_demand w k) (current_price (commodity w k))"
proof -
  let ?w1 = "fold update_money_price [0..<commodity_size w] w"
  have same: "commodity ?w1 k = commodity w k"
    using assms(2) by (rule fold_money_nonmoney)
  have "current_price (commodity (fold update_commodity_price [0..<commodity_size ?w1] ?w1) k)
        = price_step (world_supply ?w1 k) (world_demand ?w1 k) (current_price (commodity ?w1 k))"
    using assms by (intro fold_commodity_at) (simp_all add: same)
  moreover have "world_demand ?w1 k = world_demand w k"
    by (rule world_demand_cong) simp_all
  ultimately show ?thesis
    by (simp add: update_prices_def Let_def same world_supply_cong[OF same])
qed

lemma price_step_balanced:
  assumes "0.001 \<le> p" "p \<le> 100000"
  shows "price_step 0 0 p = p"
  using assms by (simp add: price_step_def clampf_def Let_def)


text \<open>
  Claim C1, as the code has it. For a commodity that is not the money commodity, the daily
  update takes the demand \<open>d\<close> summed over the nations and the supply \<open>s\<close> (prior production
  plus a twelfth of the global pool), computes the oversupply factor
  \<open>clamp((s + 0.001) / (d + 0.001) - 1, 0, max_slope)\<close> and the symmetric overdemand factor
  with \<open>max_slope = sqrt \<bar>d - s\<bar> + 20\<close>, scales \<open>0.05 \<times> (overdemand - oversupply)\<close> by the
  price when it is below 1 and by its square root otherwise, adds the result to the price and
  clamps it to \<open>[0.001, 100000]\<close>. With no supply and no demand, a price that already lies
  in \<open>[0.001, 100000]\<close> is unchanged. Supply and demand are not negative, so that
  neither divisor is zero.
\<close>

theorem daily_price_update:
  assumes "k < commodity_size w" and "\<not> money_rgo (commodity w k)"
      and "0 \<le> world_supply w k" and "0 \<le> world_demand w k"
  shows "(let s = world_supply w k; d = world_demand w k; p = current_price (commodity w k);
              max_slope = sqrt \<bar>d - s\<bar> + 20;
              oversupply = clampf ((s + 0.001) / (d + 0.001) - 1) 0 max_slope;
              overdemand = clampf ((d + 0.001) / (s + 0.001) - 1) 0 max_slope;
              speed = 0.05 * (overdemand - oversupply) * (if p < 1 then p else sqrt p)
          in current_price (commodity (update_prices w) k) = clampf (p + speed) 0.001 100000
             \<and> (s = 0 \<and> d = 0 \<and> 0.001 \<le> p \<and> p \<le> 100000
                  \<longrightarrow> current_price (commodity (update_prices w) k) = p))"
proof -
  let ?s = "world_supply w k" and ?d = "world_demand w k" and ?p = "current_price (commodity w k)"
  have at: "current_price (commodity (update_prices w) k) = price_step ?s ?d ?p"
    using assms(1,2) by (rule update_prices_at)
  have formula: "price_step ?s ?d ?p =
      clampf (?p + 0.05 * (clampf ((?d + 0.001) / (?s + 0.001) - 1) 0 (sqrt \<bar>?d - ?s\<bar> + 20)
                           - clampf ((?s + 0.001) / (?d + 0.001) - 1) 0 (sqrt \<bar>?d - ?s\<bar> + 20))
                   * (if ?p < 1 then ?p else sqrt ?p)) 0.001 100000"
    by (simp add: price_step_def Let_def)
  have still: "?s = 0 \<and> ?d = 0 \<and> 0.001 \<le> ?p \<and> ?p \<le> 100000 \<longrightarrow> price_step ?s ?d ?p = ?p"
    using price_step_balanced[of ?p] by auto
  show ?thesis
    unfolding Let_def at
  proof (intro conjI)
    show "price_step ?s ?d ?p =
      clampf (?p + 0.05 * (clampf ((?d + 0.001) / (?s + 0.001) - 1) 0 (sqrt \<bar>?d - ?s\<bar> + 20)
                           - clampf ((?s + 0.001) / (?d + 0.001) - 1) 0 (sqrt \<bar>?d - ?s\<bar> + 20))
                   * (if ?p < 1 then ?p else sqrt ?p)) 0.001 100000"
      by (rule formula)
    show "?s = 0 \<and> ?d = 0 \<and> 0.001 \<le> ?p \<and> ?p \<le> 100000 \<longrightarrow> price_step ?s ?d ?p = ?p"
      by (rule still)
  qed
qed

theorem daily_price_update_witness:
  "current_price (commodity (update_prices price_example) 2) = 1 / 2 - 25 / 1001
   \<and> current_price (commodity (update_prices price_example) 1) = 1"
proof -
  have k: "(2::nat) < commodity_size price_example"
    by (simp add: price_example_def blank_world_def)
  have m: "\<not> money_rgo (commodity price_example 2)"
    by (simp add: price_example_def blank_world_def blank_commodity_def)
  have s: "world_supply price_example 2 = 2"
    by (simp add: world_supply_def price_example_def blank_world_def blank_commodity_def)
  have d: "world_demand price_example 2 = 1"
    by (simp add: world_demand_def price_example_def blank_world_def blank_nation_def upt_rec)
  have p: "current_price (commodity price_example 2) = 1 / 2"
    by (simp add: price_example_def blank_world_def blank_commodity_def)
  have k1: "(1::nat) < commodity_size price_example"
    by (simp add: price_example_def blank_world_def)
  have m1: "\<not> money_rgo (commodity price_example 1)"
    by (simp add: price_example_def blank_world_def blank_commodity_def)
  have s1: "world_supply price_example 1 = 0"
    by (simp add: world_supply_def price_example_def blank_world_def blank_commodity_def)
  have d1: "world_demand price_example 1 = 0"
    by (simp add: world_demand_def price_example_def blank_world_def blank_nation_def upt_rec)
  have p1: "current_price (commodity price_example 1) = 1"
    by (simp add: price_example_def blank_world_def blank_commodity_def)
  have "current_price (commodity (update_prices price_example) 2) = 1 / 2 - 25 / 1001"
    using daily_price_update[OF k m] unfolding s d p by (simp add: Let_def clampf_def)
  moreover have "current_price (commodity (update_prices price_example) 1) = 1"
    using daily_price_update[OF k1 m1] unfolding s1 d1 p1 Let_def by simp
  ultimately show ?thesis by simp
qed

text \<open>
  The factors are not the plain ratios of the specification: with a supply of 2, a demand
  of 1 and a price of \<open>1/2\<close> the code moves the price to \<open>1/2 - 25/1001\<close>, the plain
  ratios would give \<open>19/40\<close>. And a price below the floor is raised to it even when supply
  and demand are both zero.
\<close>

theorem spec_price_counterexample:
  "current_price (commodity (update_prices price_example) 2)
     \<noteq> spec_price_step (world_supply price_example 2) (world_demand price_example 2)
          (current_price (commodity price_example 2))
   \<and> price_step 0 0 (1 / 2000) \<noteq> 1 / 2000"
proof -
  have k: "(2::nat) < commodity_size price_example"
    by (simp add: price_example_def blank_world_def)
  have m: "\<not> money_rgo (commodity price_example 2)"
    by (simp add: price_example_def blank_world_def blank_commodity_def)
  have s: "world_supply price_example 2 = 2"
    by (simp add: world_supply_def price_example_def blank_world_def blank_commodity_def)
  have d: "world_demand price_example 2 = 1"
    by (simp add: world_demand_def price_example_def blank_world_def blank_nation_def upt_rec)
  have p: "current_price (commodity price_example 2) = 1 / 2"
    by (simp add: price_example_def blank_world_def blank_commodity_def)
  have a: "price_step 2 1 (1 / 2) = 1 / 2 - 25 / 1001"
    by (simp add: price_step_def clampf_def Let_def)
  have b: "spec_price_step 2 1 (1 / 2) = 19 / 40"
    by (simp add: spec_price_step_def clampf_def Let_def)
  have c: "price_step 0 0 (1 / 2000) = 1 / 1000"
    by (simp add: price_step_def clampf_def Let_def)
  show ?thesis
    unfolding update_prices_at[OF k m] s d p a b c by simp
qed

theorem price_update_bounds_witness:
  "(2::nat) < commodity_size price_example
   \<and> 0.001 \<le> current_price (commodity (update_prices price_example) 2)
   \<and> current_price (commodity (update_prices price_example) 2) \<le> 100000"
proof -
  have k: "(2::nat) < commodity_size price_example"
    by (simp add: price_example_def blank_world_def)
  show ?thesis using k price_update_bounds[OF k] by simp
qed

subsection \<open>The spending scale\<close>

lemma register_demand_keeps:
  "spending_level (nation (register_demand n c a r w) m) = spending_level (nation w m)"
  "stockpiles (nation (register_demand n c a r w) m) = stockpiles (nation w m)"
  by (simp_all add: register_demand_def)

lemma register_fold_keeps:
  "spending_level (nation (fold (\<lambda>cid w'. case amount cid of
        Some a \<Rightarrow> register_demand n cid a reason w' | None \<Rightarrow> w') xs w) m)
     = spending_level (nation w m)
   \<and> stockpiles (nation (fold (\<lambda>cid w'. case amount cid of
        Some a \<Rightarrow> register_demand n cid a reason w' | None \<Rightarrow> w') xs w) m)
     = stockpiles (nation w m)"
  by (induction xs arbitrary: w) (simp_all add: register_demand_keeps split: option.split)

lemma register_each_keeps:
  "spending_level (nation (register_each n reason amount w) m) = spending_level (nation w m)"
  "stockpiles (nation (register_each n reason amount w) m) = stockpiles (nation w m)"
  by (simp_all add: register_each_def register_fold_keeps)

lemma update_national_consumption_keeps:
  "spending_level (nation (update_national_consumption n sc pis w) m) = spending_level (nation w m)"
  "stockpiles (nation (update_national_consumption n sc pis w) m) = stockpiles (nation w m)"
  by (simp_all add: update_national_consumption_def Let_def register_each_keeps)

lemma interest_payment_nonneg: "0 \<le> interest_payment w n"
proof (cases "0 \<le> stockpiles (nation w n) money")
  case True
  then show ?thesis by (simp add: interest_payment_def)
next
  case False
  let ?rate = "max (1 / 100) ((modifier_values (nation w n) nm_loan_interest + 1)
                                * loan_base_interest (world_defines w))"
  have "0 \<le> ?rate" by simp
  moreover have "0 \<le> - stockpiles (nation w n) money" using False by simp
  ultimately have "0 \<le> - stockpiles (nation w n) money * ?rate"
    by (rule mult_nonneg_nonneg[rotated])
  then have "0 \<le> - stockpiles (nation w n) money * ?rate / 30" by simp
  then show ?thesis using False by (simp add: interest_payment_def Let_def)
qed

lemma interest_payment_solvent: "0 \<le> stockpiles (nation w n) money \<Longrightarrow> interest_payment w n = 0"
  by (simp add: interest_payment_def)

lemma budget_after_interest:
  "max 0 (stockpiles (nation w n) money - interest_payment w n) = max 0 (stockpiles (nation w n) money)"
proof (cases "0 \<le> stockpiles (nation w n) money")
  case True
  then show ?thesis by (simp add: interest_payment_solvent)
next
  case False
  then show ?thesis using interest_payment_nonneg[of w n] by simp
qed

lemma nation_set_stockpiles_simps:
  "stockpiles (nation (nation_set_stockpiles n c v w) n) c = v"
  "spending_level (nation (nation_set_stockpiles n c v w) m) = spending_level (nation w m)"
  "is_player_controlled (nation (nation_set_stockpiles n c v w) m) = is_player_controlled (nation w m)"
  "can_take_loans (nation_set_stockpiles n c v w) m = can_take_loans w m"
  by (simp_all add: nation_set_stockpiles_def can_take_loans_def Let_def)

lemma nation_set_maximum_military_costs_simps:
  "stockpiles (nation (nation_set_maximum_military_costs n v w) m) = stockpiles (nation w m)"
  "is_player_controlled (nation (nation_set_maximum_military_costs n v w) m) = is_player_controlled (nation w m)"
  "can_take_loans (nation_set_maximum_military_costs n v w) m = can_take_loans w m"
  "interest_payment (nation_set_maximum_military_costs n v w) m = interest_payment w m"
  by (simp_all add: nation_set_maximum_military_costs_def can_take_loans_def interest_payment_def Let_def)

lemma nation_set_spending_level_simps:
  "stockpiles (nation (nation_set_spending_level n v w) m) = stockpiles (nation w m)"
  "spending_level (nation (nation_set_spending_level n v w) n) = v"
  by (simp_all add: nation_set_spending_level_def)

lemma settle_private_investment_simps:
  "stockpiles (nation (settle_private_investment n w) m) = stockpiles (nation w m)"
  "spending_level (nation (settle_private_investment n w) m) = spending_level (nation w m)"
  by (simp_all add: settle_private_investment_def Let_def)

lemma can_take_loans_player: "can_take_loans w n \<Longrightarrow> is_player_controlled (nation w n)"
  by (auto simp add: can_take_loans_def split: if_splits)

lemma pay_interest_simps:
  "is_player_controlled (nation (pay_interest n w) m) = is_player_controlled (nation w m)"
  "can_take_loans (pay_interest n w) m = can_take_loans w m"
  "stockpiles (nation (pay_interest n w) n) money
     = stockpiles (nation w n) money - (if is_player_controlled (nation w n) then interest_payment w n else 0)"
  by (simp_all add: pay_interest_def nation_set_stockpiles_simps)

lemma pay_interest_budget:
  "max 0 (stockpiles (nation (pay_interest n w) n) money) = max 0 (stockpiles (nation w n) money)"
  using budget_after_interest[of w n] by (simp add: pay_interest_simps)

lemma national_budget_after_interest:
  "national_budget (pay_interest n w) n total_cost =
     (if can_take_loans w n then (total_cost, 1)
      else (max 0 (stockpiles (nation w n) money),
            spending_scale_of total_cost (max 0 (stockpiles (nation w n) money))))"
  using can_take_loans_player[of w n]
  by (auto simp add: national_budget_def pay_interest_simps(1,2) pay_interest_budget Let_def)

lemma update_national_spending_result:
  "(let total_cost = full_spending_cost w n;
        treasury = stockpiles (nation w n) money;
        budget = max 0 treasury;
        w' = update_national_spending n w;
        scale = spending_level (nation w' n)
    in scale = (if can_take_loans w n \<or> total_cost < 0.001 \<or> total_cost \<le> budget then 1
                else budget / total_cost)
       \<and> stockpiles (nation w' n) money
           = treasury - (if is_player_controlled (nation w n) then interest_payment w n else 0)
             - min (if can_take_loans w n then total_cost else budget) (total_cost * scale))"
proof -
  let ?w0 = "nation_set_maximum_military_costs n (army_cost w n + navy_cost w n) w"
  have nb: "national_budget (pay_interest n ?w0) n (full_spending_cost w n) =
     (if can_take_loans w n then (full_spending_cost w n, 1)
      else (max 0 (stockpiles (nation w n) money),
            spending_scale_of (full_spending_cost w n) (max 0 (stockpiles (nation w n) money))))"
    by (simp add: national_budget_after_interest nation_set_maximum_military_costs_simps)
  have st: "stockpiles (nation (pay_interest n ?w0) n) money
     = stockpiles (nation w n) money
       - (if is_player_controlled (nation w n) then interest_payment w n else 0)"
    by (simp add: pay_interest_simps nation_set_maximum_military_costs_simps)
  show ?thesis
    unfolding Let_def update_national_spending_def
    by (simp add: update_national_consumption_keeps settle_private_investment_simps
        nation_set_spending_level_simps nation_set_stockpiles_simps nb st spending_scale_of_def)
qed


text \<open>
  Claim C3, as the code has it. A nation's spending scale is 1 if it can take loans, or if
  its full spending cost is below 0.001 or does not exceed its budget, the budget being the
  treasury where that is positive and 0 otherwise; in every other case the scale is
  budget / cost. The treasury then pays the interest (a player-controlled nation in debt)
  and the smaller of the budget and the scaled cost.
\<close>

theorem national_spending_scale:
  "(let total_cost = full_spending_cost w n;
        treasury = stockpiles (nation w n) money;
        budget = max 0 treasury;
        w' = update_national_spending n w;
        scale = spending_level (nation w' n)
    in scale = (if can_take_loans w n \<or> total_cost < 0.001 \<or> total_cost \<le> budget then 1
                else budget / total_cost)
       \<and> stockpiles (nation w' n) money
           = treasury - (if is_player_controlled (nation w n) then interest_payment w n else 0)
             - min (if can_take_loans w n then total_cost else budget) (total_cost * scale))"
  by (rule update_national_spending_result)

lemma spending_example_facts:
  "full_spending_cost (spending_example t) 0 = 50"
  "\<not> can_take_loans (spending_example t) 0"
  "\<not> is_player_controlled (nation (spending_example t) 0)"
  "stockpiles (nation (spending_example t) 0) money = t"
  by (simp_all add: full_spending_cost_def army_cost_def navy_cost_def construction_cost_def
      stockpile_cost_def overseas_cost_def domestic_investment_cost_def pop_type_payments_def
      stockpile_shortfall_def overseas_factor_of_def can_take_loans_def
      spending_example_def blank_world_def blank_nation_def blank_defines_def money_def
      Let_def upt_rec)

text \<open>
  The two scenarios: with a treasury of 100 and a cost of 50 the scale is 1 and 50 remain;
  with a treasury of 30 the scale is \<open>0.6\<close> and nothing remains.
\<close>

theorem national_spending_scale_witness:
  "spending_level (nation (update_national_spending 0 (spending_example 100)) 0) = 1
   \<and> stockpiles (nation (update_national_spending 0 (spending_example 100)) 0) money = 50
   \<and> spending_level (nation (update_national_spending 0 (spending_example 30)) 0) = 3 / 5
   \<and> stockpiles (nation (update_national_spending 0 (spending_example 30)) 0) money = 0"
proof -
  have a: "spending_level (nation (update_national_spending 0 (spending_example 100)) 0) = 1
     \<and> stockpiles (nation (update_national_spending 0 (spending_example 100)) 0) money = 50"
    using national_spending_scale[of "spending_example 100" 0]
    unfolding Let_def by (simp add: spending_example_facts)
  have b: "spending_level (nation (update_national_spending 0 (spending_example 30)) 0) = 3 / 5
     \<and> stockpiles (nation (update_national_spending 0 (spending_example 30)) 0) money = 0"
    using national_spending_scale[of "spending_example 30" 0]
    unfolding Let_def by (simp add: spending_example_facts)
  show ?thesis using a b by simp
qed

text \<open>
  A nation in debt that cannot borrow has a budget of 0 and a scale of 0, where the quotient
  treasury / cost is negative.
\<close>

theorem spec_spending_scale_counterexample:
  "spending_level (nation (update_national_spending 0 (spending_example (- 10))) 0)
   \<noteq> spec_spending_scale (stockpiles (nation (spending_example (- 10)) 0) money)
        (full_spending_cost (spending_example (- 10)) 0)
        (can_take_loans (spending_example (- 10)) 0)"
proof -
  have "spending_level (nation (update_national_spending 0 (spending_example (- 10))) 0) = 0"
    using update_national_spending_result[of "spending_example (- 10)" 0]
    unfolding Let_def by (simp add: spending_example_facts)
  then show ?thesis
    by (simp add: spending_example_facts spec_spending_scale_def)
qed

subsection \<open>Bankruptcy\<close>

lemma go_bankrupt_other:
  "m \<noteq> n \<Longrightarrow> nation (go_bankrupt n w) m = nation w m"
  by (simp add: go_bankrupt_def Let_def fire_fixed_events_def add_modifier_to_nation_def
      nation_set_stockpiles_def)

lemma go_bankrupt_frame:
  "current_date (go_bankrupt n w) = current_date w"
  "world_defines (go_bankrupt n w) = world_defines w"
  "nation_size (go_bankrupt n w) = nation_size w"
  by (simp_all add: go_bankrupt_def Let_def fire_fixed_events_def add_modifier_to_nation_def
      nation_set_stockpiles_def)

lemma go_bankrupt_self:
  "stockpiles (nation (go_bankrupt n w) n) money = 0"
  "bankrupt_until (nation (go_bankrupt n w) n)
     = current_date w + to_int32 (bankrupcy_duration (world_defines w) * 365)"
  "is_debt_spending (nation (go_bankrupt n w) n) = False"
  by (simp_all add: go_bankrupt_def Let_def fire_fixed_events_def add_modifier_to_nation_def
      nation_set_stockpiles_def)

lemma max_loan_nonneg: "0 \<le> max_loan w n"
  by (simp add: max_loan_def Let_def)

lemma max_loan_cong: "nation w' n = nation w n \<Longrightarrow> max_loan w' n = max_loan w n"
  by (simp add: max_loan_def)

lemma bankruptcy_check_fires:
  "max_loan w n < - stockpiles (nation w n) money \<Longrightarrow> bankruptcy_check n w = go_bankrupt n w"
  using max_loan_nonneg[of w n] by (simp add: bankruptcy_check_def Let_def)

lemma bankruptcy_check_quiet:
  "\<not> max_loan w n < - stockpiles (nation w n) money \<Longrightarrow> bankruptcy_check n w = w"
  by (auto simp add: bankruptcy_check_def Let_def)

lemma bankruptcy_check_other:
  "m \<noteq> n \<Longrightarrow> nation (bankruptcy_check n w) m = nation w m"
  by (simp add: bankruptcy_check_def Let_def go_bankrupt_other)

lemma bankruptcy_check_frame:
  "current_date (bankruptcy_check n w) = current_date w"
  "world_defines (bankruptcy_check n w) = world_defines w"
  by (simp_all add: bankruptcy_check_def Let_def go_bankrupt_frame)

lemma fold_bankruptcy_other:
  "m \<notin> set ns \<Longrightarrow> nation (fold bankruptcy_check ns w) m = nation w m"
  by (induction ns arbitrary: w) (simp_all add: bankruptcy_check_other)

lemma fold_bankruptcy_at:
  "m \<in> set ns \<Longrightarrow> distinct ns \<Longrightarrow>
     nation (fold bankruptcy_check ns w) m = nation (bankruptcy_check m w) m"
proof (induction ns arbitrary: w)
  case Nil
  then show ?case by simp
next
  case (Cons x xs)
  show ?case
  proof (cases "x = m")
    case True
    then have "m \<notin> set xs" using Cons.prems(2) by simp
    then show ?thesis using True by (simp add: fold_bankruptcy_other)
  next
    case False
    let ?w' = "bankruptcy_check x w"
    have same: "nation ?w' m = nation w m"
      using False by (simp add: bankruptcy_check_other)
    have "nation (fold bankruptcy_check xs ?w') m = nation (bankruptcy_check m ?w') m"
      using Cons.prems False by (intro Cons.IH) simp_all
    also have "\<dots> = nation (bankruptcy_check m w) m"
    proof (cases "max_loan w m < - stockpiles (nation w m) money")
      case True
      then have "max_loan ?w' m < - stockpiles (nation ?w' m) money"
        by (simp add: same max_loan_cong[OF same])
      then have "bankruptcy_check m ?w' = go_bankrupt m ?w'" by (rule bankruptcy_check_fires)
      moreover have "bankruptcy_check m w = go_bankrupt m w" using True by (rule bankruptcy_check_fires)
      moreover have "nation (go_bankrupt m ?w') m = nation (go_bankrupt m w) m"
        by (simp add: go_bankrupt_def Let_def fire_fixed_events_def add_modifier_to_nation_def
            nation_set_stockpiles_def same bankruptcy_check_frame)
      ultimately show ?thesis by simp
    next
      case False
      then have "\<not> max_loan ?w' m < - stockpiles (nation ?w' m) money"
        by (simp add: same max_loan_cong[OF same])
      then have "bankruptcy_check m ?w' = ?w'" by (rule bankruptcy_check_quiet)
      moreover have "bankruptcy_check m w = w" using False by (rule bankruptcy_check_quiet)
      ultimately show ?thesis by (simp add: same)
    qed
    finally show ?thesis by simp
  qed
qed

text \<open>
  Claim C6. In the bankruptcy pass a nation goes bankrupt exactly when its debt, the negated
  money stockpile, exceeds its \<open>max_loan\<close>: then its treasury is reset to 0 and
  \<open>bankrupt_until\<close> is set to the current date plus the bankruptcy duration (the define
  \<^verbatim>\<open>bankrupcy_duration\<close> times 365 days); otherwise the nation is left as it was.
\<close>

theorem bankruptcy_trigger:
  assumes "n < nation_size w"
  shows "(max_loan w n < - stockpiles (nation w n) money \<longrightarrow>
            nation (bankruptcy_pass w) n = nation (go_bankrupt n w) n
            \<and> stockpiles (nation (bankruptcy_pass w) n) money = 0
            \<and> bankrupt_until (nation (bankruptcy_pass w) n)
                = current_date w + to_int32 (bankrupcy_duration (world_defines w) * 365))
         \<and> (\<not> max_loan w n < - stockpiles (nation w n) money \<longrightarrow>
            nation (bankruptcy_pass w) n = nation w n)"
proof -
  have at: "nation (bankruptcy_pass w) n = nation (bankruptcy_check n w) n"
    unfolding bankruptcy_pass_def using assms by (intro fold_bankruptcy_at) simp_all
  show ?thesis
  proof (cases "max_loan w n < - stockpiles (nation w n) money")
    case True
    then show ?thesis
      by (simp add: at bankruptcy_check_fires go_bankrupt_self)
  next
    case False
    then show ?thesis
      by (simp add: at bankruptcy_check_quiet)
  qed
qed

lemma bankruptcy_example_facts:
  "nation_size bankruptcy_example = 2"
  "max_loan bankruptcy_example 0 = 10"
  "max_loan bankruptcy_example 1 = 10"
  "stockpiles (nation bankruptcy_example 0) money = - 20"
  "stockpiles (nation bankruptcy_example 1) money = - 5"
  "current_date bankruptcy_example = 100"
  "bankrupcy_duration (world_defines bankruptcy_example) = 3"
  by (simp_all add: bankruptcy_example_def blank_world_def blank_nation_def blank_defines_def
      max_loan_def money_def Let_def)

text \<open>
  The scenario: a money stockpile of \<open>-20\<close> with a \<open>max_loan\<close> of 10 triggers the
  bankruptcy, a debt of 5 does not.
\<close>

theorem bankruptcy_trigger_witness:
  "stockpiles (nation (bankruptcy_pass bankruptcy_example) 0) money = 0
   \<and> bankrupt_until (nation (bankruptcy_pass bankruptcy_example) 0) = 1195
   \<and> nation (bankruptcy_pass bankruptcy_example) 1 = nation bankruptcy_example 1"
proof -
  have n0: "(0::nat) < nation_size bankruptcy_example" and n1: "(1::nat) < nation_size bankruptcy_example"
    by (simp_all add: bankruptcy_example_facts)
  have fire: "max_loan bankruptcy_example 0 < - stockpiles (nation bankruptcy_example 0) money"
    by (simp add: bankruptcy_example_facts)
  have days: "to_int32 (3 * 365) = 1095" by (simp add: to_int32_def)
  have "stockpiles (nation (bankruptcy_pass bankruptcy_example) 0) money = 0
     \<and> bankrupt_until (nation (bankruptcy_pass bankruptcy_example) 0)
         = current_date bankruptcy_example
           + to_int32 (bankrupcy_duration (world_defines bankruptcy_example) * 365)"
    using bankruptcy_trigger[OF n0] fire by blast
  then have a: "stockpiles (nation (bankruptcy_pass bankruptcy_example) 0) money = 0
     \<and> bankrupt_until (nation (bankruptcy_pass bankruptcy_example) 0) = 1195"
    unfolding bankruptcy_example_facts days by simp
  have b: "nation (bankruptcy_pass bankruptcy_example) 1 = nation bankruptcy_example 1"
    using bankruptcy_trigger[OF n1] unfolding bankruptcy_example_facts by simp
  show ?thesis using a b by simp
qed

subsection \<open>Effective prices\<close>

lemma set_effective_price_other:
  "c \<noteq> c' \<Longrightarrow> effective_prices (nation (set_effective_price n c' w) n) c
     = effective_prices (nation w n) c"
  by (simp add: set_effective_price_def)

lemma set_effective_price_self:
  "effective_prices (nation (set_effective_price n c w) n) c = effective_price_of w n c"
  by (simp add: set_effective_price_def)

lemma set_effective_price_frame:
  "global_market_price_multiplier (set_effective_price n c' w) n = global_market_price_multiplier w n"
  "domestic_supply_of (set_effective_price n c' w) n c = domestic_supply_of w n c"
  "commodity (set_effective_price n c' w) = commodity w"
  "real_demand (nation (set_effective_price n c' w) n) = real_demand (nation w n)"
  by (simp_all add: set_effective_price_def global_market_price_multiplier_def
      effective_tariff_rate_def domestic_supply_of_def Let_def split: option.split)

lemma effective_price_of_frame:
  "effective_price_of (set_effective_price n c' w) n c = effective_price_of w n c"
  unfolding effective_price_of_def set_effective_price_frame ..

lemma fold_effective_price_of:
  "effective_price_of (fold (set_effective_price n) xs w) n c = effective_price_of w n c"
  by (induction xs arbitrary: w) (simp_all add: effective_price_of_frame)

lemma fold_effective_price_other:
  "c \<notin> set xs \<Longrightarrow> effective_prices (nation (fold (set_effective_price n) xs w) n) c
     = effective_prices (nation w n) c"
  by (induction xs arbitrary: w) (auto simp add: set_effective_price_other)

lemma fold_effective_price_at:
  "c \<in> set xs \<Longrightarrow> distinct xs \<Longrightarrow>
     effective_prices (nation (fold (set_effective_price n) xs w) n) c = effective_price_of w n c"
proof (induction xs arbitrary: w)
  case Nil
  then show ?case by simp
next
  case (Cons x xs)
  show ?case
  proof (cases "x = c")
    case True
    then have "c \<notin> set xs" using Cons.prems(2) by simp
    then show ?thesis using True
      by (simp add: fold_effective_price_other set_effective_price_self)
  next
    case False
    then have "effective_prices (nation (fold (set_effective_price n) xs (set_effective_price n x w)) n) c
        = effective_price_of (set_effective_price n x w) n c"
      using Cons.prems by (intro Cons.IH) simp_all
    then show ?thesis by (simp add: effective_price_of_frame)
  qed
qed

lemma populate_effective_prices_at:
  "c < commodity_size w \<Longrightarrow>
     effective_prices (nation (populate_effective_prices n w) n) c = effective_price_of w n c"
  unfolding populate_effective_prices_def by (rule fold_effective_price_at) simp_all

text \<open>
  Claim C5, as the code has it. The price multiplier is tariff rate + blockaded fraction of
  the central ports + 1. With \<open>D\<close> the domestic supply (own pool, sphere leader's pool and
  the stockpile when drawn on), \<open>G\<close> the global pool, \<open>L\<close> the last demand and \<open>B\<close> the
  base price: a nation whose multiplier is at least 1 pays \<open>B\<close> when \<open>L \<le> D\<close>, and
  otherwise \<open>B\<close> on the domestic share and \<open>B\<close> times the multiplier on the rest, the
  domestic share being \<open>D / L\<close> while the total supply covers the demand and
  \<open>D / (D + G)\<close> beyond that; a nation whose multiplier is below 1 pays \<open>B\<close> when
  \<open>L \<le> G\<close>, and otherwise \<open>B\<close> times the multiplier on the global share (\<open>G / L\<close>, or
  \<open>G / (D + G)\<close> beyond the total supply) and \<open>B\<close> on the rest. Without any supply the
  price is \<open>B\<close> times the multiplier in the first case and \<open>B\<close> in the second. The
  pools are not negative, so that no share divides by zero.
\<close>

theorem effective_price_rule:
  assumes "c < commodity_size w"
      and "0 \<le> domestic_supply_of w n c" and "0 \<le> global_market_pool (commodity w c)"
  shows "(let m = global_market_price_multiplier w n;
              D = domestic_supply_of w n c;
              G = global_market_pool (commodity w c);
              L = real_demand (nation w n) c;
              B = current_price (commodity w c);
              e = effective_prices (nation (populate_effective_prices n w) n) c
          in m = effective_tariff_rate w n
                 + (if central_ports (nation w n) > 0
                    then real (central_blockaded (nation w n)) / real (central_ports (nation w n))
                    else 0)
                 + 1
           \<and> (m \<ge> 1 \<and> L \<le> D \<longrightarrow> e = B)
           \<and> (m \<ge> 1 \<and> D < L \<and> L \<le> D + G \<longrightarrow> e = B * (D / L) + B * (1 - D / L) * m)
           \<and> (m \<ge> 1 \<and> D < L \<and> D + G < L \<and> 0 < D + G \<longrightarrow>
                 e = B * (D / (D + G)) + B * (1 - D / (D + G)) * m)
           \<and> (m \<ge> 1 \<and> D < L \<and> D + G < L \<and> D + G \<le> 0 \<longrightarrow> e = B * m)
           \<and> (m < 1 \<and> L \<le> G \<longrightarrow> e = B)
           \<and> (m < 1 \<and> G < L \<and> L \<le> D + G \<longrightarrow> e = B * (G / L) * m + B * (1 - G / L))
           \<and> (m < 1 \<and> G < L \<and> D + G < L \<and> 0 < D + G \<longrightarrow>
                 e = B * (G / (D + G)) * m + B * (1 - G / (D + G)))
           \<and> (m < 1 \<and> G < L \<and> D + G < L \<and> D + G \<le> 0 \<longrightarrow> e = B))"
  unfolding Let_def populate_effective_prices_at[OF assms(1)]
  by (simp add: effective_price_of_def global_market_price_multiplier_def[of w n] Let_def)


lemma tariff_example_facts:
  "commodity_size tariff_example = 3"
  "global_market_price_multiplier tariff_example 0 = 1 / 2"
  "global_market_price_multiplier tariff_example 1 = 3 / 2"
  "domestic_supply_of tariff_example 0 1 = 10"
  "domestic_supply_of tariff_example 1 2 = 1"
  "global_market_pool (commodity tariff_example 1) = 5 / 2"
  "global_market_pool (commodity tariff_example 2) = 1"
  "real_demand (nation tariff_example 0) 1 = 10"
  "real_demand (nation tariff_example 1) 2 = 4"
  "current_price (commodity tariff_example 1) = 1"
  "current_price (commodity tariff_example 2) = 1"
  by (simp_all add: tariff_example_def blank_world_def blank_nation_def blank_commodity_def
      global_market_price_multiplier_def effective_tariff_rate_def domestic_supply_of_def Let_def)

theorem effective_price_rule_witness:
  "effective_prices (nation (populate_effective_prices 0 tariff_example) 0) 1 = 7 / 8
   \<and> effective_prices (nation (populate_effective_prices 1 tariff_example) 1) 2 = 5 / 4"
proof -
  have c1: "(1::nat) < commodity_size tariff_example" and c2: "(2::nat) < commodity_size tariff_example"
    by (simp_all add: tariff_example_facts)
  have a: "effective_prices (nation (populate_effective_prices 0 tariff_example) 0) 1 = 7 / 8"
    using effective_price_rule[OF c1, of 0] unfolding Let_def tariff_example_facts by simp
  have b: "effective_prices (nation (populate_effective_prices 1 tariff_example) 1) 2 = 5 / 4"
    using effective_price_rule[OF c2, of 1] unfolding Let_def tariff_example_facts by simp
  show ?thesis using a b by simp
qed

text \<open>
  In both examples the code's price differs from the blend by the fraction of demand that the
  preferred pool cannot meet: the multiplier always weighs the global share, also when the
  global pool is the preferred one, and beyond the total supply the shares are shares of the
  supply.
\<close>

theorem spec_effective_price_counterexample:
  "effective_prices (nation (populate_effective_prices 0 tariff_example) 0) 1
     \<noteq> spec_effective_price (global_market_price_multiplier tariff_example 0)
          (domestic_supply_of tariff_example 0 1) (global_market_pool (commodity tariff_example 1))
          (real_demand (nation tariff_example 0) 1) (current_price (commodity tariff_example 1))
   \<and> effective_prices (nation (populate_effective_prices 1 tariff_example) 1) 2
     \<noteq> spec_effective_price (global_market_price_multiplier tariff_example 1)
          (domestic_supply_of tariff_example 1 2) (global_market_pool (commodity tariff_example 2))
          (real_demand (nation tariff_example 1) 2) (current_price (commodity tariff_example 2))"
proof -
  have c1: "(1::nat) < commodity_size tariff_example" and c2: "(2::nat) < commodity_size tariff_example"
    by (simp_all add: tariff_example_facts)
  have a: "effective_price_of tariff_example 0 1 = 7 / 8"
    unfolding effective_price_of_def Let_def tariff_example_facts by simp
  have b: "effective_price_of tariff_example 1 2 = 5 / 4"
    unfolding effective_price_of_def Let_def tariff_example_facts by simp
  have sa: "spec_effective_price (1 / 2) 10 (5 / 2) 10 1 = 5 / 8"
    by (simp add: spec_effective_price_def Let_def)
  have sb: "spec_effective_price (3 / 2) 1 1 4 1 = 11 / 8"
    by (simp add: spec_effective_price_def Let_def)
  show ?thesis
    unfolding populate_effective_prices_at[OF c1] populate_effective_prices_at[OF c2]
      tariff_example_facts a b sa sb by simp
qed

subsection \<open>Market clearing\<close>

lemma nation_set_domestic_market_pool_sel:
  "domestic_market_pool (nation (nation_set_domestic_market_pool n c v w) k) c'
     = (if k = n \<and> c' = c then v else domestic_market_pool (nation w k) c')"
  "stockpiles (nation (nation_set_domestic_market_pool n c v w) k) = stockpiles (nation w k)"
  "in_sphere_of (nation (nation_set_domestic_market_pool n c v w) k) = in_sphere_of (nation w k)"
  "drawing_on_stockpiles (nation (nation_set_domestic_market_pool n c v w) k) = drawing_on_stockpiles (nation w k)"
  "real_demand (nation (nation_set_domestic_market_pool n c v w) k) = real_demand (nation w k)"
  "demand_satisfaction (nation (nation_set_domestic_market_pool n c v w) k) = demand_satisfaction (nation w k)"
  "direct_demand_satisfaction (nation (nation_set_domestic_market_pool n c v w) k) = direct_demand_satisfaction (nation w k)"
  "commodity (nation_set_domestic_market_pool n c v w) = commodity w"
  "world_defines (nation_set_domestic_market_pool n c v w) = world_defines w"
  by (simp_all add: nation_set_domestic_market_pool_def)

lemma nation_set_stockpiles_sel:
  "stockpiles (nation (nation_set_stockpiles n c v w) k) c'
     = (if k = n \<and> c' = c then v else stockpiles (nation w k) c')"
  "domestic_market_pool (nation (nation_set_stockpiles n c v w) k) = domestic_market_pool (nation w k)"
  "in_sphere_of (nation (nation_set_stockpiles n c v w) k) = in_sphere_of (nation w k)"
  "drawing_on_stockpiles (nation (nation_set_stockpiles n c v w) k) = drawing_on_stockpiles (nation w k)"
  "real_demand (nation (nation_set_stockpiles n c v w) k) = real_demand (nation w k)"
  "demand_satisfaction (nation (nation_set_stockpiles n c v w) k) = demand_satisfaction (nation w k)"
  "direct_demand_satisfaction (nation (nation_set_stockpiles n c v w) k) = direct_demand_satisfaction (nation w k)"
  "commodity (nation_set_stockpiles n c v w) = commodity w"
  "world_defines (nation_set_stockpiles n c v w) = world_defines w"
  by (simp_all add: nation_set_stockpiles_def)

lemma nation_set_demand_satisfaction_sel:
  "demand_satisfaction (nation (nation_set_demand_satisfaction n c v w) k) c'
     = (if k = n \<and> c' = c then v else demand_satisfaction (nation w k) c')"
  "domestic_market_pool (nation (nation_set_demand_satisfaction n c v w) k) = domestic_market_pool (nation w k)"
  "stockpiles (nation (nation_set_demand_satisfaction n c v w) k) = stockpiles (nation w k)"
  "in_sphere_of (nation (nation_set_demand_satisfaction n c v w) k) = in_sphere_of (nation w k)"
  "drawing_on_stockpiles (nation (nation_set_demand_satisfaction n c v w) k) = drawing_on_stockpiles (nation w k)"
  "real_demand (nation (nation_set_demand_satisfaction n c v w) k) = real_demand (nation w k)"
  "direct_demand_satisfaction (nation (nation_set_demand_satisfaction n c v w) k) = direct_demand_satisfaction (nation w k)"
  "commodity (nation_set_demand_satisfaction n c v w) = commodity w"
  "world_defines (nation_set_demand_satisfaction n c v w) = world_defines w"
  by (simp_all add: nation_set_demand_satisfaction_def)

lemma nation_set_direct_demand_satisfaction_sel:
  "direct_demand_satisfaction (nation (nation_set_direct_demand_satisfaction n c v w) k) c'
     = (if k = n \<and> c' = c then v else direct_demand_satisfaction (nation w k) c')"
  "domestic_market_pool (nation (nation_set_direct_demand_satisfaction n c v w) k) = domestic_market_pool (nation w k)"
  "stockpiles (nation (nation_set_direct_demand_satisfaction n c v w) k) = stockpiles (nation w k)"
  "in_sphere_of (nation (nation_set_direct_demand_satisfaction n c v w) k) = in_sphere_of (nation w k)"
  "drawing_on_stockpiles (nation (nation_set_direct_demand_satisfaction n c v w) k) = drawing_on_stockpiles (nation w k)"
  "real_demand (nation (nation_set_direct_demand_satisfaction n c v w) k) = real_demand (nation w k)"
  "demand_satisfaction (nation (nation_set_direct_demand_satisfaction n c v w) k) = demand_satisfaction (nation w k)"
  "commodity (nation_set_direct_demand_satisfaction n c v w) = commodity w"
  "world_defines (nation_set_direct_demand_satisfaction n c v w) = world_defines w"
  by (simp_all add: nation_set_direct_demand_satisfaction_def)

lemma nation_set_imports_sel:
  "domestic_market_pool (nation (nation_set_imports n c v w) k) = domestic_market_pool (nation w k)"
  "stockpiles (nation (nation_set_imports n c v w) k) = stockpiles (nation w k)"
  "in_sphere_of (nation (nation_set_imports n c v w) k) = in_sphere_of (nation w k)"
  "drawing_on_stockpiles (nation (nation_set_imports n c v w) k) = drawing_on_stockpiles (nation w k)"
  "real_demand (nation (nation_set_imports n c v w) k) = real_demand (nation w k)"
  "demand_satisfaction (nation (nation_set_imports n c v w) k) = demand_satisfaction (nation w k)"
  "direct_demand_satisfaction (nation (nation_set_imports n c v w) k) = direct_demand_satisfaction (nation w k)"
  "commodity (nation_set_imports n c v w) = commodity w"
  "world_defines (nation_set_imports n c v w) = world_defines w"
  by (simp_all add: nation_set_imports_def)

lemma commodity_set_global_market_pool_sel:
  "global_market_pool (commodity (commodity_set_global_market_pool c v w) c')
     = (if c' = c then v else global_market_pool (commodity w c'))"
  "nation (commodity_set_global_market_pool c v w) = nation w"
  "world_defines (commodity_set_global_market_pool c v w) = world_defines w"
  by (simp_all add: commodity_set_global_market_pool_def)

lemmas market_sel = nation_set_domestic_market_pool_sel nation_set_stockpiles_sel
  nation_set_demand_satisfaction_sel nation_set_direct_demand_satisfaction_sel
  nation_set_imports_sel commodity_set_global_market_pool_sel



lemma update_satisfaction_frame:
  "domestic_market_pool (nation (update_satisfaction n c w) k) = domestic_market_pool (nation w k)"
  "stockpiles (nation (update_satisfaction n c w) k) = stockpiles (nation w k)"
  "in_sphere_of (nation (update_satisfaction n c w) k) = in_sphere_of (nation w k)"
  "drawing_on_stockpiles (nation (update_satisfaction n c w) k) = drawing_on_stockpiles (nation w k)"
  "real_demand (nation (update_satisfaction n c w) k) = real_demand (nation w k)"
  "commodity (update_satisfaction n c w) = commodity w"
  "world_defines (update_satisfaction n c w) = world_defines w"
  by (simp_all add: update_satisfaction_def Let_def nation_set_demand_satisfaction_sel
      nation_set_direct_demand_satisfaction_sel)

lemma domestic_side_total:
  "sum_list (domestic_side_pools w n c)
      = domestic_market_pool (nation w n) c
        + (case in_sphere_of (nation w n) of Some s \<Rightarrow> domestic_market_pool (nation w s) c | None \<Rightarrow> 0)
        + (if drawing_on_stockpiles (nation w n) c then stockpiles (nation w n) c else 0)"
  by (simp add: domestic_side_pools_def split: option.split)

lemma update_satisfaction_sat:
  "demand_satisfaction (nation (update_satisfaction n c w) k) c'
     = (if k = n \<and> c' = c
        then min 1 (demand_satisfaction (nation w n) c * alice_sat_delay_factor (world_defines w)
                    + supply_ratio w n c * (1 - alice_sat_delay_factor (world_defines w)))
        else demand_satisfaction (nation w k) c')"
  by (simp add: update_satisfaction_def Let_def nation_set_demand_satisfaction_sel
      nation_set_direct_demand_satisfaction_sel supply_ratio_def market_supply_def
      domestic_side_total)

lemma update_satisfaction_direct:
  "direct_demand_satisfaction (nation (update_satisfaction n c w) k) c'
     = (if k = n \<and> c' = c then min 1 (supply_ratio w n c)
        else direct_demand_satisfaction (nation w k) c')"
  by (simp add: update_satisfaction_def Let_def nation_set_demand_satisfaction_sel
      nation_set_direct_demand_satisfaction_sel supply_ratio_def market_supply_def
      domestic_side_total)

lemma consume_frame:
  "demand_satisfaction (nation (consume_domestic_first n c w) k) = demand_satisfaction (nation w k)"
  "direct_demand_satisfaction (nation (consume_domestic_first n c w) k) = direct_demand_satisfaction (nation w k)"
  "world_defines (consume_domestic_first n c w) = world_defines w"
  "demand_satisfaction (nation (consume_global_first n c w) k) = demand_satisfaction (nation w k)"
  "direct_demand_satisfaction (nation (consume_global_first n c w) k) = direct_demand_satisfaction (nation w k)"
  "world_defines (consume_global_first n c w) = world_defines w"
  by (cases "in_sphere_of (nation w n)"; cases "drawing_on_stockpiles (nation w n) c";
      simp add: consume_domestic_first_def consume_global_first_def Let_def market_sel)+


lemma consume_domestic_first_nonneg:
  assumes "\<forall>k c. 0 \<le> domestic_market_pool (nation w k) c"
      and "\<forall>c. 1 \<le> c \<longrightarrow> 0 \<le> stockpiles (nation w n) c"
      and "\<forall>c. 0 \<le> global_market_pool (commodity w c)"
  shows "0 \<le> domestic_market_pool (nation (consume_domestic_first n c w) k) c'"
    and "1 \<le> c' \<Longrightarrow> 0 \<le> stockpiles (nation (consume_domestic_first n c w) n) c'"
    and "0 \<le> global_market_pool (commodity (consume_domestic_first n c w) c')"
  using assms
  by (cases "in_sphere_of (nation w n)"; cases "drawing_on_stockpiles (nation w n) c";
      simp add: consume_domestic_first_def Let_def market_sel)+

lemma consume_global_first_nonneg:
  assumes "\<forall>k c. 0 \<le> domestic_market_pool (nation w k) c"
      and "\<forall>c. 1 \<le> c \<longrightarrow> 0 \<le> stockpiles (nation w n) c"
      and "\<forall>c. 0 \<le> global_market_pool (commodity w c)"
  shows "0 \<le> domestic_market_pool (nation (consume_global_first n c w) k) c'"
    and "1 \<le> c' \<Longrightarrow> 0 \<le> stockpiles (nation (consume_global_first n c w) n) c'"
    and "0 \<le> global_market_pool (commodity (consume_global_first n c w) c')"
  using assms
  by (cases "in_sphere_of (nation w n)"; cases "drawing_on_stockpiles (nation w n) c";
      simp add: consume_global_first_def Let_def market_sel)+

lemma market_supply_nonneg:
  assumes "clearing_inv n w" and "1 \<le> c"
  shows "0 \<le> market_supply w n c"
proof -
  have "0 \<le> domestic_market_pool (nation w n) c" using assms(1) by (simp add: clearing_inv_def)
  moreover have "0 \<le> (case in_sphere_of (nation w n) of
                          Some s \<Rightarrow> domestic_market_pool (nation w s) c | None \<Rightarrow> 0)"
    using assms(1) by (simp add: clearing_inv_def split: option.split)
  moreover have "0 \<le> (if drawing_on_stockpiles (nation w n) c then stockpiles (nation w n) c else 0)"
    using assms by (simp add: clearing_inv_def)
  moreover have "0 \<le> global_market_pool (commodity w c)" using assms(1) by (simp add: clearing_inv_def)
  ultimately show ?thesis by (simp add: market_supply_def domestic_side_total)
qed

lemma supply_ratio_nonneg:
  assumes "clearing_inv n w" and "1 \<le> c"
  shows "0 \<le> supply_ratio w n c"
  using market_supply_nonneg[OF assms] by (simp add: supply_ratio_def)

lemma adjusted_satisfaction_nonneg:
  assumes "clearing_inv n w" and "1 \<le> c"
  shows "0 \<le> demand_satisfaction (nation w n) c * alice_sat_delay_factor (world_defines w)
              + supply_ratio w n c * (1 - alice_sat_delay_factor (world_defines w))"
proof -
  have "0 \<le> demand_satisfaction (nation w n) c" "0 \<le> alice_sat_delay_factor (world_defines w)"
    "0 \<le> 1 - alice_sat_delay_factor (world_defines w)"
    using assms(1) by (simp_all add: clearing_inv_def)
  then show ?thesis using supply_ratio_nonneg[OF assms] by simp
qed

lemma clear_market_commodity_sat:
  "demand_satisfaction (nation (clear_market_commodity n m c w) k) c'
     = (if k = n \<and> c' = c
        then min 1 (demand_satisfaction (nation w n) c * alice_sat_delay_factor (world_defines w)
                    + supply_ratio w n c * (1 - alice_sat_delay_factor (world_defines w)))
        else demand_satisfaction (nation w k) c')"
  by (simp add: clear_market_commodity_def Let_def consume_frame update_satisfaction_sat)

lemma clear_market_commodity_direct:
  "direct_demand_satisfaction (nation (clear_market_commodity n m c w) k) c'
     = (if k = n \<and> c' = c then min 1 (supply_ratio w n c)
        else direct_demand_satisfaction (nation w k) c')"
  by (simp add: clear_market_commodity_def Let_def consume_frame update_satisfaction_direct)

lemma clear_market_commodity_inv:
  assumes "clearing_inv n w" and "1 \<le> c"
  shows "clearing_inv n (clear_market_commodity n m c w)"
proof -
  let ?w2 = "update_satisfaction n c w"
  have pre: "\<forall>k c. 0 \<le> domestic_market_pool (nation ?w2 k) c"
    "\<forall>c. 1 \<le> c \<longrightarrow> 0 \<le> stockpiles (nation ?w2 n) c"
    "\<forall>c. 0 \<le> global_market_pool (commodity ?w2 c)"
    using assms(1) by (simp_all add: clearing_inv_def update_satisfaction_frame)
  have sat: "0 \<le> demand_satisfaction (nation (clear_market_commodity n m c w) n) c'" for c'
    using assms(1) adjusted_satisfaction_nonneg[OF assms]
    by (simp add: clear_market_commodity_sat clearing_inv_def)
  have defs: "world_defines (clear_market_commodity n m c w) = world_defines w"
    by (simp add: clear_market_commodity_def Let_def consume_frame update_satisfaction_frame)
  show ?thesis
  proof (cases "m \<ge> 1")
    case True
    then have eq: "clear_market_commodity n m c w = consume_domestic_first n c ?w2"
      by (simp add: clear_market_commodity_def Let_def)
    show ?thesis
      unfolding clearing_inv_def
      using sat defs assms(1) consume_domestic_first_nonneg[OF pre]
      by (simp add: eq[symmetric] clearing_inv_def) (simp add: eq)
  next
    case False
    then have eq: "clear_market_commodity n m c w = consume_global_first n c ?w2"
      by (simp add: clear_market_commodity_def Let_def)
    show ?thesis
      unfolding clearing_inv_def
      using sat defs assms(1) consume_global_first_nonneg[OF pre]
      by (simp add: eq[symmetric] clearing_inv_def) (simp add: eq)
  qed
qed


lemma clear_market_commodity_ok:
  assumes "clearing_inv n w" and "1 \<le> c"
  shows "satisfaction_ok (clear_market_commodity n m c w) n c"
  using adjusted_satisfaction_nonneg[OF assms] supply_ratio_nonneg[OF assms]
  by (simp add: satisfaction_ok_def clear_market_commodity_sat clear_market_commodity_direct)

lemma clear_market_commodity_keeps_ok:
  assumes "clearing_inv n w" and "1 \<le> c'" and "satisfaction_ok w n c"
  shows "satisfaction_ok (clear_market_commodity n m c' w) n c"
proof (cases "c = c'")
  case True
  then show ?thesis using clear_market_commodity_ok[OF assms(1,2)] by simp
next
  case False
  then show ?thesis using assms(3)
    by (simp add: satisfaction_ok_def clear_market_commodity_sat clear_market_commodity_direct)
qed

lemma fold_clear_market_ok:
  assumes "clearing_inv n w" and "\<forall>x\<in>set xs. 1 \<le> x"
      and "satisfaction_ok w n c \<or> c \<in> set xs"
  shows "satisfaction_ok (fold (clear_market_commodity n m) xs w) n c"
  using assms
proof (induction xs arbitrary: w)
  case Nil
  then show ?case by simp
next
  case (Cons x xs)
  have x: "1 \<le> x" using Cons.prems(2) by simp
  have inv: "clearing_inv n (clear_market_commodity n m x w)"
    using Cons.prems(1) x by (rule clear_market_commodity_inv)
  have "satisfaction_ok (clear_market_commodity n m x w) n c \<or> c \<in> set xs"
  proof (cases "c = x")
    case True
    then show ?thesis using clear_market_commodity_ok[OF Cons.prems(1) x] by simp
  next
    case False
    then show ?thesis
      using Cons.prems(3) clear_market_commodity_keeps_ok[OF Cons.prems(1) x] by auto
  qed
  then have "satisfaction_ok (fold (clear_market_commodity n m) xs (clear_market_commodity n m x w)) n c"
    using inv Cons.prems(2) by (intro Cons.IH) simp_all
  then show ?case by simp
qed

text \<open>
  Claim C8. When a nation's market is cleared in a state whose pools of goods are not
  negative, with the satisfaction of the day before not negative and a delay factor between
  0 and 1, then for every good of the clearing loop (every commodity but money, which the
  loop skips) both \<open>demand_satisfaction\<close> and \<open>direct_demand_satisfaction\<close> of the nation lie
  in \<open>[0, 1]\<close> afterwards.
\<close>

theorem satisfaction_bounds:
  assumes "clearing_inv n w" and "1 \<le> c" and "c < commodity_size w"
  shows "0 \<le> demand_satisfaction (nation (clear_market n w) n) c
         \<and> demand_satisfaction (nation (clear_market n w) n) c \<le> 1
         \<and> 0 \<le> direct_demand_satisfaction (nation (clear_market n w) n) c
         \<and> direct_demand_satisfaction (nation (clear_market n w) n) c \<le> 1"
proof -
  have "satisfaction_ok (clear_market n w) n c"
    unfolding clear_market_def using assms by (intro fold_clear_market_ok) simp_all
  then show ?thesis by (simp add: satisfaction_ok_def)
qed

lemma clearing_example_inv: "clearing_inv 0 clearing_example"
  by (simp add: clearing_inv_def clearing_example_def blank_world_def blank_nation_def
      blank_commodity_def blank_defines_def)

theorem satisfaction_bounds_witness:
  "clearing_inv 0 clearing_example \<and> (1::nat) < commodity_size clearing_example
   \<and> 0 \<le> demand_satisfaction (nation (clear_market 0 clearing_example) 0) 1
   \<and> demand_satisfaction (nation (clear_market 0 clearing_example) 0) 1 \<le> 1
   \<and> 0 \<le> direct_demand_satisfaction (nation (clear_market 0 clearing_example) 0) 1
   \<and> direct_demand_satisfaction (nation (clear_market 0 clearing_example) 0) 1 \<le> 1"
proof -
  have c: "(1::nat) < commodity_size clearing_example"
    by (simp add: clearing_example_def blank_world_def)
  show ?thesis
    using satisfaction_bounds[OF clearing_example_inv _ c] clearing_example_inv c by simp
qed







lemma consume_other:
  assumes "c \<noteq> c'"
  shows "domestic_market_pool (nation (consume_domestic_first n c' w) k) c = domestic_market_pool (nation w k) c"
    and "stockpiles (nation (consume_domestic_first n c' w) k) c = stockpiles (nation w k) c"
    and "global_market_pool (commodity (consume_domestic_first n c' w) c) = global_market_pool (commodity w c)"
    and "domestic_market_pool (nation (consume_global_first n c' w) k) c = domestic_market_pool (nation w k) c"
    and "stockpiles (nation (consume_global_first n c' w) k) c = stockpiles (nation w k) c"
    and "global_market_pool (commodity (consume_global_first n c' w) c) = global_market_pool (commodity w c)"
  using assms
  by (cases "in_sphere_of (nation w n)"; cases "drawing_on_stockpiles (nation w n) c'";
      simp add: consume_domestic_first_def consume_global_first_def Let_def market_sel)+

lemma consume_flags:
  "in_sphere_of (nation (consume_domestic_first n c' w) k) = in_sphere_of (nation w k)"
  "drawing_on_stockpiles (nation (consume_domestic_first n c' w) k) = drawing_on_stockpiles (nation w k)"
  "real_demand (nation (consume_domestic_first n c' w) k) = real_demand (nation w k)"
  "in_sphere_of (nation (consume_global_first n c' w) k) = in_sphere_of (nation w k)"
  "drawing_on_stockpiles (nation (consume_global_first n c' w) k) = drawing_on_stockpiles (nation w k)"
  "real_demand (nation (consume_global_first n c' w) k) = real_demand (nation w k)"
  by (cases "in_sphere_of (nation w n)"; cases "drawing_on_stockpiles (nation w n) c'";
      simp add: consume_domestic_first_def consume_global_first_def Let_def market_sel)+

lemma clear_market_commodity_flags:
  "in_sphere_of (nation (clear_market_commodity n m c' w) k) = in_sphere_of (nation w k)"
  "drawing_on_stockpiles (nation (clear_market_commodity n m c' w) k) = drawing_on_stockpiles (nation w k)"
  "real_demand (nation (clear_market_commodity n m c' w) k) = real_demand (nation w k)"
  "world_defines (clear_market_commodity n m c' w) = world_defines w"
  by (simp_all add: clear_market_commodity_def Let_def consume_flags consume_frame
      update_satisfaction_frame)

lemma clear_market_commodity_other:
  assumes "c \<noteq> c'"
  shows "domestic_market_pool (nation (clear_market_commodity n m c' w) k) c = domestic_market_pool (nation w k) c"
    and "stockpiles (nation (clear_market_commodity n m c' w) k) c = stockpiles (nation w k) c"
    and "global_market_pool (commodity (clear_market_commodity n m c' w) c) = global_market_pool (commodity w c)"
  using assms
  by (simp_all add: clear_market_commodity_def Let_def consume_other update_satisfaction_frame)

lemma clear_market_commodity_other_view:
  assumes "c \<noteq> c'"
  shows "domestic_side_pools (clear_market_commodity n m c' w) n c = domestic_side_pools w n c"
    and "supply_ratio (clear_market_commodity n m c' w) n c = supply_ratio w n c"
    and "demand_satisfaction (nation (clear_market_commodity n m c' w) n) c = demand_satisfaction (nation w n) c"
    and "direct_demand_satisfaction (nation (clear_market_commodity n m c' w) n) c
           = direct_demand_satisfaction (nation w n) c"
proof -
  show pools: "domestic_side_pools (clear_market_commodity n m c' w) n c = domestic_side_pools w n c"
    using assms
    by (simp add: domestic_side_pools_def clear_market_commodity_flags clear_market_commodity_other
        split: option.split)
  show "supply_ratio (clear_market_commodity n m c' w) n c = supply_ratio w n c"
    using assms
    by (simp add: supply_ratio_def market_supply_def pools clear_market_commodity_flags
        clear_market_commodity_other)
  show "demand_satisfaction (nation (clear_market_commodity n m c' w) n) c = demand_satisfaction (nation w n) c"
    using assms by (simp add: clear_market_commodity_sat)
  show "direct_demand_satisfaction (nation (clear_market_commodity n m c' w) n) c
           = direct_demand_satisfaction (nation w n) c"
    using assms by (simp add: clear_market_commodity_direct)
qed

lemma fold_clear_market_other:
  assumes "c \<notin> set xs"
  shows "domestic_side_pools (fold (clear_market_commodity n m) xs w) n c = domestic_side_pools w n c"
    and "global_market_pool (commodity (fold (clear_market_commodity n m) xs w) c)
           = global_market_pool (commodity w c)"
    and "supply_ratio (fold (clear_market_commodity n m) xs w) n c = supply_ratio w n c"
    and "demand_satisfaction (nation (fold (clear_market_commodity n m) xs w) n) c
           = demand_satisfaction (nation w n) c"
    and "direct_demand_satisfaction (nation (fold (clear_market_commodity n m) xs w) n) c
           = direct_demand_satisfaction (nation w n) c"
  using assms
  by (induction xs arbitrary: w)
     (simp_all add: clear_market_commodity_other_view clear_market_commodity_other)

lemma fold_clear_market_flags:
  "in_sphere_of (nation (fold (clear_market_commodity n m) xs w) k) = in_sphere_of (nation w k)"
  "real_demand (nation (fold (clear_market_commodity n m) xs w) k) = real_demand (nation w k)"
  "world_defines (fold (clear_market_commodity n m) xs w) = world_defines w"
  by (induction xs arbitrary: w) (simp_all add: clear_market_commodity_flags)

text \<open>
  The loop reaches every good once: the state after the loop shows, for the good \<open>c\<close>, what
  the one pass of the body for \<open>c\<close> has left, and that pass started from a state that showed
  for \<open>c\<close> what the state before the loop did.
\<close>

lemma clear_market_split:
  assumes "1 \<le> c" and "c < commodity_size w"
  obtains ys zs where "clear_market n w
      = fold (clear_market_commodity n (global_market_price_multiplier w n)) zs
          (clear_market_commodity n (global_market_price_multiplier w n) c
             (fold (clear_market_commodity n (global_market_price_multiplier w n)) ys w))"
    and "c \<notin> set ys" and "c \<notin> set zs"
proof -
  have "c \<in> set [1..<commodity_size w]" using assms by simp
  then obtain ys zs where split: "[1..<commodity_size w] = ys @ c # zs"
    by (meson split_list)
  have "distinct (ys @ c # zs)" using split[symmetric] by simp
  then have "c \<notin> set ys" "c \<notin> set zs" by simp_all
  moreover have "clear_market n w
      = fold (clear_market_commodity n (global_market_price_multiplier w n)) zs
          (clear_market_commodity n (global_market_price_multiplier w n) c
             (fold (clear_market_commodity n (global_market_price_multiplier w n)) ys w))"
    unfolding clear_market_def split by simp
  ultimately show ?thesis using that by blast
qed



lemma clear_market_satisfaction:
  assumes "1 \<le> c" and "c < commodity_size w"
  shows "direct_demand_satisfaction (nation (clear_market n w) n) c = min 1 (supply_ratio w n c)"
    and "demand_satisfaction (nation (clear_market n w) n) c
           = min 1 (demand_satisfaction (nation w n) c * alice_sat_delay_factor (world_defines w)
                    + supply_ratio w n c * (1 - alice_sat_delay_factor (world_defines w)))"
proof -
  let ?f = "clear_market_commodity n (global_market_price_multiplier w n)"
  obtain ys zs
    where eq: "clear_market n w = fold ?f zs (?f c (fold ?f ys w))"
      and ys: "c \<notin> set ys" and zs: "c \<notin> set zs"
    by (rule clear_market_split[OF assms, of n])
  let ?w1 = "fold ?f ys w"
  let ?w2 = "?f c ?w1"
  have after: "direct_demand_satisfaction (nation (clear_market n w) n) c
                 = direct_demand_satisfaction (nation ?w2 n) c"
    "demand_satisfaction (nation (clear_market n w) n) c = demand_satisfaction (nation ?w2 n) c"
    unfolding eq by (rule fold_clear_market_other[OF zs])+
  have before: "supply_ratio ?w1 n c = supply_ratio w n c"
    "demand_satisfaction (nation ?w1 n) c = demand_satisfaction (nation w n) c"
    "world_defines ?w1 = world_defines w"
    by (rule fold_clear_market_other[OF ys] fold_clear_market_flags)+
  show "direct_demand_satisfaction (nation (clear_market n w) n) c = min 1 (supply_ratio w n c)"
    unfolding after by (simp only: clear_market_commodity_direct before if_True simp_thms)
  show "demand_satisfaction (nation (clear_market n w) n) c
           = min 1 (demand_satisfaction (nation w n) c * alice_sat_delay_factor (world_defines w)
                    + supply_ratio w n c * (1 - alice_sat_delay_factor (world_defines w)))"
    unfolding after by (simp only: clear_market_commodity_sat before if_True simp_thms)
qed








subsection \<open>Idle factories\<close>

lemma register_intermediate_demand_factory:
  "factory (register_intermediate_demand n c a r w) = factory w"
  by (simp add: register_intermediate_demand_def register_demand_def Let_def)

lemma register_inputs_factory:
  "factory (register_inputs n scaled xs w) = factory w"
  by (induction n scaled xs w rule: register_inputs.induct)
     (simp_all add: register_intermediate_demand_factory)

lemma update_factory_scale_world:
  "unprofitable (factory (snd (update_factory_scale w f mps rp drp)) g) = unprofitable (factory w g)"
  by (simp add: update_factory_scale_def Let_def factory_set_production_scale_def)

lemma clampf_lower: "lo \<le> hi \<Longrightarrow> lo \<le> clampf v lo hi"
  by (simp add: clampf_def)

lemma factory_setters_sel:
  "subsidized (factory (factory_set_unprofitable f v w) g) = subsidized (factory w g)"
  "production_scale (factory (factory_set_unprofitable f v w) g) = production_scale (factory w g)"
  "world_defines (factory_set_unprofitable f v w) = world_defines w"
  "unprofitable (factory (factory_set_unprofitable f v w) f) = v"
  "unprofitable (factory (factory_set_actual_production f x w) g) = unprofitable (factory w g)"
  "unprofitable (factory (factory_set_full_profit f x w) g) = unprofitable (factory w g)"
  "actual_production (factory (factory_set_actual_production f x w) f) = x"
  "actual_production (factory (factory_set_full_profit f x w) g) = actual_production (factory w g)"
  by (simp_all add: factory_set_unprofitable_def factory_set_actual_production_def
      factory_set_full_profit_def)

lemma subsidized_step_nonneg:
  assumes "0 \<le> ps" and "0 \<le> ple"
  shows "0 \<le> min 1 (ps + 10 / (ple * real l) * real l * 10) * real l"
proof -
  have "0 \<le> 10 / (ple * real l) * real l * 10"
    using assms(2) by (intro mult_nonneg_nonneg divide_nonneg_nonneg) simp_all
  then have "0 \<le> min 1 (ps + 10 / (ple * real l) * real l * 10)"
    using assms(1) by simp
  then show ?thesis by (intro mult_nonneg_nonneg) simp_all
qed

lemma update_factory_scale_idle:
  assumes "subsidized (factory w f) \<longrightarrow>
             0 \<le> production_scale (factory w f)
             \<and> 0 \<le> alice_factory_per_level_employment (world_defines w)"
  shows "fst (update_factory_scale w f 0 rp drp) = 0"
proof (cases "subsidized (factory w f)")
  case True
  then have "0 \<le> production_scale (factory w f)"
    "0 \<le> alice_factory_per_level_employment (world_defines w)"
    using assms by simp_all
  from subsidized_step_nonneg[OF this, of "level (factory w f)"]
  have "min (min 1 (production_scale (factory w f)
                    + 10 / (alice_factory_per_level_employment (world_defines w)
                            * real (level (factory w f)))
                      * real (level (factory w f)) * 10)
             * real (level (factory w f))) 0 = 0"
    by (rule min_absorb2)
  then show ?thesis
    using True unfolding update_factory_scale_def Let_def factory_max_employment_def
    by (simp only: if_True fst_conv)
next
  case False
  have "0 \<le> clampf v 0 1 * real (level (factory w f))" for v
    using clampf_lower[of 0 1 v] by simp
  then show ?thesis
    using False by (simp add: update_factory_scale_def Let_def)
qed

lemma update_single_factory_consumption_result:
  assumes "primary_employment (factory w f) = 0"
      and "subsidized (factory w f) \<longrightarrow>
             0 \<le> production_scale (factory w f)
             \<and> 0 \<le> alice_factory_per_level_employment (world_defines w)"
  shows "(let w' = update_single_factory_consumption f n p s mobilization_impact expected_min_wage occupied w
          in actual_production (factory w' f) = 0
           \<and> unprofitable (factory w' f)
               = (\<not> (factory_level_profit w f n p s
                      - factory_level_spendings w f n p s expected_min_wage > 0)))"
proof -
  have mps: "factory_max_production_scale w f mobilization_impact occupied = 0"
    using assms(1) by (simp add: factory_max_production_scale_def)
  have idle: "fst (update_factory_scale (factory_set_unprofitable f v w) f 0 rp drp) = 0" for rp drp v
    using assms(2) by (intro update_factory_scale_idle) (simp add: factory_setters_sel)
  show ?thesis
    unfolding Let_def update_single_factory_consumption_def mps
    by (simp add: register_inputs_factory idle update_factory_scale_world factory_setters_sel)
qed


lemma update_single_factory_consumption_unprofitable:
  "unprofitable (factory (update_single_factory_consumption f n p s mobilization_impact expected_min_wage occupied w) f)
     = (\<not> (factory_level_profit w f n p s
            - factory_level_spendings w f n p s expected_min_wage > 0))"
  unfolding Let_def update_single_factory_consumption_def
  by (simp add: register_inputs_factory update_factory_scale_world factory_setters_sel)

text \<open>
  Claim C10, as the code has it. The unprofitable flag does not depend on the employment or
  on the subsidy: whatever the state of the factory, the consumption update sets it exactly
  when one fully staffed level of the factory would not earn more than it spends. For a
  factory with room for workers whose primary employment is 0, the update stores an actual
  production of 0 (for a subsidized factory, provided its production scale is not negative).
\<close>

theorem idle_factory_production:
  "(let w' = update_single_factory_consumption f n p s mobilization_impact expected_min_wage occupied w
    in unprofitable (factory w' f)
         = (\<not> (factory_level_profit w f n p s
                - factory_level_spendings w f n p s expected_min_wage > 0))
     \<and> (primary_employment (factory w f) = 0
          \<and> 0 < factory_max_employment w f
          \<and> (subsidized (factory w f) \<longrightarrow> 0 \<le> production_scale (factory w f))
        \<longrightarrow> actual_production (factory w' f) = 0))"
proof -
  have "actual_production (factory (update_single_factory_consumption f n p s
          mobilization_impact expected_min_wage occupied w) f) = 0"
    if idle: "primary_employment (factory w f) = 0"
      and room: "0 < factory_max_employment w f"
      and sub: "subsidized (factory w f) \<longrightarrow> 0 \<le> production_scale (factory w f)"
  proof -
    have "0 \<le> alice_factory_per_level_employment (world_defines w)"
    proof (rule ccontr)
      assume "\<not> 0 \<le> alice_factory_per_level_employment (world_defines w)"
      then have "alice_factory_per_level_employment (world_defines w) * real (level (factory w f)) \<le> 0"
        by (intro mult_nonpos_nonneg) simp_all
      then show False using room by (simp add: factory_max_employment_def)
    qed
    then have "subsidized (factory w f) \<longrightarrow>
             0 \<le> production_scale (factory w f)
             \<and> 0 \<le> alice_factory_per_level_employment (world_defines w)"
      using sub by simp
    from update_single_factory_consumption_result[OF idle this]
    show ?thesis unfolding Let_def by simp
  qed
  then show ?thesis
    unfolding Let_def
    using update_single_factory_consumption_unprofitable[of f n p s mobilization_impact expected_min_wage occupied w]
    by blast
qed

lemma factory_example_facts:
  "primary_employment (factory factory_example 0) = 0"
  "\<not> subsidized (factory factory_example 0)"
  "factory_level_profit factory_example 0 0 0 0 = 10"
  "factory_level_spendings factory_example 0 0 0 0 0 = 0"
  "factory_max_employment factory_example 0 = 10000"
  by (simp_all add: factory_example_def blank_world_def blank_factory_def blank_factory_type_def
      blank_nation_def blank_commodity_def blank_province_def blank_defines_def
      factory_level_profit_def factory_level_production_def factory_level_spendings_def
      factory_min_input_available_def factory_min_e_input_available_def
      factory_input_total_cost_def factory_e_input_total_cost_def
      factory_throughput_multiplier_def factory_output_multiplier_def
      factory_input_multiplier_def factory_max_employment_def Let_def)

lemma subsidized_example_facts:
  "primary_employment (factory (factory_set_subsidized 0 True factory_example) 0) = 0"
  "subsidized (factory (factory_set_subsidized 0 True factory_example) 0)"
  "production_scale (factory (factory_set_subsidized 0 True factory_example) 0) = 0"
  "factory_max_employment (factory_set_subsidized 0 True factory_example) 0 = 10000"
  by (simp_all add: factory_set_subsidized_def factory_example_def blank_world_def
      blank_factory_def blank_defines_def factory_max_employment_def)

theorem idle_factory_production_witness:
  "actual_production (factory (update_single_factory_consumption 0 0 0 0 1 0 False factory_example) 0) = 0
   \<and> \<not> unprofitable (factory (update_single_factory_consumption 0 0 0 0 1 0 False factory_example) 0)
   \<and> actual_production (factory (update_single_factory_consumption 0 0 0 0 1 0 False
        (factory_set_subsidized 0 True factory_example)) 0) = 0"
proof -
  have a: "actual_production (factory (update_single_factory_consumption 0 0 0 0 1 0 False factory_example) 0) = 0
   \<and> \<not> unprofitable (factory (update_single_factory_consumption 0 0 0 0 1 0 False factory_example) 0)"
    using idle_factory_production[of 0 0 0 0 1 0 False factory_example]
    unfolding Let_def by (simp add: factory_example_facts)
  have b: "actual_production (factory (update_single_factory_consumption 0 0 0 0 1 0 False
        (factory_set_subsidized 0 True factory_example)) 0) = 0"
    using idle_factory_production[of 0 0 0 0 1 0 False "factory_set_subsidized 0 True factory_example"]
    unfolding Let_def by (simp add: subsidized_example_facts)
  show ?thesis using a b by simp
qed

text \<open>
  The factory of the example has no primary workers and no subsidy, and the update leaves
  its unprofitable flag cleared, since a staffed level of it would earn 10 and spend nothing.
\<close>

theorem idle_factory_unprofitable_counterexample:
  "primary_employment (factory factory_example 0) = 0
   \<and> \<not> subsidized (factory factory_example 0)
   \<and> unprofitable (factory (update_single_factory_consumption 0 0 0 0 1 0 False factory_example) 0)
       \<noteq> True"
proof -
  have "\<not> unprofitable (factory (update_single_factory_consumption 0 0 0 0 1 0 False factory_example) 0)"
    using update_single_factory_consumption_unprofitable[of 0 0 0 0 1 0 False factory_example]
    by (simp add: factory_example_facts)
  then show ?thesis by (simp add: factory_example_facts)
qed

subsection \<open>RGO employment\<close>

lemma province_set_rgo_employment_per_good_sel:
  "rgo_employment_per_good (province (province_set_rgo_employment_per_good p c v w) p) c'
     = (if c' = c then v else rgo_employment_per_good (province w p) c')"
  "rgo_target_employment_per_good (province (province_set_rgo_employment_per_good p c v w) q)
     = rgo_target_employment_per_good (province w q)"
  "rgo_max_employment (province_set_rgo_employment_per_good p c v w) = rgo_max_employment w"
  "subsistence_max_pseudoemployment (province_set_rgo_employment_per_good p c v w)
     = subsistence_max_pseudoemployment w"
  by (simp_all add: province_set_rgo_employment_per_good_def rgo_max_employment_def
      rgo_effective_size_def subsistence_max_pseudoemployment_def subsistence_size_def
      Let_def fun_eq_iff)

lemma collect_rgo_goods_ids:
  "map snd (snd (collect_rgo_goods owner p cs (w, acc)))
     = map snd acc @ filter (\<lambda>c. rgo_max_employment w owner p c > 0) cs"
  by (induction cs arbitrary: w acc)
     (simp_all add: province_set_rgo_employment_per_good_sel)

lemma collect_rgo_goods_employment:
  "rgo_employment_per_good (province (fst (collect_rgo_goods owner p cs (w, acc))) p) c
     = (if c \<in> set cs \<and> \<not> rgo_max_employment w owner p c > 0 then 0
        else rgo_employment_per_good (province w p) c)"
  by (induction cs arbitrary: w acc)
     (auto simp add: province_set_rgo_employment_per_good_sel)

lemma collect_rgo_goods_frame:
  "rgo_target_employment_per_good (province (fst (collect_rgo_goods owner p cs (w, acc))) q)
     = rgo_target_employment_per_good (province w q)"
  "rgo_max_employment (fst (collect_rgo_goods owner p cs (w, acc))) = rgo_max_employment w"
  "subsistence_max_pseudoemployment (fst (collect_rgo_goods owner p cs (w, acc)))
     = subsistence_max_pseudoemployment w"
  by (induction cs arbitrary: w acc)
     (simp_all add: province_set_rgo_employment_per_good_sel)

lemma insert_by_profit_set: "set (insert_by_profit a bs) = insert a (set bs)"
  by (induction bs) auto

lemma insert_by_profit_distinct:
  "distinct (map snd (insert_by_profit a bs))
     \<longleftrightarrow> snd a \<notin> snd ` set bs \<and> distinct (map snd bs)"
  by (induction bs) (auto simp add: insert_by_profit_set)

lemma sort_by_profit_set: "set (sort_by_profit xs) = set xs"
  unfolding sort_by_profit_def by (induction xs) (simp_all add: insert_by_profit_set)

lemma sort_by_profit_distinct:
  "distinct (map snd (sort_by_profit xs)) \<longleftrightarrow> distinct (map snd xs)"
  unfolding sort_by_profit_def
  by (induction xs)
     (simp_all add: insert_by_profit_distinct sort_by_profit_set[unfolded sort_by_profit_def])

lemma sum_list_sorted_goods:
  assumes "distinct (map snd xs)"
  shows "sum_list (map f (map snd (sort_by_profit xs))) = sum_list (map (f :: nat \<Rightarrow> real) (map snd xs))"
proof -
  have "sum_list (map f (map snd (sort_by_profit xs))) = sum f (set (map snd (sort_by_profit xs)))"
    using assms by (intro sum_list_distinct_conv_sum_set) (simp add: sort_by_profit_distinct)
  also have "\<dots> = sum f (set (map snd xs))"
    by (simp add: sort_by_profit_set)
  also have "\<dots> = sum_list (map f (map snd xs))"
    using assms by (rule sum_list_distinct_conv_sum_set[symmetric])
  finally show ?thesis .
qed

lemma sum_list_filter_zero:
  assumes "\<forall>x\<in>set xs. \<not> P x \<longrightarrow> f x = (0::real)"
  shows "sum_list (map f (filter P xs)) = sum_list (map f xs)"
  using assms by (induction xs) simp_all

lemma distribute_rgo_workers_other:
  "c \<notin> set cs \<Longrightarrow>
     rgo_employment_per_good (province (dist_world (distribute_rgo_workers owner p cs d)) p) c
     = rgo_employment_per_good (province (dist_world d) p) c"
  by (induction cs arbitrary: d)
     (simp_all add: Let_def province_set_rgo_employment_per_good_sel)

lemma distribute_rgo_workers_frame:
  "rgo_target_employment_per_good (province (dist_world (distribute_rgo_workers owner p cs d)) q)
     = rgo_target_employment_per_good (province (dist_world d) q)"
  "subsistence_max_pseudoemployment (dist_world (distribute_rgo_workers owner p cs d))
     = subsistence_max_pseudoemployment (dist_world d)"
  by (induction cs arbitrary: d)
     (simp_all add: Let_def province_set_rgo_employment_per_good_sel)


lemma clampf_at_most:
  "0 \<le> v \<Longrightarrow> clampf v 0 hi \<le> v"
  by (simp add: clampf_def)

lemma distribute_rgo_workers_bound:
  assumes "distinct cs" and "0 \<le> total_workforce d"
      and "\<forall>c\<in>set cs. 0 \<le> rgo_employment_per_good (province (dist_world d) p) c"
      and "\<forall>c\<in>set cs. 0 \<le> rgo_target_employment_per_good (province (dist_world d) p) c"
  shows "0 \<le> total_workforce (distribute_rgo_workers owner p cs d)
         \<and> sum_list (map (rgo_employment_per_good
                             (province (dist_world (distribute_rgo_workers owner p cs d)) p)) cs)
             + total_workforce (distribute_rgo_workers owner p cs d)
           \<le> total_workforce d"
  using assms
proof (induction cs arbitrary: d)
  case Nil
  then show ?case by simp
next
  case (Cons c cs)
  let ?w = "dist_world d"
  let ?tw = "total_workforce d"
  let ?cur = "rgo_employment_per_good (province ?w p) c"
  let ?tgt = "min (rgo_target_employment_per_good (province ?w p) c) ?tw"
  let ?pre = "min (?cur * (1 - 0.20) + ?tgt * 0.20) ?tw"
  let ?mx = "rgo_max_employment ?w owner p c"
  let ?d1 = "\<lparr>dist_world = province_set_rgo_employment_per_good p c (clampf ?pre 0 ?mx) ?w,
           total_workforce = ?tw - ?pre,
           max_employment_total = max_employment_total d + ?mx,
           total_employed = total_employed d + clampf ?pre 0 ?mx\<rparr>"
  have step: "distribute_rgo_workers owner p (c # cs) d = distribute_rgo_workers owner p cs ?d1"
    by (simp add: Let_def)
  have cur: "0 \<le> ?cur" and tgt0: "0 \<le> rgo_target_employment_per_good (province ?w p) c"
    using Cons.prems(3,4) by simp_all
  have tgt: "0 \<le> ?tgt" using tgt0 Cons.prems(2) by simp
  have "0 \<le> ?cur * (1 - 0.20) + ?tgt * 0.20"
    using cur tgt by (intro add_nonneg_nonneg mult_nonneg_nonneg) simp_all
  then have pre: "0 \<le> ?pre" using Cons.prems(2) by simp
  have pre_le: "?pre \<le> ?tw" by simp
  have notin: "c \<notin> set cs" and dist: "distinct cs" using Cons.prems(1) by simp_all
  have tw1: "0 \<le> total_workforce ?d1" using pre_le by simp
  have cur1: "\<forall>x\<in>set cs. 0 \<le> rgo_employment_per_good (province (dist_world ?d1) p) x"
    using Cons.prems(3) notin by (auto simp add: province_set_rgo_employment_per_good_sel)
  have tgt1: "\<forall>x\<in>set cs. 0 \<le> rgo_target_employment_per_good (province (dist_world ?d1) p) x"
    using Cons.prems(4) by (simp add: province_set_rgo_employment_per_good_sel)
  note ih = Cons.IH[OF dist tw1 cur1 tgt1]
  let ?d' = "distribute_rgo_workers owner p cs ?d1"
  have at_c: "rgo_employment_per_good (province (dist_world ?d') p) c = clampf ?pre 0 ?mx"
    using notin by (simp add: distribute_rgo_workers_other province_set_rgo_employment_per_good_sel)
  have "clampf ?pre 0 ?mx \<le> ?pre" using pre by (rule clampf_at_most)
  moreover have "sum_list (map (rgo_employment_per_good (province (dist_world ?d') p)) cs)
      + total_workforce ?d' \<le> ?tw - ?pre"
    using ih by simp
  ultimately have "sum_list (map (rgo_employment_per_good (province (dist_world ?d') p)) (c # cs))
      + total_workforce ?d' \<le> ?tw"
    unfolding list.map sum_list.Cons at_c by linarith
  moreover have "0 \<le> total_workforce ?d'" using ih by simp
  ultimately show ?case unfolding step by blast
qed


lemma update_rgo_employment_province_shape:
  "(let owner = nation_from_province_ownership (province w p);
        collected = collect_rgo_goods owner p [0..<commodity_size w] (w, []);
        d = distribute_rgo_workers owner p (map snd (sort_by_profit (snd collected)))
              \<lparr>dist_world = fst collected, total_workforce = rgo_labor_pool w p,
               max_employment_total = 0, total_employed = 0\<rparr>
    in rgo_employment_per_good (province (update_rgo_employment_province p w) p)
         = rgo_employment_per_good (province (dist_world d) p)
       \<and> subsistence_employment (province (update_rgo_employment_province p w) p)
         = min (subsistence_max_pseudoemployment (dist_world d) owner p) (total_workforce d))"
  by (simp add: update_rgo_employment_province_def Let_def)

lemma update_rgo_employment_province_bound:
  assumes labor: "0 \<le> rgo_labor_pool w p"
      and cur: "\<forall>c. 0 \<le> rgo_employment_per_good (province w p) c"
      and tgt: "\<forall>c. 0 \<le> rgo_target_employment_per_good (province w p) c"
  shows "(\<Sum>c\<leftarrow>[0..<commodity_size w].
            rgo_employment_per_good (province (update_rgo_employment_province p w) p) c)
         + subsistence_employment (province (update_rgo_employment_province p w) p)
         \<le> rgo_labor_pool w p"
proof -
  define owner where "owner = nation_from_province_ownership (province w p)"
  define collected where "collected = collect_rgo_goods owner p [0..<commodity_size w] (w, [])"
  define ids where "ids = map snd (sort_by_profit (snd collected))"
  define d0 where "d0 = \<lparr>dist_world = fst collected, total_workforce = rgo_labor_pool w p,
               max_employment_total = 0, total_employed = 0\<rparr>"
  define d where "d = distribute_rgo_workers owner p ids d0"
  define e where "e = rgo_employment_per_good (province (dist_world d) p)"
  let ?P = "\<lambda>c. rgo_max_employment w owner p c > 0"
  let ?all = "[0..<commodity_size w]"
  have shape: "rgo_employment_per_good (province (update_rgo_employment_province p w) p) = e"
    "subsistence_employment (province (update_rgo_employment_province p w) p)
       = min (subsistence_max_pseudoemployment (dist_world d) owner p) (total_workforce d)"
    using update_rgo_employment_province_shape[of w p]
    unfolding Let_def owner_def collected_def ids_def d0_def d_def e_def by simp_all
  have ids0: "map snd (snd collected) = filter ?P ?all"
    unfolding collected_def by (simp add: collect_rgo_goods_ids)
  have dist0: "distinct (map snd (snd collected))" unfolding ids0 by simp
  have dist: "distinct ids" unfolding ids_def using dist0 by (simp add: sort_by_profit_distinct)
  have set_ids: "set ids = set (filter ?P ?all)"
    unfolding ids_def using ids0 by (metis set_map sort_by_profit_set)
  have e0: "rgo_employment_per_good (province (dist_world d0) p) c
      = (if c \<in> set ?all \<and> \<not> ?P c then 0 else rgo_employment_per_good (province w p) c)" for c
    unfolding d0_def collected_def by (simp add: collect_rgo_goods_employment)
  have cur0: "\<forall>c\<in>set ids. 0 \<le> rgo_employment_per_good (province (dist_world d0) p) c"
    using cur by (simp add: e0)
  have tgt0: "\<forall>c\<in>set ids. 0 \<le> rgo_target_employment_per_good (province (dist_world d0) p) c"
    using tgt unfolding d0_def collected_def by (simp add: collect_rgo_goods_frame)
  have tw0: "0 \<le> total_workforce d0" using labor by (simp add: d0_def)
  have bound: "0 \<le> total_workforce d" "sum_list (map e ids) + total_workforce d \<le> rgo_labor_pool w p"
    using distribute_rgo_workers_bound[OF dist tw0 cur0 tgt0, of owner]
    unfolding d_def e_def by (simp_all add: d0_def)
  have zero: "\<forall>c\<in>set ?all. \<not> ?P c \<longrightarrow> e c = 0"
  proof (intro ballI impI)
    fix c assume c: "c \<in> set ?all" and np: "\<not> ?P c"
    then have "c \<notin> set ids" using set_ids by simp
    then have "e c = rgo_employment_per_good (province (dist_world d0) p) c"
      unfolding e_def d_def by (rule distribute_rgo_workers_other)
    then show "e c = 0" using c np by (simp add: e0)
  qed
  have "sum_list (map e ?all) = sum_list (map e (filter ?P ?all))"
    using zero by (rule sum_list_filter_zero[symmetric])
  also have "\<dots> = sum_list (map e (map snd (snd collected)))" by (simp only: ids0)
  also have "\<dots> = sum_list (map e ids)"
    unfolding ids_def using dist0 by (rule sum_list_sorted_goods[symmetric])
  finally have total: "sum_list (map e ?all) = sum_list (map e ids)" .
  have "min (subsistence_max_pseudoemployment (dist_world d) owner p) (total_workforce d)
      \<le> total_workforce d" by simp
  then show ?thesis
    unfolding shape total using bound(2) by linarith
qed


lemma province_set_rgo_employment_per_good_frame:
  "q \<noteq> p \<Longrightarrow> province (province_set_rgo_employment_per_good q c v w) p = province w p"
  "rgo_workers (province_set_rgo_employment_per_good q c v w) = rgo_workers w"
  "slaves (province_set_rgo_employment_per_good q c v w) = slaves w"
  "commodity_size (province_set_rgo_employment_per_good q c v w) = commodity_size w"
  by (simp_all add: province_set_rgo_employment_per_good_def)

lemma collect_rgo_goods_other:
  "q \<noteq> p \<Longrightarrow> province (fst (collect_rgo_goods owner q cs (w, acc))) p = province w p"
  "rgo_workers (fst (collect_rgo_goods owner q cs (w, acc))) = rgo_workers w"
  "slaves (fst (collect_rgo_goods owner q cs (w, acc))) = slaves w"
  "commodity_size (fst (collect_rgo_goods owner q cs (w, acc))) = commodity_size w"
  by (induction cs arbitrary: w acc)
     (simp_all add: province_set_rgo_employment_per_good_frame)

lemma distribute_rgo_workers_world:
  "q \<noteq> p \<Longrightarrow> province (dist_world (distribute_rgo_workers owner q cs d)) p
     = province (dist_world d) p"
  "rgo_workers (dist_world (distribute_rgo_workers owner q cs d)) = rgo_workers (dist_world d)"
  "slaves (dist_world (distribute_rgo_workers owner q cs d)) = slaves (dist_world d)"
  "commodity_size (dist_world (distribute_rgo_workers owner q cs d)) = commodity_size (dist_world d)"
  by (induction cs arbitrary: d)
     (simp_all add: Let_def province_set_rgo_employment_per_good_frame)

lemma update_rgo_employment_province_other:
  "q \<noteq> p \<Longrightarrow> province (update_rgo_employment_province q w) p = province w p"
  "rgo_workers (update_rgo_employment_province q w) = rgo_workers w"
  "slaves (update_rgo_employment_province q w) = slaves w"
  "commodity_size (update_rgo_employment_province q w) = commodity_size w"
  by (simp_all add: update_rgo_employment_province_def Let_def distribute_rgo_workers_world
      collect_rgo_goods_other)

lemma fold_rgo_other:
  "p \<notin> set ps \<Longrightarrow> province (fold update_rgo_employment_province ps w) p = province w p"
  by (induction ps arbitrary: w) (simp_all add: update_rgo_employment_province_other)

lemma fold_rgo_frame:
  "rgo_workers (fold update_rgo_employment_province ps w) = rgo_workers w"
  "slaves (fold update_rgo_employment_province ps w) = slaves w"
  "commodity_size (fold update_rgo_employment_province ps w) = commodity_size w"
  by (induction ps arbitrary: w) (simp_all add: update_rgo_employment_province_other)

lemma rgo_labor_pool_cong:
  "province w' p = province w p \<Longrightarrow> rgo_workers w' = rgo_workers w \<Longrightarrow> slaves w' = slaves w
     \<Longrightarrow> rgo_labor_pool w' p = rgo_labor_pool w p"
  by (simp add: rgo_labor_pool_def)

lemma fold_rgo_bound:
  assumes "p \<in> set ps" and "distinct ps"
      and "0 \<le> rgo_labor_pool w p"
      and "\<forall>c. 0 \<le> rgo_employment_per_good (province w p) c"
      and "\<forall>c. 0 \<le> rgo_target_employment_per_good (province w p) c"
  shows "(\<Sum>c\<leftarrow>[0..<commodity_size w].
            rgo_employment_per_good (province (fold update_rgo_employment_province ps w) p) c)
         + subsistence_employment (province (fold update_rgo_employment_province ps w) p)
         \<le> rgo_labor_pool w p"
  using assms
proof (induction ps arbitrary: w)
  case Nil
  then show ?case by simp
next
  case (Cons q ps)
  show ?case
  proof (cases "q = p")
    case True
    then have "p \<notin> set ps" using Cons.prems(2) by simp
    then have "province (fold update_rgo_employment_province ps (update_rgo_employment_province p w)) p
        = province (update_rgo_employment_province p w) p"
      by (rule fold_rgo_other)
    then show ?thesis
      using True update_rgo_employment_province_bound[OF Cons.prems(3,4,5)] by simp
  next
    case False
    let ?w1 = "update_rgo_employment_province q w"
    have same: "province ?w1 p = province w p"
      using False by (simp add: update_rgo_employment_province_other)
    have pool: "rgo_labor_pool ?w1 p = rgo_labor_pool w p"
      using same by (rule rgo_labor_pool_cong) (simp_all add: update_rgo_employment_province_other)
    have "(\<Sum>c\<leftarrow>[0..<commodity_size ?w1].
            rgo_employment_per_good (province (fold update_rgo_employment_province ps ?w1) p) c)
         + subsistence_employment (province (fold update_rgo_employment_province ps ?w1) p)
         \<le> rgo_labor_pool ?w1 p"
      using Cons.prems False by (intro Cons.IH) (simp_all add: same pool)
    then show ?thesis
      by (simp add: pool update_rgo_employment_province_other)
  qed
qed

text \<open>
  Claim C9. After the RGO employment allocator has run, the employment of a land province
  summed over the commodities, plus its subsistence employment, does not exceed the labor
  pool of the province (its RGO workers plus its slaves), and so not the pool plus any
  \<open>\<epsilon> \<ge> 0\<close> either. The state it starts from has a labor pool, employment figures and
  employment targets that are not negative.
\<close>

theorem rgo_employment_within_labor_pool:
  assumes "p < first_sea_province w"
      and "0 \<le> rgo_labor_pool w p"
      and "\<forall>c. 0 \<le> rgo_employment_per_good (province w p) c"
      and "\<forall>c. 0 \<le> rgo_target_employment_per_good (province w p) c"
      and "0 \<le> \<epsilon>"
  shows "(\<Sum>c\<leftarrow>[0..<commodity_size w].
            rgo_employment_per_good (province (update_rgo_employment w) p) c)
         + subsistence_employment (province (update_rgo_employment w) p)
         \<le> rgo_labor_pool w p + \<epsilon>"
proof -
  have "(\<Sum>c\<leftarrow>[0..<commodity_size w].
            rgo_employment_per_good (province (update_rgo_employment w) p) c)
         + subsistence_employment (province (update_rgo_employment w) p)
         \<le> rgo_labor_pool w p"
    unfolding update_rgo_employment_def
    using assms(1-4) by (intro fold_rgo_bound) simp_all
  then show ?thesis using assms(5) by linarith
qed


lemma rgo_example_facts:
  "first_sea_province rgo_example = 1"
  "commodity_size rgo_example = 3"
  "rgo_labor_pool rgo_example 0 = 1000"
  "\<forall>c. 0 \<le> rgo_employment_per_good (province rgo_example 0) c"
  "\<forall>c. 0 \<le> rgo_target_employment_per_good (province rgo_example 0) c"
  by (simp_all add: rgo_example_def blank_world_def blank_province_def rgo_labor_pool_def)

lemma rgo_example_max_employment:
  "rgo_max_employment rgo_example 0 0 c = (if c = 1 then 500 else 0)"
  by (simp add: rgo_max_employment_def rgo_effective_size_def rgo_example_def blank_world_def
      blank_province_def blank_nation_def blank_commodity_def blank_defines_def Let_def)

lemma rgo_example_result:
  "rgo_employment_per_good (province (update_rgo_employment rgo_example) 0) 1 = 160
   \<and> subsistence_employment (province (update_rgo_employment rgo_example) 0) = 220"
  by (simp add: update_rgo_employment_def update_rgo_employment_province_def
      rgo_example_facts(1) rgo_example_max_employment sort_by_profit_def
      subsistence_max_pseudoemployment_def subsistence_size_def rgo_labor_pool_def
      province_set_rgo_employment_per_good_def clampf_def Let_def upt_rec
      rgo_example_def blank_world_def blank_province_def blank_nation_def blank_commodity_def
      blank_defines_def rgo_max_employment_def rgo_effective_size_def)

text \<open>In the example 160 workers end up on good 1 and 220 in subsistence, out of a pool of 1000.\<close>

theorem rgo_employment_within_labor_pool_witness:
  "(0::nat) < first_sea_province rgo_example
   \<and> 0 \<le> rgo_labor_pool rgo_example 0
   \<and> (\<forall>c. 0 \<le> rgo_employment_per_good (province rgo_example 0) c)
   \<and> (\<forall>c. 0 \<le> rgo_target_employment_per_good (province rgo_example 0) c)
   \<and> (\<Sum>c\<leftarrow>[0..<3]. rgo_employment_per_good (province (update_rgo_employment rgo_example) 0) c)
       + subsistence_employment (province (update_rgo_employment rgo_example) 0)
       \<le> 1000
   \<and> rgo_employment_per_good (province (update_rgo_employment rgo_example) 0) 1 = 160
   \<and> subsistence_employment (province (update_rgo_employment rgo_example) 0) = 220"
proof -
  have p: "(0::nat) < first_sea_province rgo_example" by (simp add: rgo_example_facts)
  have l: "0 \<le> rgo_labor_pool rgo_example 0" by (simp add: rgo_example_facts)
  show ?thesis
    using rgo_employment_within_labor_pool[OF p l rgo_example_facts(4,5), of 0] p l
      rgo_example_facts(4,5)
    unfolding rgo_example_facts(2,3) using rgo_example_result by simp
qed

subsection \<open>Refunds\<close>

lemma sum_list_cong:
  "(\<And>x. x \<in> set xs \<Longrightarrow> f x = g x) \<Longrightarrow> sum_list (map f xs) = sum_list (map g xs)"
  by (induction xs) simp_all

lemma fill_stockpile_money:
  "c \<noteq> money \<Longrightarrow> stockpiles (nation (fill_stockpile n c w) k) money = stockpiles (nation w k) money"
  by (simp add: fill_stockpile_def Let_def nation_set_stockpiles_def)

lemma fold_fill_stockpile_money:
  "money \<notin> set cs \<Longrightarrow>
     stockpiles (nation (fold (fill_stockpile n) cs w) k) money = stockpiles (nation w k) money"
  by (induction cs arbitrary: w) (auto simp add: fill_stockpile_money)

lemma determine_effective_spending_treasury:
  "stockpiles (nation (determine_effective_spending n w) n) money
     = stockpiles (nation w n) money
       + (naval_refund w n + land_refund w n + stockpile_refund w n + overseas_refund w n)"
proof -
  have "money \<notin> set [1..<k]" for k by (simp add: money_def)
  then show ?thesis
    by (simp add: determine_effective_spending_def Let_def nation_set_stockpiles_def
        fold_fill_stockpile_money)
qed

lemma scale_construction_demand_money:
  "stockpiles (nation (scale_construction_demand n c w) k) = stockpiles (nation w k)"
  by (simp add: scale_construction_demand_def Let_def)

lemma fold_scale_construction_demand_money:
  "stockpiles (nation (fold (scale_construction_demand n) cs w) k) = stockpiles (nation w k)"
  by (induction cs arbitrary: w) (simp_all add: scale_construction_demand_money)

lemma advance_construction_refund_treasury:
  "stockpiles (nation (advance_construction_refund n w) n) money
     = stockpiles (nation w n) money + construction_refund w n"
  by (simp add: advance_construction_refund_def Let_def nation_set_stockpiles_def
      fold_scale_construction_demand_money)

text \<open>
  What the spending pass leaves alone. It writes, of the nation, the maximum military costs,
  the treasury, the spending level, the two private investment figures and the real demand,
  and of a commodity the demand by category; any reading \<open>f\<close> of a nation and \<open>g\<close> of a
  commodity that does not look at these is the same before and after.
\<close>

lemma register_demand_frame:
  assumes "\<And>x d. f (x\<lparr>real_demand := d\<rparr>) = f x"
  shows "f (nation (register_demand n c a r w) k) = f (nation w k)"
  by (simp add: register_demand_def assms)

lemma register_demand_commodity_frame:
  assumes "\<And>x d. g (x\<lparr>demand_by_category := d\<rparr>) = g x"
  shows "g (commodity (register_demand n c a r w) k) = g (commodity w k)"
  by (simp add: register_demand_def assms)

lemma register_demand_world:
  "commodity_size (register_demand n c a r w) = commodity_size w"
  "world_defines (register_demand n c a r w) = world_defines w"
  by (simp_all add: register_demand_def)

lemma register_each_frame:
  assumes "\<And>x d. f (x\<lparr>real_demand := d\<rparr>) = f x"
  shows "f (nation (register_each n reason amount w) k) = f (nation w k)"
proof -
  have "f (nation (fold (\<lambda>cid w'. case amount cid of
          Some a \<Rightarrow> register_demand n cid a reason w' | None \<Rightarrow> w') xs w) k) = f (nation w k)"
    for xs
    by (induction xs arbitrary: w)
       (simp_all add: register_demand_frame[of f, OF assms] split: option.split)
  then show ?thesis by (simp add: register_each_def)
qed

lemma register_each_commodity_frame:
  assumes "\<And>x d. g (x\<lparr>demand_by_category := d\<rparr>) = g x"
  shows "g (commodity (register_each n reason amount w) k) = g (commodity w k)"
proof -
  have "g (commodity (fold (\<lambda>cid w'. case amount cid of
          Some a \<Rightarrow> register_demand n cid a reason w' | None \<Rightarrow> w') xs w) k) = g (commodity w k)"
    for xs
    by (induction xs arbitrary: w)
       (simp_all add: register_demand_commodity_frame[of g, OF assms] split: option.split)
  then show ?thesis by (simp add: register_each_def)
qed

lemma register_each_world:
  "commodity_size (register_each n reason amount w) = commodity_size w"
  "world_defines (register_each n reason amount w) = world_defines w"
proof -
  have "commodity_size (fold (\<lambda>cid w'. case amount cid of
          Some a \<Rightarrow> register_demand n cid a reason w' | None \<Rightarrow> w') xs w) = commodity_size w
      \<and> world_defines (fold (\<lambda>cid w'. case amount cid of
          Some a \<Rightarrow> register_demand n cid a reason w' | None \<Rightarrow> w') xs w) = world_defines w"
    for xs
    by (induction xs arbitrary: w) (simp_all add: register_demand_world split: option.split)
  then show "commodity_size (register_each n reason amount w) = commodity_size w"
    "world_defines (register_each n reason amount w) = world_defines w"
    by (simp_all add: register_each_def)
qed

lemma update_national_consumption_frame:
  assumes "\<And>x d. f (x\<lparr>real_demand := d\<rparr>) = f x"
  shows "f (nation (update_national_consumption n sc pis w) k) = f (nation w k)"
  by (simp add: update_national_consumption_def Let_def register_each_frame[of f, OF assms])

lemma update_national_consumption_commodity_frame:
  assumes "\<And>x d. g (x\<lparr>demand_by_category := d\<rparr>) = g x"
  shows "g (commodity (update_national_consumption n sc pis w) k) = g (commodity w k)"
  by (simp add: update_national_consumption_def Let_def
      register_each_commodity_frame[of g, OF assms])

lemma update_national_consumption_world:
  "commodity_size (update_national_consumption n sc pis w) = commodity_size w"
  "world_defines (update_national_consumption n sc pis w) = world_defines w"
  by (simp_all add: update_national_consumption_def Let_def register_each_world)

lemma nation_set_stockpiles_frame:
  assumes "\<And>x v. f (x\<lparr>stockpiles := (stockpiles x)(c := v)\<rparr>) = f x"
  shows "f (nation (nation_set_stockpiles n c v w) k) = f (nation w k)"
  by (simp add: nation_set_stockpiles_def assms)

lemma pay_interest_frame:
  assumes "\<And>x v. f (x\<lparr>stockpiles := (stockpiles x)(money := v)\<rparr>) = f x"
  shows "f (nation (pay_interest n w) k) = f (nation w k)"
  by (simp add: pay_interest_def nation_set_stockpiles_frame[of f, OF assms])

lemma spending_setters_frame:
  "(\<And>x v. f (x\<lparr>maximum_military_costs := v\<rparr>) = f x) \<Longrightarrow>
     f (nation (nation_set_maximum_military_costs n v w) k) = f (nation w k)"
  "(\<And>x v. f (x\<lparr>spending_level := v\<rparr>) = f x) \<Longrightarrow>
     f (nation (nation_set_spending_level n v w) k) = f (nation w k)"
  "(\<And>x v. f (x\<lparr>private_investment_effective_fraction := v\<rparr>) = f x) \<Longrightarrow>
   (\<And>x v. f (x\<lparr>private_investment := v\<rparr>) = f x) \<Longrightarrow>
     f (nation (settle_private_investment n w) k) = f (nation w k)"
  by (simp_all add: nation_set_maximum_military_costs_def nation_set_spending_level_def
      settle_private_investment_def Let_def)

lemma spending_setters_world:
  "commodity (nation_set_maximum_military_costs n v w) = commodity w"
  "commodity (nation_set_spending_level n v w) = commodity w"
  "commodity (settle_private_investment n w) = commodity w"
  "commodity (nation_set_stockpiles n c v w) = commodity w"
  "commodity (pay_interest n w) = commodity w"
  "commodity_size (nation_set_maximum_military_costs n v w) = commodity_size w"
  "commodity_size (nation_set_spending_level n v w) = commodity_size w"
  "commodity_size (settle_private_investment n w) = commodity_size w"
  "commodity_size (nation_set_stockpiles n c v w) = commodity_size w"
  "commodity_size (pay_interest n w) = commodity_size w"
  "world_defines (nation_set_maximum_military_costs n v w) = world_defines w"
  "world_defines (nation_set_spending_level n v w) = world_defines w"
  "world_defines (settle_private_investment n w) = world_defines w"
  "world_defines (nation_set_stockpiles n c v w) = world_defines w"
  "world_defines (pay_interest n w) = world_defines w"
  by (simp_all add: nation_set_maximum_military_costs_def nation_set_spending_level_def
      settle_private_investment_def nation_set_stockpiles_def pay_interest_def Let_def)

lemma update_national_spending_frame:
  assumes rd: "\<And>x d. f (x\<lparr>real_demand := d\<rparr>) = f x"
      and mm: "\<And>x v. f (x\<lparr>maximum_military_costs := v\<rparr>) = f x"
      and st: "\<And>x v. f (x\<lparr>stockpiles := (stockpiles x)(money := v)\<rparr>) = f x"
      and sl: "\<And>x v. f (x\<lparr>spending_level := v\<rparr>) = f x"
      and pf: "\<And>x v. f (x\<lparr>private_investment_effective_fraction := v\<rparr>) = f x"
      and pi: "\<And>x v. f (x\<lparr>private_investment := v\<rparr>) = f x"
  shows "f (nation (update_national_spending n w) k) = f (nation w k)"
  unfolding update_national_spending_def Let_def
  by (simp only: update_national_consumption_frame[of f, OF rd]
      spending_setters_frame(1)[of f, OF mm] spending_setters_frame(2)[of f, OF sl]
      spending_setters_frame(3)[of f, OF pf pi] nation_set_stockpiles_frame[of f, OF st]
      pay_interest_frame[of f, OF st])

lemma update_national_spending_commodity_frame:
  assumes "\<And>x d. g (x\<lparr>demand_by_category := d\<rparr>) = g x"
  shows "g (commodity (update_national_spending n w) k) = g (commodity w k)"
  unfolding update_national_spending_def Let_def
  by (simp only: update_national_consumption_commodity_frame[of g, OF assms]
      spending_setters_world)

lemma update_national_spending_world:
  "commodity_size (update_national_spending n w) = commodity_size w"
  "world_defines (update_national_spending n w) = world_defines w"
  unfolding update_national_spending_def Let_def
  by (simp_all only: update_national_consumption_world spending_setters_world)

text \<open>The readings of a state that the clearing and the refunds take, after the spending pass.\<close>

lemma update_national_spending_keeps:
  "demand_satisfaction (nation (update_national_spending n w) k) = demand_satisfaction (nation w k)"
  "domestic_market_pool (nation (update_national_spending n w) k) = domestic_market_pool (nation w k)"
  "in_sphere_of (nation (update_national_spending n w) k) = in_sphere_of (nation w k)"
  "drawing_on_stockpiles (nation (update_national_spending n w) k) = drawing_on_stockpiles (nation w k)"
  "navy_demand (nation (update_national_spending n w) k) = navy_demand (nation w k)"
  "army_demand (nation (update_national_spending n w) k) = army_demand (nation w k)"
  "stockpile_targets (nation (update_national_spending n w) k) = stockpile_targets (nation w k)"
  "owned_province_count (nation (update_national_spending n w) k) = owned_province_count (nation w k)"
  "central_province_count (nation (update_national_spending n w) k) = central_province_count (nation w k)"
  "tariffs (nation (update_national_spending n w) k) = tariffs (nation w k)"
  "tariff_efficiency (nation (update_national_spending n w) k) = tariff_efficiency (nation w k)"
  "central_ports (nation (update_national_spending n w) k) = central_ports (nation w k)"
  "central_blockaded (nation (update_national_spending n w) k) = central_blockaded (nation w k)"
  by (rule update_national_spending_frame; simp)+

lemma update_national_spending_goods:
  "c \<noteq> money \<Longrightarrow>
     stockpiles (nation (update_national_spending n w) k) c = stockpiles (nation w k) c"
  by (rule update_national_spending_frame[of "\<lambda>x. stockpiles x c"]; simp)

lemma update_national_spending_commodity_keeps:
  "overseas_penalty_good (commodity (update_national_spending n w) c) = overseas_penalty_good (commodity w c)"
  "is_available_from_start (commodity (update_national_spending n w) c) = is_available_from_start (commodity w c)"
  "key_factory (commodity (update_national_spending n w) c) = key_factory (commodity w c)"
  "current_price (commodity (update_national_spending n w) c) = current_price (commodity w c)"
  "global_market_pool (commodity (update_national_spending n w) c) = global_market_pool (commodity w c)"
  by (rule update_national_spending_commodity_frame; simp)+

text \<open>
  What the clearing leaves alone. It writes, of a nation, the two satisfaction ratios, the
  market pool, the stockpiles and the imports, and of a commodity the global pool.
\<close>

lemma market_setters_frame:
  "(\<And>x d. f (x\<lparr>demand_satisfaction := d\<rparr>) = f x) \<Longrightarrow>
     f (nation (nation_set_demand_satisfaction n c v w) k) = f (nation w k)"
  "(\<And>x d. f (x\<lparr>direct_demand_satisfaction := d\<rparr>) = f x) \<Longrightarrow>
     f (nation (nation_set_direct_demand_satisfaction n c v w) k) = f (nation w k)"
  "(\<And>x d. f (x\<lparr>domestic_market_pool := d\<rparr>) = f x) \<Longrightarrow>
     f (nation (nation_set_domestic_market_pool n c v w) k) = f (nation w k)"
  "(\<And>x d. f (x\<lparr>nation_imports := d\<rparr>) = f x) \<Longrightarrow>
     f (nation (nation_set_imports n c v w) k) = f (nation w k)"
  by (simp_all add: nation_set_demand_satisfaction_def nation_set_direct_demand_satisfaction_def
      nation_set_domestic_market_pool_def nation_set_imports_def)

lemma market_setters_world:
  "commodity_size (nation_set_demand_satisfaction n c v w) = commodity_size w"
  "commodity_size (nation_set_direct_demand_satisfaction n c v w) = commodity_size w"
  "commodity_size (nation_set_domestic_market_pool n c v w) = commodity_size w"
  "commodity_size (nation_set_imports n c v w) = commodity_size w"
  "commodity_size (nation_set_stockpiles n c v w) = commodity_size w"
  "commodity_size (commodity_set_global_market_pool c v w) = commodity_size w"
  "(\<And>x v. g (x\<lparr>global_market_pool := v\<rparr>) = g x) \<Longrightarrow>
     g (commodity (commodity_set_global_market_pool c v w) c') = g (commodity w c')"
  by (simp_all add: nation_set_demand_satisfaction_def nation_set_direct_demand_satisfaction_def
      nation_set_domestic_market_pool_def nation_set_imports_def nation_set_stockpiles_def
      commodity_set_global_market_pool_def)

lemma clear_market_commodity_frame:
  assumes ds: "\<And>x d. f (x\<lparr>demand_satisfaction := d\<rparr>) = f x"
      and dd: "\<And>x d. f (x\<lparr>direct_demand_satisfaction := d\<rparr>) = f x"
      and dp: "\<And>x d. f (x\<lparr>domestic_market_pool := d\<rparr>) = f x"
      and im: "\<And>x d. f (x\<lparr>nation_imports := d\<rparr>) = f x"
      and st: "\<And>x v. f (x\<lparr>stockpiles := (stockpiles x)(c := v)\<rparr>) = f x"
  shows "f (nation (clear_market_commodity n m c w) k) = f (nation w k)"
proof -
  note frames = market_setters_frame(1)[of f, OF ds] market_setters_frame(2)[of f, OF dd]
    market_setters_frame(3)[of f, OF dp] market_setters_frame(4)[of f, OF im]
    nation_set_stockpiles_frame[of f, OF st] commodity_set_global_market_pool_sel(2)
  have sat: "f (nation (update_satisfaction n c w) k) = f (nation w k)"
    by (simp add: update_satisfaction_def Let_def frames)
  have dom: "f (nation (consume_domestic_first n c w') k) = f (nation w' k)" for w'
    by (cases "in_sphere_of (nation w' n)"; cases "drawing_on_stockpiles (nation w' n) c";
        simp add: consume_domestic_first_def Let_def frames)
  have glob: "f (nation (consume_global_first n c w') k) = f (nation w' k)" for w'
    by (cases "in_sphere_of (nation w' n)"; cases "drawing_on_stockpiles (nation w' n) c";
        simp add: consume_global_first_def Let_def frames)
  show ?thesis
    by (simp add: clear_market_commodity_def Let_def sat dom glob)
qed

lemma clear_market_commodity_commodity_frame:
  assumes "\<And>x v. g (x\<lparr>global_market_pool := v\<rparr>) = g x"
  shows "g (commodity (clear_market_commodity n m c w) c') = g (commodity w c')"
proof -
  note frames = market_setters_world(7)[of g, OF assms] market_sel
  have dom: "g (commodity (consume_domestic_first n c w') c') = g (commodity w' c')" for w'
    by (cases "in_sphere_of (nation w' n)"; cases "drawing_on_stockpiles (nation w' n) c";
        simp add: consume_domestic_first_def Let_def frames)
  have glob: "g (commodity (consume_global_first n c w') c') = g (commodity w' c')" for w'
    by (cases "in_sphere_of (nation w' n)"; cases "drawing_on_stockpiles (nation w' n) c";
        simp add: consume_global_first_def Let_def frames)
  show ?thesis
    by (simp add: clear_market_commodity_def Let_def dom glob update_satisfaction_frame)
qed

lemma clear_market_commodity_size:
  "commodity_size (clear_market_commodity n m c w) = commodity_size w"
proof -
  have sat: "commodity_size (update_satisfaction n c w) = commodity_size w"
    by (simp add: update_satisfaction_def Let_def market_setters_world)
  have dom: "commodity_size (consume_domestic_first n c w') = commodity_size w'" for w'
    by (cases "in_sphere_of (nation w' n)"; cases "drawing_on_stockpiles (nation w' n) c";
        simp add: consume_domestic_first_def Let_def market_setters_world)
  have glob: "commodity_size (consume_global_first n c w') = commodity_size w'" for w'
    by (cases "in_sphere_of (nation w' n)"; cases "drawing_on_stockpiles (nation w' n) c";
        simp add: consume_global_first_def Let_def market_setters_world)
  show ?thesis
    by (simp add: clear_market_commodity_def Let_def sat dom glob)
qed

lemma clear_market_commodity_stockpiles:
  assumes "\<not> drawing_on_stockpiles (nation w n) c"
  shows "stockpiles (nation (clear_market_commodity n m c w) k) = stockpiles (nation w k)"
proof -
  have dom: "stockpiles (nation (consume_domestic_first n c w') k) = stockpiles (nation w' k)"
    if "\<not> drawing_on_stockpiles (nation w' n) c" for w'
    using that
    by (cases "in_sphere_of (nation w' n)")
       (simp_all add: consume_domestic_first_def Let_def market_sel)
  have glob: "stockpiles (nation (consume_global_first n c w') k) = stockpiles (nation w' k)"
    if "\<not> drawing_on_stockpiles (nation w' n) c" for w'
    using that
    by (cases "in_sphere_of (nation w' n)")
       (simp_all add: consume_global_first_def Let_def market_sel)
  show ?thesis
    using assms
    by (simp add: clear_market_commodity_def Let_def dom glob update_satisfaction_frame)
qed

lemma clear_market_frame:
  assumes ds: "\<And>x d. f (x\<lparr>demand_satisfaction := d\<rparr>) = f x"
      and dd: "\<And>x d. f (x\<lparr>direct_demand_satisfaction := d\<rparr>) = f x"
      and dp: "\<And>x d. f (x\<lparr>domestic_market_pool := d\<rparr>) = f x"
      and im: "\<And>x d. f (x\<lparr>nation_imports := d\<rparr>) = f x"
      and st: "\<And>x d. f (x\<lparr>stockpiles := d\<rparr>) = f x"
  shows "f (nation (clear_market n w) k) = f (nation w k)"
proof -
  have "f (nation (fold (clear_market_commodity n m) xs w) k) = f (nation w k)" for m xs
    by (induction xs arbitrary: w)
       (simp_all add: clear_market_commodity_frame[of f, OF ds dd dp im st])
  then show ?thesis by (simp add: clear_market_def)
qed

lemma clear_market_commodity_table_frame:
  assumes "\<And>x v. g (x\<lparr>global_market_pool := v\<rparr>) = g x"
  shows "g (commodity (clear_market n w) c) = g (commodity w c)"
proof -
  have "g (commodity (fold (clear_market_commodity n m) xs w) c) = g (commodity w c)" for m xs
    by (induction xs arbitrary: w)
       (simp_all add: clear_market_commodity_commodity_frame[of g, OF assms])
  then show ?thesis by (simp add: clear_market_def)
qed

lemma clear_market_world:
  "commodity_size (clear_market n w) = commodity_size w"
  "world_defines (clear_market n w) = world_defines w"
proof -
  have "commodity_size (fold (clear_market_commodity n m) xs w) = commodity_size w" for m xs
    by (induction xs arbitrary: w) (simp_all add: clear_market_commodity_size)
  then show "commodity_size (clear_market n w) = commodity_size w"
    by (simp add: clear_market_def)
  show "world_defines (clear_market n w) = world_defines w"
    by (simp add: clear_market_def fold_clear_market_flags)
qed

lemma clear_market_stockpiles:
  assumes "\<forall>c. \<not> drawing_on_stockpiles (nation w n) c"
  shows "stockpiles (nation (clear_market n w) k) = stockpiles (nation w k)"
proof -
  have "stockpiles (nation (fold (clear_market_commodity n m) xs w) k) = stockpiles (nation w k)"
    if "\<forall>c. \<not> drawing_on_stockpiles (nation w n) c" for m xs
    using that
    by (induction xs arbitrary: w)
       (simp_all add: clear_market_commodity_stockpiles clear_market_commodity_flags)
  then show ?thesis using assms by (simp add: clear_market_def)
qed

lemma clear_market_keeps:
  "spending_level (nation (clear_market n w) k) = spending_level (nation w k)"
  "navy_demand (nation (clear_market n w) k) = navy_demand (nation w k)"
  "army_demand (nation (clear_market n w) k) = army_demand (nation w k)"
  "stockpile_targets (nation (clear_market n w) k) = stockpile_targets (nation w k)"
  "drawing_on_stockpiles (nation (clear_market n w) k) = drawing_on_stockpiles (nation w k)"
  "owned_province_count (nation (clear_market n w) k) = owned_province_count (nation w k)"
  "central_province_count (nation (clear_market n w) k) = central_province_count (nation w k)"
  by (rule clear_market_frame; simp)+

lemma clear_market_goods_keep:
  "overseas_penalty_good (commodity (clear_market n w) c) = overseas_penalty_good (commodity w c)"
  "is_available_from_start (commodity (clear_market n w) c) = is_available_from_start (commodity w c)"
  "key_factory (commodity (clear_market n w) c) = key_factory (commodity w c)"
  "current_price (commodity (clear_market n w) c) = current_price (commodity w c)"
  by (rule clear_market_commodity_table_frame; simp)+

text \<open>
  The day of the nation of the example: the spending pass, the clearing of its market and
  the refunds, with an overseas budget of \<open>b\<close> percent.
\<close>

lemma overseas_example_facts:
  "commodity_size (overseas_example b) = 3"
  "full_spending_cost (overseas_example b) 0 = 2 * (real_of_int b / 100)"
  "stockpiles (nation (overseas_example b) 0) c = (if c = money then 100 else 0)"
  "\<not> can_take_loans (overseas_example b) 0"
  "\<not> is_player_controlled (nation (overseas_example b) 0)"
  "demand_satisfaction (nation (overseas_example b) 0) c = (if c = 1 then 0 else 1)"
  "domestic_market_pool (nation (overseas_example b) 0) c = 0"
  "in_sphere_of (nation (overseas_example b) 0) = None"
  "\<not> drawing_on_stockpiles (nation (overseas_example b) 0) c"
  "navy_demand (nation (overseas_example b) 0) c = 0"
  "army_demand (nation (overseas_example b) 0) c = 0"
  "stockpile_targets (nation (overseas_example b) 0) c = 0"
  "owned_province_count (nation (overseas_example b) 0) = 3"
  "central_province_count (nation (overseas_example b) 0) = 1"
  "province_overseas_penalty (world_defines (overseas_example b)) = 1"
  "alice_sat_delay_factor (world_defines (overseas_example b)) = 1 / 2"
  "overseas_penalty_good (commodity (overseas_example b) c) = (c = 1)"
  "is_available_from_start (commodity (overseas_example b) c)"
  "current_price (commodity (overseas_example b) c) = 1"
  "global_market_pool (commodity (overseas_example b) c) = 0"
  by (simp_all add: overseas_example_def blank_world_def blank_nation_def blank_commodity_def
      blank_defines_def blank_pop_type_def full_spending_cost_def army_cost_def navy_cost_def
      construction_cost_def stockpile_cost_def overseas_cost_def domestic_investment_cost_def
      pop_type_payments_def overseas_factor_of_def commodity_unlocked_def
      stockpile_shortfall_def can_take_loans_def money_def Let_def upt_rec)

lemma overseas_example_spent:
  assumes "0 \<le> b" and "b \<le> 100"
  shows "spending_level (nation (update_national_spending 0 (overseas_example b)) 0) = 1"
    and "stockpiles (nation (update_national_spending 0 (overseas_example b)) 0) money
           = 100 - 2 * (real_of_int b / 100)"
  using update_national_spending_result[of "overseas_example b" 0] assms
  unfolding Let_def
  by (simp_all add: overseas_example_facts)

lemma overseas_example_supply:
  "supply_ratio (update_national_spending 0 (overseas_example b)) 0 c = 0"
  by (simp add: supply_ratio_def market_supply_def domestic_side_pools_def
      update_national_spending_keeps update_national_spending_commodity_keeps
      overseas_example_facts)

lemma overseas_example_cleared:
  "demand_satisfaction
     (nation (clear_market 0 (update_national_spending 0 (overseas_example b))) 0) 1 = 0"
proof -
  have size: "(1::nat) \<le> 1" "1 < commodity_size (update_national_spending 0 (overseas_example b))"
    by (simp_all add: update_national_spending_world overseas_example_facts)
  show ?thesis
    unfolding clear_market_satisfaction(2)[OF size] overseas_example_supply
    by (simp add: update_national_spending_keeps overseas_example_facts)
qed

lemma overseas_example_refunds:
  assumes "0 \<le> b" and "b \<le> 100"
  shows "naval_refund (clear_market 0 (update_national_spending 0 (overseas_example b))) 0 = 0"
    and "land_refund (clear_market 0 (update_national_spending 0 (overseas_example b))) 0 = 0"
    and "stockpile_refund (clear_market 0 (update_national_spending 0 (overseas_example b))) 0 = 0"
    and "overseas_refund (clear_market 0 (update_national_spending 0 (overseas_example b))) 0 = 2"
proof -
  let ?w1 = "update_national_spending 0 (overseas_example b)"
  let ?w2 = "clear_market 0 ?w1"
  show "naval_refund ?w2 0 = 0"
    by (simp add: naval_refund_def Let_def clear_market_keeps update_national_spending_keeps
        overseas_example_facts)
  show "land_refund ?w2 0 = 0"
    by (simp add: land_refund_def Let_def clear_market_keeps update_national_spending_keeps
        overseas_example_facts)
  have idle: "\<forall>c. \<not> drawing_on_stockpiles (nation ?w1 0) c"
    by (simp add: update_national_spending_keeps overseas_example_facts)
  have goods: "stockpiles (nation ?w2 0) c = 0" if "c \<noteq> money" for c
    using that
    by (simp add: clear_market_stockpiles[OF idle] update_national_spending_goods
        overseas_example_facts)
  have "stockpile_shortfall ?w2 0 c = 0" if "c \<noteq> money" for c
    using that
    by (simp add: stockpile_shortfall_def goods clear_market_keeps update_national_spending_keeps
        overseas_example_facts)
  then have "\<forall>c\<in>set [1..<commodity_size ?w2]. stockpile_shortfall ?w2 0 c = 0"
    by (simp add: money_def)
  then have "(\<Sum>c\<leftarrow>[1..<commodity_size ?w2].
               (let difference = stockpile_shortfall ?w2 0 c
                in if difference > 0 \<and> drawing_on_stockpiles (nation ?w2 0) c = False
                   then (let sat = direct_demand_satisfaction (nation ?w2 0) c
                         in difference * (1 - sat) * spending_level (nation ?w2 0)
                            * current_price (commodity ?w2 c))
                   else 0)) = (\<Sum>c\<leftarrow>[1..<commodity_size ?w2]. 0)"
    by (intro sum_list_cong) (simp add: Let_def)
  then show "stockpile_refund ?w2 0 = 0"
    by (simp add: stockpile_refund_def Let_def)
  have size: "commodity_size ?w2 = 3"
    by (simp add: clear_market_world update_national_spending_world overseas_example_facts)
  have factor: "overseas_factor_of ?w2 0 = 2"
    by (simp add: overseas_factor_of_def clear_market_world clear_market_keeps
        update_national_spending_world update_national_spending_keeps overseas_example_facts)
  have level: "spending_level (nation ?w2 0) = 1"
    by (simp add: clear_market_keeps overseas_example_spent(1)[OF assms])
  have goods: "overseas_penalty_good (commodity ?w2 c) = (c = 1)"
    "commodity_unlocked ?w2 0 c" "current_price (commodity ?w2 c) = 1" for c
    by (simp_all add: commodity_unlocked_def clear_market_goods_keep
        update_national_spending_commodity_keeps overseas_example_facts)
  show "overseas_refund ?w2 0 = 2"
    using overseas_example_cleared[of b]
    by (simp add: overseas_refund_def Let_def size factor level goods upt_rec)
qed

lemma overseas_example_day:
  assumes "0 \<le> b" and "b \<le> 100"
  shows "stockpiles (nation (determine_effective_spending 0
           (clear_market 0 (update_national_spending 0 (overseas_example b)))) 0) money
         = 100 - 2 * (real_of_int b / 100) + 2"
proof -
  let ?w1 = "update_national_spending 0 (overseas_example b)"
  have idle: "\<forall>c. \<not> drawing_on_stockpiles (nation ?w1 0) c"
    by (simp add: update_national_spending_keeps overseas_example_facts)
  show ?thesis
    unfolding determine_effective_spending_treasury overseas_example_refunds[OF assms]
      clear_market_stockpiles[OF idle] overseas_example_spent(2)[OF assms]
    by simp
qed

text \<open>
  Claim C7 against the code. The nation of the example owns two overseas provinces and has
  set its overseas budget to 0. The spending pass charges it nothing for the overseas good
  and asks the market for none of it; its treasury of 100 is still 100 afterwards. The
  refund for the overseas good is nevertheless 2, the whole price of the purchase at a full
  budget, and the treasury ends the day at 102: the refund is not the unspent part of what
  was deducted. The refund leaves out the overseas budget, by which the cost and the demand
  are both scaled. At a budget of 100 percent the same nation is charged 2 and refunded 2.
\<close>

theorem overseas_refund_ignores_budget:
  "full_spending_cost (overseas_example 0) 0 = 0
   \<and> stockpiles (nation (overseas_example 0) 0) money = 100
   \<and> stockpiles (nation (update_national_spending 0 (overseas_example 0)) 0) money = 100
   \<and> overseas_refund (clear_market 0 (update_national_spending 0 (overseas_example 0))) 0 = 2
   \<and> stockpiles (nation (determine_effective_spending 0
        (clear_market 0 (update_national_spending 0 (overseas_example 0)))) 0) money = 102
   \<and> full_spending_cost (overseas_example 100) 0 = 2
   \<and> stockpiles (nation (update_national_spending 0 (overseas_example 100)) 0) money = 98
   \<and> overseas_refund (clear_market 0 (update_national_spending 0 (overseas_example 100))) 0 = 2
   \<and> stockpiles (nation (determine_effective_spending 0
        (clear_market 0 (update_national_spending 0 (overseas_example 100)))) 0) money = 100"
proof -
  have zero: "(0::int) \<le> 0" "(0::int) \<le> 100" and full: "(0::int) \<le> 100" "(100::int) \<le> 100"
    by simp_all
  show ?thesis
    using overseas_example_spent(2)[OF zero] overseas_example_refunds(4)[OF zero]
      overseas_example_day[OF zero]
      overseas_example_spent(2)[OF full] overseas_example_refunds(4)[OF full]
      overseas_example_day[OF full]
    by (simp add: overseas_example_facts)
qed

end
